theory Spec2Isabelle
  imports Main "HOL-Library.Word" "HOL-Library.Sublist"
begin

section \<open>Error taxonomy (package errors)\<close>

subsection \<open>Codes, kinds and the registry of info.go\<close>

text \<open>
  The codes are the keys of the registry \<open>errorCodeInfo\<close> of info.go; the kinds are the
  values of its \<open>Kind\<close> fields.
\<close>

datatype code =
    Unknown | InvalidParameter | InvalidAddress | InvalidFieldMask | EmptyFieldMask
  | MissingScopeId | MissingPublicId | MissingSetId | MissingVersion | MissingCatalogId
  | MissingHostIds | GenerateId
  | CheckConstraint | NotNull | NotUnique | NotSpecificIntegrity | MissingTable
  | RecordNotFound | MultipleRecords

datatype kind = Other | Parameter | Integrity | Search

record info =
  Kind :: kind
  Message :: string

text \<open>\<open>errorCodeInfo\<close> of info.go, entry by entry.\<close>

fun errorCodeInfo :: "code \<Rightarrow> info" where
  "errorCodeInfo Unknown = \<lparr>Kind = Other, Message = ''unknown''\<rparr>"
| "errorCodeInfo InvalidParameter = \<lparr>Kind = Parameter, Message = ''invalid parameter''\<rparr>"
| "errorCodeInfo InvalidAddress = \<lparr>Kind = Parameter, Message = ''invalid address''\<rparr>"
| "errorCodeInfo InvalidFieldMask = \<lparr>Kind = Parameter, Message = ''invalid field mask''\<rparr>"
| "errorCodeInfo EmptyFieldMask = \<lparr>Kind = Parameter, Message = ''empty field''\<rparr>"
| "errorCodeInfo MissingScopeId = \<lparr>Kind = Parameter, Message = ''missing scope id''\<rparr>"
| "errorCodeInfo MissingPublicId = \<lparr>Kind = Parameter, Message = ''missing public id''\<rparr>"
| "errorCodeInfo MissingSetId = \<lparr>Kind = Parameter, Message = ''missing set id''\<rparr>"
| "errorCodeInfo MissingVersion = \<lparr>Kind = Parameter, Message = ''missing version''\<rparr>"
| "errorCodeInfo MissingCatalogId = \<lparr>Kind = Parameter, Message = ''missing catalog id''\<rparr>"
| "errorCodeInfo MissingHostIds = \<lparr>Kind = Parameter, Message = ''missing host ids''\<rparr>"
| "errorCodeInfo GenerateId = \<lparr>Kind = Parameter, Message = ''failed to generate ID''\<rparr>"
| "errorCodeInfo CheckConstraint = \<lparr>Kind = Integrity, Message = ''constraint check failed''\<rparr>"
| "errorCodeInfo NotNull =
     \<lparr>Kind = Integrity, Message = ''must not be empty (null) violation''\<rparr>"
| "errorCodeInfo NotUnique = \<lparr>Kind = Integrity, Message = ''must be unique violation''\<rparr>"
| "errorCodeInfo NotSpecificIntegrity =
     \<lparr>Kind = Integrity, Message = ''Integrity violation without specific details''\<rparr>"
| "errorCodeInfo MissingTable = \<lparr>Kind = Integrity, Message = ''missing table''\<rparr>"
| "errorCodeInfo RecordNotFound = \<lparr>Kind = Search, Message = ''record not found''\<rparr>"
| "errorCodeInfo MultipleRecords = \<lparr>Kind = Search, Message = ''multiple records''\<rparr>"

text \<open>
  Modelled from the spec: the numbers of the codes and the texts of the kinds (code.go
  and kind.go are not under src/). "Code is an integer enumeration"; the numbers of five
  codes and the texts of two kinds are the ones the expected strings of
  \<open>TestError_Error\<close> and \<open>TestConvertError\<close> print, and every other number and text is a
  parameter (\<open>codeNum\<close>, \<open>kindText\<close>).
\<close>

record decls =
  codeNum :: "code \<Rightarrow> nat"
  kindText :: "kind \<Rightarrow> string"

definition codeNumber :: "decls \<Rightarrow> code \<Rightarrow> nat" where
  "codeNumber ds c =
     (case c of
        Unknown \<Rightarrow> 0
      | CheckConstraint \<Rightarrow> 1000
      | NotNull \<Rightarrow> 1001
      | NotUnique \<Rightarrow> 1002
      | MissingTable \<Rightarrow> 1004
      | _ \<Rightarrow> codeNum ds c)"

definition kindString :: "decls \<Rightarrow> kind \<Rightarrow> string" where
  "kindString ds k =
     (case k of
        Other \<Rightarrow> ''unknown''
      | Integrity \<Rightarrow> ''integrity violation''
      | _ \<Rightarrow> kindText ds k)"

subsection \<open>Errors, New and Wrap\<close>

text \<open>
  A Go \<open>error\<close> value is a domain error \<open>Err{Code, ErrorId, Msg, Wrapped}\<close> (the struct
  literal of \<open>Test_NewError\<close>), an error of the store driver (\<open>pq.Error\<close> with its native
  code and texts), or any other foreign error with its text. A nil error is \<open>None\<close> of
  \<open>error option\<close>.
\<close>

datatype error =
    Err (Code: code) (ErrorId: string) (Msg: string) (Wrapped: "error option")
  | PqError (pqCode: string) (pqMessage: string) (pqDetail: string)
      (pqColumn: string) (pqConstraint: string)
  | StdError string

text \<open>
  The options of \<open>New\<close> and \<open>Wrap\<close>. They are applied in order, so the last message and
  the last wrapped error given are the ones kept.
\<close>

datatype opt = WithMsg string | WithWrap error

fun withMsg :: "opt list \<Rightarrow> string" where
  "withMsg [] = []"
| "withMsg (WithMsg m # os) = (case [m'. WithMsg m' \<leftarrow> os] of [] \<Rightarrow> m | _ \<Rightarrow> withMsg os)"
| "withMsg (WithWrap e # os) = withMsg os"

fun withWrap :: "opt list \<Rightarrow> error option" where
  "withWrap [] = None"
| "withWrap (WithWrap e # os) = (case [e'. WithWrap e' \<leftarrow> os] of [] \<Rightarrow> Some e | _ \<Rightarrow> withWrap os)"
| "withWrap (WithMsg m # os) = withWrap os"

text \<open>
  Modelled from the spec: \<open>New\<close> and \<open>Wrap\<close> (error.go, not under src/). \<open>New\<close> builds
  an error "carrying code, an opaque site id, and optional message/wrap"; \<open>Wrap\<close> keeps
  the code of a domain error and chains it, sets the message only when one is supplied,
  and gives a foreign error the code \<open>Unknown\<close>. \<open>Test_NewError\<close> and \<open>Test_WrapError\<close>
  fix the fields, and that \<open>Wrap\<close> ignores a \<open>WithWrap\<close> option.
\<close>

definition New :: "code \<Rightarrow> string \<Rightarrow> opt list \<Rightarrow> error" where
  "New c i os = Err c i (withMsg os) (withWrap os)"

definition Wrap :: "error \<Rightarrow> string \<Rightarrow> opt list \<Rightarrow> error" where
  "Wrap e i os =
     (case e of
        Err c _ _ _ \<Rightarrow> Err c i (withMsg os) (Some e)
      | _ \<Rightarrow> Err Unknown i (withMsg os) (Some e))"

text \<open>
  Modelled from the spec: \<open>Is\<close> (not under src/), "structural equality over the error
  chain by identity/code, not by message text": the chain of \<open>Wrapped\<close> errors is walked
  and each link compared with the target. Go compares pointers; the model compares
  values, so a sentinel is its value.
\<close>

fun Is :: "error \<Rightarrow> error \<Rightarrow> bool" where
  "Is (Err c i m None) t = (Err c i m None = t)"
| "Is (Err c i m (Some w)) t = (Err c i m (Some w) = t \<or> Is w t)"
| "Is (PqError a b c d e) t = (PqError a b c d e = t)"
| "Is (StdError s) t = (StdError s = t)"

text \<open>The codes along the chain of an error, outermost first.\<close>

fun chainCodes :: "error \<Rightarrow> code list" where
  "chainCodes (Err c i m None) = [c]"
| "chainCodes (Err c i m (Some w)) = c # chainCodes w"
| "chainCodes (PqError a b c d e) = []"
| "chainCodes (StdError s) = []"

subsection \<open>The error string\<close>

text \<open>\<open>%d\<close> of a non-negative number.\<close>

function showNat :: "nat \<Rightarrow> string" where
  "showNat n =
     (if n < 10 then [''0123456789'' ! n]
      else showNat (n div 10) @ [''0123456789'' ! (n mod 10)])"
  by pat_completeness auto
termination
  by (relation "measure id") auto

declare showNat.simps [simp del]

text \<open>Appending a part to a string under construction, with the separator between.\<close>

definition join :: "string \<Rightarrow> string \<Rightarrow> string \<Rightarrow> string" where
  "join s sep x = (if s = [] then x else s @ sep @ x)"

text \<open>
  Modelled from the spec: \<open>Err.Error\<close> (error.go, not under src/). The format is
  "[id: ][msg: ]<kindText>[, <subtext>]: error #<code>"; the expected strings of
  \<open>TestError_Error\<close> fix the parts (with a message: the message and the text of the
  kind; without: the default message of the registry, a comma and the text of the
  kind), and those of \<open>TestConvertError\<close> show that the string of a wrapped error
  follows, after a colon, a space and a newline. A foreign error prints its own text
  (\<open>pq.Error\<close>: the driver's prefix and message).
\<close>

fun Error :: "decls \<Rightarrow> error \<Rightarrow> string" where
  "Error ds (Err c i m w) =
     (let s0 = (if i \<noteq> [] then join [] '': '' i else []);
          s1 = (if m \<noteq> [] then join s0 '': '' m else s0);
          s2 = (if m = []
                then join (join s1 '': '' (Message (errorCodeInfo c))) '', ''
                       (kindString ds (Kind (errorCodeInfo c)))
                else join s1 '': '' (kindString ds (Kind (errorCodeInfo c))));
          s3 = join s2 '': '' (''error #'' @ showNat (codeNumber ds c))
      in case w of
           None \<Rightarrow> s3
         | Some e \<Rightarrow> join s3 ('': '' @ [CHR 0x0A]) (Error ds e))"
| "Error ds (PqError a b c d e) = ''pq: '' @ b"
| "Error ds (StdError s) = s"

text \<open>
  The format as the specification words it, for an error with code \<open>c\<close>, id \<open>i\<close> and
  message \<open>m\<close>: the optional id, the optional message, the kind text with its optional
  subtext, and the code.
\<close>

definition specFormat :: "decls \<Rightarrow> code \<Rightarrow> string \<Rightarrow> string \<Rightarrow> string" where
  "specFormat ds c i m =
     (if i = [] then [] else i @ '': '') @
     (if m = [] then Message (errorCodeInfo c) @ '', '' @ kindString ds (Kind (errorCodeInfo c))
      else m @ '': '' @ kindString ds (Kind (errorCodeInfo c))) @
     '': error #'' @ showNat (codeNumber ds c)"

subsection \<open>Convert\<close>

text \<open>
  Modelled from the spec: the sentinels of the constraint violations (not under src/),
  domain errors with the code of the violation; their strings are the second lines of
  the expected strings of \<open>TestConvertError\<close>.
\<close>

definition ErrNotUnique :: error where
  "ErrNotUnique = Err NotUnique [] ''unique constraint violation'' None"

definition ErrNotNull :: error where
  "ErrNotNull = Err NotNull [] ''not null constraint violated'' None"

definition ErrCheckConstraint :: error where
  "ErrCheckConstraint = Err CheckConstraint [] ''check constraint violated'' None"

text \<open>
  Modelled from the spec: \<open>Convert\<close> (not under src/). It "inspects a raw store-driver
  error (e.g., its native error code) and maps known constraint-violation classes
  (unique, not-null, check, missing-relation) to corresponding domain codes", and
  returns nil "when the error does not match any known pattern". The native codes are
  the SQLSTATE values of the driver: class 23 is the integrity class, 23505 the unique,
  23502 the not-null and 23514 the check violation, 42P01 the undefined table;
  \<open>TestConvertError\<close> fixes the messages, the wrapped sentinels and the result for
  another code of class 23.
\<close>

definition Convert :: "error option \<Rightarrow> string \<Rightarrow> error option" where
  "Convert e i =
     (case e of
        None \<Rightarrow> None
      | Some (PqError c msg detail column cons) \<Rightarrow>
          if take 2 c = ''23'' then
            (if c = ''23505'' then Some (New NotUnique i [WithMsg detail, WithWrap ErrNotUnique])
             else if c = ''23502'' then
               Some (New NotNull i [WithMsg (column @ '' must not be empty''), WithWrap ErrNotNull])
             else if c = ''23514'' then
               Some (New CheckConstraint i
                 [WithMsg (cons @ '' constraint failed''), WithWrap ErrCheckConstraint])
             else Some (New NotSpecificIntegrity i [WithMsg msg]))
          else if c = ''42P01'' then Some (New MissingTable i [WithMsg msg])
          else None
      | Some _ \<Rightarrow> None)"

section \<open>API error handler (package handlers)\<close>

record errorDetails =
  RequestFields :: "(string \<times> string) list"
  DetailsErrorId :: string

record pbError =
  pbStatus :: nat
  pbCode :: string
  pbMessage :: string
  pbDetails :: "errorDetails option"

text \<open>
  The errors the handler receives: the routing error of the gateway, the two request
  errors of the helpers \<open>NotFoundErrorf\<close> and \<open>InvalidArgumentErrorf\<close> (the field map in
  the order of its keys), an RPC status error with its code, and any error of the
  repositories.
\<close>

datatype rpcCode = Unimplemented | OtherRpcCode nat

datatype inErr =
    ErrNotMatch
  | NotFoundError string
  | InvalidArgumentError string "(string \<times> string) list"
  | StatusError rpcCode string
  | RepoError error

text \<open>The two fixed messages of the handler, declared outside src/, are parameters.\<close>

record handlerConsts =
  genericUniquenessMsg :: string
  genericNotFoundMsg :: string

text \<open>
  Modelled from the spec: \<open>ErrorHandler\<close> (handlers/errors.go, not under src/; its test
  \<open>TestApiErrorHandler\<close> is), the ordered mapping of section 4.2, first match wins.
  \<open>errId\<close> is the id the handler generates for a 500 response.
\<close>

definition ErrorHandler :: "handlerConsts \<Rightarrow> string \<Rightarrow> inErr \<Rightarrow> pbError" where
  "ErrorHandler hc errId inErr =
     (case inErr of
        ErrNotMatch \<Rightarrow>
          \<lparr>pbStatus = 404, pbCode = ''NotFound'', pbMessage = ''Not Found'', pbDetails = None\<rparr>
      | NotFoundError msg \<Rightarrow>
          \<lparr>pbStatus = 404, pbCode = ''NotFound'', pbMessage = msg, pbDetails = None\<rparr>
      | InvalidArgumentError msg fs \<Rightarrow>
          \<lparr>pbStatus = 400, pbCode = ''InvalidArgument'', pbMessage = msg,
           pbDetails = Some \<lparr>RequestFields = fs, DetailsErrorId = []\<rparr>\<rparr>
      | StatusError Unimplemented msg \<Rightarrow>
          \<lparr>pbStatus = 405, pbCode = ''Unimplemented'', pbMessage = msg, pbDetails = None\<rparr>
      | RepoError (Err c i m w) \<Rightarrow>
          if c = InvalidFieldMask \<or> c = EmptyFieldMask then
            \<lparr>pbStatus = 400, pbCode = ''InvalidArgument'',
             pbMessage = ''Error in provided request'',
             pbDetails = Some \<lparr>RequestFields =
               [(''update_mask'', ''Invalid update mask provided.'')], DetailsErrorId = []\<rparr>\<rparr>
          else if c = NotUnique then
            \<lparr>pbStatus = 400, pbCode = ''InvalidArgument'',
             pbMessage = genericUniquenessMsg hc, pbDetails = None\<rparr>
          else if c = RecordNotFound then
            \<lparr>pbStatus = 404, pbCode = ''NotFound'',
             pbMessage = genericNotFoundMsg hc, pbDetails = None\<rparr>
          else
            \<lparr>pbStatus = 500, pbCode = ''Internal'', pbMessage = [],
             pbDetails = Some \<lparr>RequestFields = [], DetailsErrorId = errId\<rparr>\<rparr>
      | _ \<Rightarrow>
          \<lparr>pbStatus = 500, pbCode = ''Internal'', pbMessage = [],
           pbDetails = Some \<lparr>RequestFields = [], DetailsErrorId = errId\<rparr>\<rparr>)"

section \<open>Static host repositories (package static)\<close>

subsection \<open>Entities\<close>

type_synonym wrapper = string
type_synonym ticket = string
type_synonym message = string
type_synonym metadata = "(string \<times> string list) list"

datatype opType = OP_TYPE_UNSPECIFIED | OP_TYPE_CREATE | OP_TYPE_UPDATE | OP_TYPE_DELETE

text \<open>
  Modelled from the spec: \<open>OpType.String\<close> of the generated oplog package (not under
  src/), the "operation-type tags" of the metadata: the name of the enumeration value.
\<close>

fun opTypeString :: "opType \<Rightarrow> string" where
  "opTypeString OP_TYPE_UNSPECIFIED = ''OP_TYPE_UNSPECIFIED''"
| "opTypeString OP_TYPE_CREATE = ''OP_TYPE_CREATE''"
| "opTypeString OP_TYPE_UPDATE = ''OP_TYPE_UPDATE''"
| "opTypeString OP_TYPE_DELETE = ''OP_TYPE_DELETE''"

text \<open>\<open>metadata[k]\<close> (nil for a missing key) and \<open>metadata[k] = append(metadata[k], v)\<close>.\<close>

definition mdGet :: "metadata \<Rightarrow> string \<Rightarrow> string list" where
  "mdGet md k = (case map_of md k of None \<Rightarrow> [] | Some vs \<Rightarrow> vs)"

fun mdSet :: "metadata \<Rightarrow> string \<Rightarrow> string list \<Rightarrow> metadata" where
  "mdSet [] k vs = [(k, vs)]"
| "mdSet ((k', vs') # md) k vs = (if k' = k then (k, vs) # md else (k', vs') # mdSet md k vs)"

definition mdAppend :: "metadata \<Rightarrow> string \<Rightarrow> string \<Rightarrow> metadata" where
  "mdAppend md k v = mdSet md k (mdGet md k @ [v])"

record host =
  h_PublicId :: string
  h_CatalogId :: string
  h_Name :: string
  h_Description :: string
  h_Address :: string
  h_Version :: "32 word"

record hostCatalog =
  c_PublicId :: string
  c_ScopeId :: string
  c_Name :: string
  c_Description :: string
  c_Version :: "32 word"

record hostSet =
  s_PublicId :: string
  s_Version :: "32 word"

text \<open>A host set member is the pair of its set id and its host id.\<close>

type_synonym hostSetMember = "string \<times> string"

record change =
  Action :: string
  HostId :: string

datatype param = PString string | PInt int

text \<open>The options \<open>getOpts\<close> returns (options.go is not under src/).\<close>

record options =
  withPublicId :: string
  withLimit :: int

subsection \<open>Collaborators\<close>

text \<open>
  Every call to a collaborator is recorded, in order. The store is a value of type
  \<open>'db\<close>; a world is the store and the calls made so far.
\<close>

datatype event =
    GetWrapperCall string
  | NewPublicIdCall string
  | TxBegin
  | TxCommit
  | TxRollback
  | LookupCall string
  | SearchCall string "param list" int
  | QueryCall string "string list"
  | CreateCall string wrapper metadata
  | UpdateCall string "string list" "string list" "(wrapper \<times> metadata) option" "32 word"
  | DeleteCall string wrapper metadata
  | CreateItemsCall "hostSetMember list"
  | DeleteItemsCall "hostSetMember list"
  | GetTicketCall string
  | WriteOplogCall wrapper ticket metadata "message list"

type_synonym 'db world = "'db \<times> event list"

text \<open>
  \<open>db.Reader\<close>: \<open>LookupByPublicId\<close> for a host and for a catalog, \<open>SearchWhere\<close> for
  hosts, \<open>Query\<close> with the rows it yields and \<open>ScanRows\<close> for one row.
\<close>

record 'db reader =
  r_LookupHost :: "string \<Rightarrow> 'db \<Rightarrow> error + host"
  r_LookupCatalog :: "string \<Rightarrow> 'db \<Rightarrow> error + hostCatalog"
  r_SearchHosts :: "string \<Rightarrow> param list \<Rightarrow> int \<Rightarrow> 'db \<Rightarrow> error + host list"
  r_Query :: "string \<Rightarrow> string list \<Rightarrow> 'db \<Rightarrow> error + (string \<times> string) list"
  r_ScanRows :: "string \<times> string \<Rightarrow> error + change"

text \<open>
  \<open>db.Writer\<close>. A call returns its result and the store it leaves, also when it fails.
  \<open>Update\<close> and \<open>Delete\<close> return the number of rows affected; \<open>Create\<close> and \<open>Update\<close>
  return the entity as the store filled it in; the calls made with \<open>NewOplogMsg(s)\<close>
  return the oplog messages. \<open>w_Commit\<close> is the commit of a transaction, \<open>w_Transient\<close>
  the class of store failures \<open>DoTx\<close> retries, \<open>w_Exhausted\<close> the error it reports when
  the retries are used up.
\<close>

record 'db writer =
  w_CreateHost :: "host \<Rightarrow> wrapper \<Rightarrow> metadata \<Rightarrow> 'db \<Rightarrow> (error + host) \<times> 'db"
  w_CreateCatalog ::
    "hostCatalog \<Rightarrow> wrapper \<Rightarrow> metadata \<Rightarrow> 'db \<Rightarrow> (error + hostCatalog) \<times> 'db"
  w_UpdateHost ::
    "host \<Rightarrow> string list \<Rightarrow> string list \<Rightarrow> wrapper \<Rightarrow> metadata \<Rightarrow> 32 word \<Rightarrow> 'db
      \<Rightarrow> (error + int \<times> host) \<times> 'db"
  w_UpdateCatalog ::
    "hostCatalog \<Rightarrow> string list \<Rightarrow> string list \<Rightarrow> wrapper \<Rightarrow> metadata \<Rightarrow> 32 word \<Rightarrow> 'db
      \<Rightarrow> (error + int \<times> hostCatalog) \<times> 'db"
  w_UpdateSet ::
    "hostSet \<Rightarrow> string list \<Rightarrow> 32 word \<Rightarrow> 'db \<Rightarrow> (error + int \<times> message) \<times> 'db"
  w_DeleteHost :: "host \<Rightarrow> wrapper \<Rightarrow> metadata \<Rightarrow> 'db \<Rightarrow> (error + int) \<times> 'db"
  w_DeleteCatalog :: "hostCatalog \<Rightarrow> wrapper \<Rightarrow> metadata \<Rightarrow> 'db \<Rightarrow> (error + int) \<times> 'db"
  w_CreateItems :: "hostSetMember list \<Rightarrow> 'db \<Rightarrow> (error + message list) \<times> 'db"
  w_DeleteItems :: "hostSetMember list \<Rightarrow> 'db \<Rightarrow> (error + int \<times> message list) \<times> 'db"
  w_GetTicket :: "hostSet \<Rightarrow> 'db \<Rightarrow> (error + ticket) \<times> 'db"
  w_WriteOplogEntryWith ::
    "wrapper \<Rightarrow> ticket \<Rightarrow> metadata \<Rightarrow> message list \<Rightarrow> 'db \<Rightarrow> error option \<times> 'db"
  w_Commit :: "'db \<Rightarrow> error option"
  w_Transient :: "error \<Rightarrow> bool"
  w_Exhausted :: "error \<Rightarrow> error"

text \<open>The \<open>Repository\<close> struct: its reader, its writer and its key manager.\<close>

record 'db repository =
  reader :: "'db reader"
  writer :: "'db writer"
  kms :: "string \<Rightarrow> error + wrapper"

text \<open>
  Declarations of the repository that are not under src/, and the functions of the
  standard library the code calls, as parameters: \<open>db.NewPublicId\<close>,
  \<open>NewHostSetMember\<close>, \<open>newHostSetForMembers\<close>, the \<open>oplog\<close> methods of a set and of a
  host, \<open>newCatalogMetadata\<close>, the query \<open>setChangesQuery\<close> with its in-clause filled in,
  \<open>dbcommon.BuildUpdatePaths\<close>, the bounds of a host address, \<open>db.StdRetryCnt\<close>, the
  sentinel \<open>errors.ErrRecordNotFound\<close>; \<open>strings.TrimSpace\<close>, \<open>strings.EqualFold\<close> and the
  verb \<open>%q\<close> of \<open>fmt\<close>.
\<close>

record pkg =
  NewPublicId :: "string \<Rightarrow> error + string"
  NewHostSetMember :: "string \<Rightarrow> string \<Rightarrow> error + hostSetMember"
  newHostSetForMembers :: "string \<Rightarrow> 32 word \<Rightarrow> hostSet"
  setOplog :: "hostSet \<Rightarrow> opType \<Rightarrow> metadata"
  hostOplog :: "host \<Rightarrow> opType \<Rightarrow> metadata"
  newCatalogMetadata :: "hostCatalog \<Rightarrow> opType \<Rightarrow> metadata"
  setChangesQuery :: "string \<Rightarrow> string"
  BuildUpdatePaths :: "(string \<times> string) list \<Rightarrow> string list \<Rightarrow> string list \<times> string list"
  MinHostAddressLength :: nat
  MaxHostAddressLength :: nat
  StdRetryCnt :: nat
  ErrRecordNotFound :: error
  TrimSpace :: "string \<Rightarrow> string"
  EqualFold :: "string \<Rightarrow> string \<Rightarrow> bool"
  Quote :: "string \<Rightarrow> string"

text \<open>
  Modelled from the spec: \<open>db.NoRowsAffected\<close> (not under src/), the count of "zero rows
  affected".
\<close>

definition NoRowsAffected :: int where
  "NoRowsAffected = 0"

definition readerCall :: "event \<Rightarrow> ('db \<Rightarrow> 'r) \<Rightarrow> 'db world \<Rightarrow> 'r \<times> 'db world" where
  "readerCall ev f w = (f (fst w), (fst w, snd w @ [ev]))"

definition writerCall :: "event \<Rightarrow> ('db \<Rightarrow> 'r \<times> 'db) \<Rightarrow> 'db world \<Rightarrow> 'r \<times> 'db world" where
  "writerCall ev f w = (case f (fst w) of (res, d) \<Rightarrow> (res, (d, snd w @ [ev])))"

definition GetWrapper :: "'db repository \<Rightarrow> string \<Rightarrow> 'db world \<Rightarrow> (error + wrapper) \<times> 'db world" where
  "GetWrapper r scopeId w = (kms r scopeId, (fst w, snd w @ [GetWrapperCall scopeId]))"

subsection \<open>DoTx\<close>

text \<open>
  Modelled from the spec: \<open>db.DoTx\<close> (not under src/). One attempt opens a transaction,
  runs the handler on the store and commits; "on any error during the transaction body,
  the whole transaction rolls back", and the store is the one before the attempt. It
  "retries only on transient/serialization-class store failures, not on validation or
  uniqueness failures": an error is retried, at most \<open>retries\<close> more times, when the
  foreign error at the end of its chain is of the transient class, so an error the
  repository itself creates never is. The store is deterministic, so an attempt that is
  repeated fails the same way.
\<close>

fun retryable :: "(error \<Rightarrow> bool) \<Rightarrow> error \<Rightarrow> bool" where
  "retryable t (Err c i m None) = False"
| "retryable t (Err c i m (Some w)) = retryable t w"
| "retryable t (PqError a b c d e) = t (PqError a b c d e)"
| "retryable t (StdError s) = t (StdError s)"

text \<open>
  Modelled from the spec: one attempt of \<open>DoTx\<close>. The handler runs on the store with no
  call recorded yet; the calls of the attempt are the opening of the transaction, the
  calls of the handler, and the commit or the rollback.
\<close>

definition attempt ::
  "'db writer \<Rightarrow> ('db world \<Rightarrow> (error + 'a) \<times> 'db world) \<Rightarrow> 'db
    \<Rightarrow> (error + 'a \<times> 'db) \<times> event list" where
  "attempt wr Handler d =
     (case Handler (d, []) of
        (Inl err, (_, evs)) \<Rightarrow> (Inl err, TxBegin # evs @ [TxRollback])
      | (Inr a, (d', evs)) \<Rightarrow>
          (case w_Commit wr d' of
             Some err \<Rightarrow> (Inl err, TxBegin # evs @ [TxRollback])
           | None \<Rightarrow> (Inr (a, d'), TxBegin # evs @ [TxCommit])))"

text \<open>
  Modelled from the spec: the attempts of \<open>DoTx\<close> with \<open>n\<close> retries left. When the last
  one fails with an error that would be retried, the error is the one of \<open>w_Exhausted\<close>.
\<close>

primrec attempts ::
  "'db writer \<Rightarrow> nat \<Rightarrow> ('db world \<Rightarrow> (error + 'a) \<times> 'db world) \<Rightarrow> 'db
    \<Rightarrow> (error + 'a \<times> 'db) \<times> event list" where
  "attempts wr 0 Handler d =
     (case attempt wr Handler d of
        (Inl err, evs) \<Rightarrow> (Inl (if retryable (w_Transient wr) err then w_Exhausted wr err else err), evs)
      | (Inr res, evs) \<Rightarrow> (Inr res, evs))"
| "attempts wr (Suc n) Handler d =
     (case attempt wr Handler d of
        (Inl err, evs) \<Rightarrow>
          if retryable (w_Transient wr) err
          then (case attempts wr n Handler d of (res, evs') \<Rightarrow> (res, evs @ evs'))
          else (Inl err, evs)
      | (Inr res, evs) \<Rightarrow> (Inr res, evs))"

text \<open>
  Modelled from the spec: \<open>DoTx\<close> in a world. After a failure the store is the one
  before the call; the calls of all attempts are recorded.
\<close>

definition DoTx ::
  "'db writer \<Rightarrow> nat \<Rightarrow> ('db world \<Rightarrow> (error + 'a) \<times> 'db world) \<Rightarrow> 'db world
    \<Rightarrow> (error + 'a) \<times> 'db world" where
  "DoTx wr retries Handler w =
     (case attempts wr retries Handler (fst w) of
        (Inl err, evs) \<Rightarrow> (Inl err, (fst w, snd w @ evs))
      | (Inr (a, d), evs) \<Rightarrow> (Inr a, (d, snd w @ evs)))"

subsection \<open>Host set members (repository_host_set_member.go)\<close>

fun newMembers :: "pkg \<Rightarrow> string \<Rightarrow> string list \<Rightarrow> error + hostSetMember list" where
  "newMembers p setId [] = Inr []"
| "newMembers p setId (hid # ids) =
     (case NewHostSetMember p setId hid of
        Inl err \<Rightarrow> Inl (Wrap err ''jU4QdTRAbt'' [])
      | Inr m \<Rightarrow>
          (case newMembers p setId ids of
             Inl err \<Rightarrow> Inl err
           | Inr members \<Rightarrow> Inr (m # members)))"

definition createMembers ::
  "'db writer \<Rightarrow> hostSetMember list \<Rightarrow> 'db world \<Rightarrow> (error + message list) \<times> 'db world" where
  "createMembers wr members w =
     (case writerCall (CreateItemsCall members) (w_CreateItems wr members) w of
        (Inl err, w1) \<Rightarrow>
          (Inl (Wrap err ''jgSkkXY7xw'' [WithMsg ''unable to create host set members'']), w1)
      | (Inr msgs, w1) \<Rightarrow> (Inr msgs, w1))"

definition updateVersion ::
  "'db writer \<Rightarrow> wrapper \<Rightarrow> metadata \<Rightarrow> message list \<Rightarrow> hostSet \<Rightarrow> 32 word \<Rightarrow> 'db world
    \<Rightarrow> error option \<times> 'db world" where
  "updateVersion wr wrapper md msgs hs version w =
     (case writerCall (UpdateCall (s_PublicId hs) [''Version''] [] None version)
             (w_UpdateSet wr hs [''Version''] version) w of
        (Inl err, w1) \<Rightarrow>
          (Some (Wrap err ''dPPD3sxiTJ'' [WithMsg ''unable to update host set version'']), w1)
      | (Inr (rowsUpdated, setMsg), w1) \<Rightarrow>
          if rowsUpdated > 1 then (Some (New MultipleRecords ''t0nw1GFJ4v'' []), w1)
          else
            (case writerCall (GetTicketCall (s_PublicId hs)) (w_GetTicket wr hs) w1 of
               (Inl err, w2) \<Rightarrow>
                 (Some (Wrap err ''73n9TZE5kb'' [WithMsg ''unable to get ticket'']), w2)
             | (Inr ticket, w2) \<Rightarrow>
                 (case writerCall (WriteOplogCall wrapper ticket md (msgs @ [setMsg]))
                         (w_WriteOplogEntryWith wr wrapper ticket md (msgs @ [setMsg])) w2 of
                    (Some err, w3) \<Rightarrow>
                      (Some (Wrap err ''wu4SnDa0Ab'' [WithMsg ''unable to write oplog'']), w3)
                  | (None, w3) \<Rightarrow> (None, w3))))"

definition unlimited :: int where
  "unlimited = - 1"

definition whereNoLimit :: string where
  "whereNoLimit =
     ''public_id in'' @ [CHR 0x0A] @
     ''       ( select host_id'' @ [CHR 0x0A] @
     ''           from static_host_set_member'' @ [CHR 0x0A] @
     ''          where set_id = $1'' @ [CHR 0x0A] @
     ''       )''"

definition whereLimit :: string where
  "whereLimit =
     ''public_id in'' @ [CHR 0x0A] @
     ''       ( select host_id'' @ [CHR 0x0A] @
     ''           from static_host_set_member'' @ [CHR 0x0A] @
     ''          where set_id = $1'' @ [CHR 0x0A] @
     ''          limit $2'' @ [CHR 0x0A] @
     ''       )''"

definition getHosts ::
  "'db reader \<Rightarrow> string \<Rightarrow> int \<Rightarrow> 'db world \<Rightarrow> (error + host list) \<times> 'db world" where
  "getHosts rd setId limit w =
     (let wh = (if limit = unlimited then whereNoLimit else whereLimit);
          params = (if limit = unlimited then [PString setId] else [PString setId, PInt limit])
      in case readerCall (SearchCall wh params limit) (r_SearchHosts rd wh params limit) w of
           (Inl err, w1) \<Rightarrow> (Inl (Wrap err ''5WNsz8rI9K'' []), w1)
         | (Inr hosts, w1) \<Rightarrow> if length hosts = 0 then (Inr [], w1) else (Inr hosts, w1))"

text \<open>The handler \<open>AddSetMembers\<close> passes to \<open>DoTx\<close>.\<close>

definition AddSetMembers_tx ::
  "pkg \<Rightarrow> 'db repository \<Rightarrow> wrapper \<Rightarrow> string \<Rightarrow> 32 word \<Rightarrow> hostSetMember list \<Rightarrow> 'db world
    \<Rightarrow> (error + host list) \<times> 'db world" where
  "AddSetMembers_tx p r wrapper setId version members w =
     (let hs = newHostSetForMembers p setId version;
          md = setOplog p hs OP_TYPE_CREATE
      in case createMembers (writer r) members w of
           (Inl err, w1) \<Rightarrow> (Inl err, w1)
         | (Inr msgs, w1) \<Rightarrow>
             (case updateVersion (writer r) wrapper md msgs hs version w1 of
                (Some err, w2) \<Rightarrow> (Inl err, w2)
              | (None, w2) \<Rightarrow> getHosts (reader r) setId unlimited w2))"

definition AddSetMembers ::
  "pkg \<Rightarrow> 'db repository \<Rightarrow> string \<Rightarrow> string \<Rightarrow> 32 word \<Rightarrow> string list \<Rightarrow> 'db world
    \<Rightarrow> (error + host list) \<times> 'db world" where
  "AddSetMembers p r scopeId setId version hostIds w =
     (if scopeId = [] then (Inl (New MissingScopeId ''xymycsueQZ'' []), w)
      else if setId = [] then (Inl (New MissingSetId ''bnxBOpC9ko'' []), w)
      else if version = 0 then (Inl (New MissingVersion ''9n49kDCsYS'' []), w)
      else if length hostIds = 0 then (Inl (New MissingHostIds ''lIT0VcwEBL'' []), w)
      else
        (case newMembers p setId hostIds of
           Inl err \<Rightarrow> (Inl (Wrap err ''9wyDoHpInL'' []), w)
         | Inr members \<Rightarrow>
             (case GetWrapper r scopeId w of
                (Inl err, w1) \<Rightarrow>
                  (Inl (Wrap err ''i5zaqevLYX'' [WithMsg ''unable to get oplog wrapper'']), w1)
              | (Inr wrapper, w1) \<Rightarrow>
                  (case DoTx (writer r) (StdRetryCnt p)
                          (AddSetMembers_tx p r wrapper setId version members) w1 of
                     (Inl err, w2) \<Rightarrow> (Inl (Wrap err ''0GujNHKBfu'' []), w2)
                   | (Inr hosts, w2) \<Rightarrow> (Inr hosts, w2)))))"

definition deleteMembers ::
  "'db writer \<Rightarrow> hostSetMember list \<Rightarrow> 'db world \<Rightarrow> (error + message list) \<times> 'db world" where
  "deleteMembers wr members w =
     (case writerCall (DeleteItemsCall members) (w_DeleteItems wr members) w of
        (Inl err, w1) \<Rightarrow> (Inl (Wrap err ''MawizmQmuJ'' []), w1)
      | (Inr (rowsDeleted, msgs), w1) \<Rightarrow>
          if rowsDeleted \<noteq> int (length members) then
            (Inl (New Unknown ''fL6mFtv0m2''
               [WithMsg (''set members deleted '' @
                  (if rowsDeleted < 0 then ''-'' else []) @ showNat (nat \<bar>rowsDeleted\<bar>) @
                  '' did not match request for '' @ showNat (length members))]), w1)
          else (Inr msgs, w1))"

definition DeleteSetMembers_tx ::
  "pkg \<Rightarrow> 'db repository \<Rightarrow> wrapper \<Rightarrow> string \<Rightarrow> 32 word \<Rightarrow> hostSetMember list \<Rightarrow> 'db world
    \<Rightarrow> (error + unit) \<times> 'db world" where
  "DeleteSetMembers_tx p r wrapper setId version members w =
     (let hs = newHostSetForMembers p setId version;
          md = setOplog p hs OP_TYPE_DELETE
      in case deleteMembers (writer r) members w of
           (Inl err, w1) \<Rightarrow> (Inl err, w1)
         | (Inr msgs, w1) \<Rightarrow>
             (case updateVersion (writer r) wrapper md msgs hs version w1 of
                (Some err, w2) \<Rightarrow> (Inl err, w2)
              | (None, w2) \<Rightarrow> (Inr (), w2)))"

definition DeleteSetMembers ::
  "pkg \<Rightarrow> 'db repository \<Rightarrow> string \<Rightarrow> string \<Rightarrow> 32 word \<Rightarrow> string list \<Rightarrow> 'db world
    \<Rightarrow> (error + int) \<times> 'db world" where
  "DeleteSetMembers p r scopeId setId version hostIds w =
     (if scopeId = [] then (Inl (New MissingScopeId ''KGgpz1d72e'' []), w)
      else if setId = [] then (Inl (New MissingSetId ''NPD70tsHdL'' []), w)
      else if version = 0 then (Inl (New MissingVersion ''fyq9s5qJG7'' []), w)
      else if length hostIds = 0 then (Inl (New MissingHostIds ''h9TdzKEJu3'' []), w)
      else
        (case newMembers p setId hostIds of
           Inl err \<Rightarrow> (Inl (Wrap err ''VaQ5mV5YrS'' []), w)
         | Inr members \<Rightarrow>
             (case GetWrapper r scopeId w of
                (Inl err, w1) \<Rightarrow>
                  (Inl (Wrap err ''hCBG0NrKWo'' [WithMsg ''unable to get oplog wrapper'']), w1)
              | (Inr wrapper, w1) \<Rightarrow>
                  (case DoTx (writer r) (StdRetryCnt p)
                          (DeleteSetMembers_tx p r wrapper setId version members) w1 of
                     (Inl err, w2) \<Rightarrow> (Inl (Wrap err ''QV3S4qnM6n'' []), w2)
                   | (Inr _, w2) \<Rightarrow> (Inr (int (length hostIds)), w2)))))"

text \<open>\<open>strings.Join\<close>.\<close>

fun stringsJoin :: "string list \<Rightarrow> string \<Rightarrow> string" where
  "stringsJoin [] sep = []"
| "stringsJoin [x] sep = x"
| "stringsJoin (x # y # ys) sep = x @ sep @ stringsJoin (y # ys) sep"

fun scanAll :: "'db reader \<Rightarrow> (string \<times> string) list \<Rightarrow> error + change list" where
  "scanAll rd [] = Inr []"
| "scanAll rd (row # rows) =
     (case r_ScanRows rd row of
        Inl err \<Rightarrow> Inl (Wrap err ''EUxubjP4Yl'' [])
      | Inr chg \<Rightarrow>
          (case scanAll rd rows of
             Inl err \<Rightarrow> Inl err
           | Inr chgs \<Rightarrow> Inr (chg # chgs)))"

definition changes ::
  "pkg \<Rightarrow> 'db reader \<Rightarrow> string \<Rightarrow> string list \<Rightarrow> 'db world \<Rightarrow> (error + change list) \<times> 'db world" where
  "changes p rd setId hostIds w =
     (let inClauseSpots = map (\<lambda>i. ''$'' @ showNat i) [2 ..< length hostIds + 2];
          joined = stringsJoin inClauseSpots '','';
          inClause = (if joined = [] then [CHR 0x27, CHR 0x27] else joined);
          query = setChangesQuery p inClause;
          params = setId # hostIds
      in case readerCall (QueryCall query params) (r_Query rd query params) w of
           (Inl err, w1) \<Rightarrow> (Inl (Wrap err ''IbLrXuWia5'' []), w1)
         | (Inr rows, w1) \<Rightarrow> (scanAll rd rows, w1))"

text \<open>
  The loop of \<open>SetSetMembers\<close> over the changes: the members to delete and the members
  to add, each in the order of the changes.
\<close>

fun splitChanges ::
  "pkg \<Rightarrow> string \<Rightarrow> change list \<Rightarrow> error + hostSetMember list \<times> hostSetMember list" where
  "splitChanges p setId [] = Inr ([], [])"
| "splitChanges p setId (c # cs) =
     (case NewHostSetMember p setId (HostId c) of
        Inl err \<Rightarrow> Inl (Wrap err ''iH0OM9GWsU'' [])
      | Inr m \<Rightarrow>
          (case splitChanges p setId cs of
             Inl err \<Rightarrow> Inl err
           | Inr (deletions, additions) \<Rightarrow>
               if Action c = ''delete'' then Inr (m # deletions, additions)
               else if Action c = ''add'' then Inr (deletions, m # additions)
               else Inr (deletions, additions)))"

text \<open>
  The two conditional blocks of the handler of \<open>SetSetMembers\<close>: each takes the oplog
  messages and the metadata so far and returns them extended.
\<close>

definition SetSetMembers_deletions ::
  "'db writer \<Rightarrow> hostSetMember list \<Rightarrow> message list \<Rightarrow> metadata \<Rightarrow> 'db world
    \<Rightarrow> (error + message list \<times> metadata) \<times> 'db world" where
  "SetSetMembers_deletions wr deletions msgs md w =
     (if length deletions > 0 then
        (case deleteMembers wr deletions w of
           (Inl err, w1) \<Rightarrow> (Inl err, w1)
         | (Inr deletedMsgs, w1) \<Rightarrow>
             (Inr (msgs @ deletedMsgs,
                mdAppend md ''op-type'' (opTypeString OP_TYPE_DELETE)), w1))
      else (Inr (msgs, md), w))"

definition SetSetMembers_additions ::
  "'db writer \<Rightarrow> hostSetMember list \<Rightarrow> message list \<Rightarrow> metadata \<Rightarrow> 'db world
    \<Rightarrow> (error + message list \<times> metadata) \<times> 'db world" where
  "SetSetMembers_additions wr additions msgs md w =
     (if length additions > 0 then
        (case createMembers wr additions w of
           (Inl err, w1) \<Rightarrow> (Inl err, w1)
         | (Inr createdMsgs, w1) \<Rightarrow>
             (Inr (msgs @ createdMsgs,
                mdAppend md ''op-type'' (opTypeString OP_TYPE_CREATE)), w1))
      else (Inr (msgs, md), w))"

definition SetSetMembers_tx ::
  "pkg \<Rightarrow> 'db repository \<Rightarrow> wrapper \<Rightarrow> string \<Rightarrow> 32 word \<Rightarrow> hostSetMember list
    \<Rightarrow> hostSetMember list \<Rightarrow> 'db world \<Rightarrow> (error + host list) \<times> 'db world" where
  "SetSetMembers_tx p r wrapper setId version deletions additions w =
     (let hs = newHostSetForMembers p setId version;
          md = setOplog p hs OP_TYPE_UPDATE
      in case SetSetMembers_deletions (writer r) deletions [] md w of
           (Inl err, w1) \<Rightarrow> (Inl err, w1)
         | (Inr (msgs1, md1), w1) \<Rightarrow>
             (case SetSetMembers_additions (writer r) additions msgs1 md1 w1 of
                (Inl err, w2) \<Rightarrow> (Inl err, w2)
              | (Inr (msgs2, md2), w2) \<Rightarrow>
                  (case updateVersion (writer r) wrapper md2 msgs2 hs version w2 of
                     (Some err, w3) \<Rightarrow> (Inl err, w3)
                   | (None, w3) \<Rightarrow> getHosts (reader r) setId unlimited w3)))"

definition SetSetMembers ::
  "pkg \<Rightarrow> 'db repository \<Rightarrow> string \<Rightarrow> string \<Rightarrow> 32 word \<Rightarrow> string list \<Rightarrow> 'db world
    \<Rightarrow> (error + host list \<times> int) \<times> 'db world" where
  "SetSetMembers p r scopeId setId version hostIds w =
     (if scopeId = [] then (Inl (New MissingScopeId ''f586g3Ou3N'' []), w)
      else if setId = [] then (Inl (New MissingSetId ''ovPimJEOGi'' []), w)
      else if version = 0 then (Inl (New MissingVersion ''eK5fZS45A7'' []), w)
      else
        (case changes p (reader r) setId hostIds w of
           (Inl err, w1) \<Rightarrow> (Inl (Wrap err ''YPPZGU8VYl'' []), w1)
         | (Inr chgs, w1) \<Rightarrow>
             (case splitChanges p setId chgs of
                Inl err \<Rightarrow> (Inl err, w1)
              | Inr (deletions, additions) \<Rightarrow>
                  if length chgs > 0 then
                    (case GetWrapper r scopeId w1 of
                       (Inl err, w2) \<Rightarrow>
                         (Inl (Wrap err ''UiK7ghaifD''
                            [WithMsg ''unable to get oplog wrapper'']), w2)
                     | (Inr wrapper, w2) \<Rightarrow>
                         (case DoTx (writer r) (StdRetryCnt p)
                                 (SetSetMembers_tx p r wrapper setId version deletions additions)
                                 w2 of
                            (Inl err, w3) \<Rightarrow> (Inl (Wrap err ''589FNyTVpZ'' []), w3)
                          | (Inr hosts, w3) \<Rightarrow> (Inr (hosts, int (length chgs)), w3)))
                  else (Inr ([], int (length chgs)), w1))))"

subsection \<open>Public ids (public_ids.go)\<close>

definition HostCatalogPrefix :: string where
  "HostCatalogPrefix = ''hcst''"

definition HostSetPrefix :: string where
  "HostSetPrefix = ''hsst''"

definition HostPrefix :: string where
  "HostPrefix = ''hst''"

definition newHostCatalogId :: "pkg \<Rightarrow> 'db world \<Rightarrow> (error + string) \<times> 'db world" where
  "newHostCatalogId p w =
     (case NewPublicId p HostCatalogPrefix of
        Inl err \<Rightarrow> (Inl (Wrap err ''1XSBSr2Zql'' []), (fst w, snd w @ [NewPublicIdCall HostCatalogPrefix]))
      | Inr pid \<Rightarrow> (Inr pid, (fst w, snd w @ [NewPublicIdCall HostCatalogPrefix])))"

definition newHostId :: "pkg \<Rightarrow> 'db world \<Rightarrow> (error + string) \<times> 'db world" where
  "newHostId p w =
     (case NewPublicId p HostPrefix of
        Inl err \<Rightarrow> (Inl (Wrap err ''cEZRb7Qm20'' []), (fst w, snd w @ [NewPublicIdCall HostPrefix]))
      | Inr pid \<Rightarrow> (Inr pid, (fst w, snd w @ [NewPublicIdCall HostPrefix])))"

subsection \<open>Hosts (repository_host.go)\<close>

text \<open>
  A \<open>*Host\<close> argument is \<open>None\<close> when the pointer is nil, \<open>Some None\<close> when the embedded
  \<open>*store.Host\<close> is nil, and \<open>Some (Some h)\<close> otherwise. An operation that returns an
  error returns no entity and \<open>db.NoRowsAffected\<close> with it; the model returns the error.
\<close>

definition CreateHost ::
  "pkg \<Rightarrow> 'db repository \<Rightarrow> string \<Rightarrow> host option option \<Rightarrow> options \<Rightarrow> 'db world
    \<Rightarrow> (error + host) \<times> 'db world" where
  "CreateHost p r scopeId h opts w =
     (case h of
        None \<Rightarrow> (Inl (New InvalidParameter ''Uk0vJrn5BP'' [WithMsg ''no static host'']), w)
      | Some None \<Rightarrow>
          (Inl (New InvalidParameter ''yzBIsas4id'' [WithMsg ''no embedded host'']), w)
      | Some (Some h0) \<Rightarrow>
          if h_CatalogId h0 = [] then (Inl (New MissingCatalogId ''afNPD3klN6'' []), w)
          else if h_PublicId h0 \<noteq> [] then
            (Inl (New InvalidParameter ''KGaXoHSCDQ'' [WithMsg ''public id not empty'']), w)
          else if scopeId = [] then (Inl (New MissingScopeId ''IWwJEBJpMS'' []), w)
          else
            (let h1 = h0\<lparr>h_Address := TrimSpace p (h_Address h0)\<rparr> in
             if length (h_Address h1) < MinHostAddressLength p
                \<or> length (h_Address h1) > MaxHostAddressLength p
             then (Inl (New InvalidAddress ''oTmHplf1VJ'' []), w)
             else
               (case (if withPublicId opts \<noteq> [] then
                        (if \<not> prefix (HostPrefix @ ''_'') (withPublicId opts) then
                           (Inl (New InvalidParameter ''fVA68Amp1G''
                              [WithMsg (''passed-in public ID '' @ Quote p (withPublicId opts) @
                                 '' has wrong prefix, should be '' @ Quote p HostPrefix)]), w)
                         else (Inr (withPublicId opts), w))
                      else
                        (case newHostId p w of
                           (Inl err, w1) \<Rightarrow> (Inl (Wrap err ''6wPMpwqf8k'' []), w1)
                         | (Inr pid, w1) \<Rightarrow> (Inr pid, w1))) of
                  (Inl err, w1) \<Rightarrow> (Inl err, w1)
                | (Inr pid, w1) \<Rightarrow>
                    (let h2 = h1\<lparr>h_PublicId := pid\<rparr> in
                     case GetWrapper r scopeId w1 of
                       (Inl err, w2) \<Rightarrow>
                         (Inl (Wrap err ''7RQyYaqQX2''
                            [WithMsg ''unable to get oplog wrapper'']), w2)
                     | (Inr oplogWrapper, w2) \<Rightarrow>
                         (case DoTx (writer r) (StdRetryCnt p)
                                 (writerCall
                                    (CreateCall (h_PublicId h2) oplogWrapper
                                       (hostOplog p h2 OP_TYPE_CREATE))
                                    (w_CreateHost (writer r) h2 oplogWrapper
                                       (hostOplog p h2 OP_TYPE_CREATE))) w2 of
                            (Inl err, w3) \<Rightarrow>
                              (case Convert (Some err) ''yyg1sVUuzo'' of
                                 Some dErr \<Rightarrow> (Inl dErr, w3)
                               | None \<Rightarrow>
                                   (Inl (New Unknown ''mEN8tF6Zbr''
                                      [WithMsg (''catalog: '' @ h_CatalogId h2 @ '': '' @
                                         Quote p (h_Name h2)), WithWrap err]), w3))
                          | (Inr newHost, w3) \<Rightarrow> (Inr newHost, w3))))))"

text \<open>The loop of \<open>UpdateHost\<close> over the field mask; it trims the address of \<open>h\<close>.\<close>

fun checkHostMask :: "pkg \<Rightarrow> host \<Rightarrow> string list \<Rightarrow> error + host" where
  "checkHostMask p h [] = Inr h"
| "checkHostMask p h (f # fs) =
     (if EqualFold p ''Name'' f then checkHostMask p h fs
      else if EqualFold p ''Description'' f then checkHostMask p h fs
      else if EqualFold p ''Address'' f then
        (let h1 = h\<lparr>h_Address := TrimSpace p (h_Address h)\<rparr> in
         if length (h_Address h1) < MinHostAddressLength p
            \<or> length (h_Address h1) > MaxHostAddressLength p
         then Inl (New InvalidAddress ''YyAgOFKnTL'' [])
         else checkHostMask p h1 fs)
      else Inl (New InvalidFieldMask ''SNgxP6ngNk'' [WithMsg (''invalid field mask: '' @ f)]))"

definition UpdateHost_tx ::
  "pkg \<Rightarrow> 'db repository \<Rightarrow> wrapper \<Rightarrow> host \<Rightarrow> string list \<Rightarrow> string list \<Rightarrow> 32 word
    \<Rightarrow> 'db world \<Rightarrow> (error + host \<times> int) \<times> 'db world" where
  "UpdateHost_tx p r oplogWrapper h dbMask nullFields version w =
     (case writerCall
             (UpdateCall (h_PublicId h) dbMask nullFields
                (Some (oplogWrapper, hostOplog p h OP_TYPE_UPDATE)) version)
             (w_UpdateHost (writer r) h dbMask nullFields oplogWrapper
                (hostOplog p h OP_TYPE_UPDATE) version) w of
        (Inl err, w1) \<Rightarrow> (Inl err, w1)
      | (Inr (rowsUpdated, returnedHost), w1) \<Rightarrow>
          if rowsUpdated > 1 then (Inl (New MultipleRecords ''xJBYJRMXXe'' []), w1)
          else (Inr (returnedHost, rowsUpdated), w1))"

definition UpdateHost ::
  "pkg \<Rightarrow> 'db repository \<Rightarrow> string \<Rightarrow> host option option \<Rightarrow> 32 word \<Rightarrow> string list
    \<Rightarrow> 'db world \<Rightarrow> (error + host \<times> int) \<times> 'db world" where
  "UpdateHost p r scopeId h version fieldMaskPaths w =
     (case h of
        None \<Rightarrow> (Inl (New InvalidParameter ''h4qvnejlc5'' [WithMsg ''no static host'']), w)
      | Some None \<Rightarrow>
          (Inl (New InvalidParameter ''Rrs2iswKXI'' [WithMsg ''no embedded host'']), w)
      | Some (Some h0) \<Rightarrow>
          if h_PublicId h0 = [] then (Inl (New MissingPublicId ''Jb28DGty13'' []), w)
          else if version = 0 then (Inl (New MissingVersion ''hvAqt1UJo6'' []), w)
          else if scopeId = [] then (Inl (New MissingScopeId ''jqU4qoUlBv'' []), w)
          else
            (case checkHostMask p h0 fieldMaskPaths of
               Inl err \<Rightarrow> (Inl err, w)
             | Inr h1 \<Rightarrow>
                 (case BuildUpdatePaths p
                         [(''Name'', h_Name h1), (''Description'', h_Description h1),
                          (''Address'', h_Address h1)] fieldMaskPaths of
                    (dbMask, nullFields) \<Rightarrow>
                      if length dbMask = 0 \<and> length nullFields = 0
                      then (Inl (New EmptyFieldMask ''CcCFJsoFzP'' []), w)
                      else
                        (case GetWrapper r scopeId w of
                           (Inl err, w1) \<Rightarrow>
                             (Inl (Wrap err ''kuAQInmfOm''
                                [WithMsg ''unable to get oplog wrapper'']), w1)
                         | (Inr oplogWrapper, w1) \<Rightarrow>
                             (case DoTx (writer r) (StdRetryCnt p)
                                     (UpdateHost_tx p r oplogWrapper h1 dbMask nullFields version)
                                     w1 of
                                (Inl err, w2) \<Rightarrow>
                                  (case Convert (Some err) ''dEmKLWCiWN'' of
                                     Some dErr \<Rightarrow> (Inl dErr, w2)
                                   | None \<Rightarrow>
                                       (Inl (New Unknown ''Hap3HE7q12''
                                          [WithMsg (''catalog: '' @ h_CatalogId h1 @ '': '' @
                                             Quote p (h_Name h1)), WithWrap err]), w2))
                              | (Inr res, w2) \<Rightarrow> (Inr res, w2))))))"

text \<open>\<open>nil, nil\<close> of \<open>LookupHost\<close> is \<open>Inr None\<close>.\<close>

definition LookupHost ::
  "pkg \<Rightarrow> 'db repository \<Rightarrow> string \<Rightarrow> 'db world \<Rightarrow> (error + host option) \<times> 'db world" where
  "LookupHost p r publicId w =
     (if publicId = [] then (Inl (New MissingPublicId ''I4MUUz0Ogf'' []), w)
      else
        (case readerCall (LookupCall publicId) (r_LookupHost (reader r) publicId) w of
           (Inl err, w1) \<Rightarrow>
             if Is err (ErrRecordNotFound p) then (Inr None, w1)
             else (Inl (Wrap err ''Ljwlcf1AdE''
                     [WithMsg (''lookup failed for '' @ publicId)]), w1)
         | (Inr h, w1) \<Rightarrow> (Inr (Some h), w1)))"

text \<open>Modelled from the spec: \<open>allocHost\<close> (host.go, not under src/), a host with no field set.\<close>

definition allocHost :: host where
  "allocHost = \<lparr>h_PublicId = [], h_CatalogId = [], h_Name = [], h_Description = [],
     h_Address = [], h_Version = 0\<rparr>"

definition DeleteHost_tx ::
  "pkg \<Rightarrow> 'db repository \<Rightarrow> wrapper \<Rightarrow> host \<Rightarrow> 'db world \<Rightarrow> (error + int) \<times> 'db world" where
  "DeleteHost_tx p r oplogWrapper h w =
     (case writerCall
             (DeleteCall (h_PublicId h) oplogWrapper (hostOplog p h OP_TYPE_DELETE))
             (w_DeleteHost (writer r) h oplogWrapper (hostOplog p h OP_TYPE_DELETE)) w of
        (Inl err, w1) \<Rightarrow> (Inl err, w1)
      | (Inr rowsDeleted, w1) \<Rightarrow>
          if rowsDeleted > 1 then (Inl (New MultipleRecords ''F6r9DCCqM7'' []), w1)
          else (Inr rowsDeleted, w1))"

definition DeleteHost ::
  "pkg \<Rightarrow> 'db repository \<Rightarrow> string \<Rightarrow> string \<Rightarrow> 'db world \<Rightarrow> (error + int) \<times> 'db world" where
  "DeleteHost p r scopeId publicId w =
     (if publicId = [] then (Inl (New MissingPublicId ''H4PoOJ95Tx'' []), w)
      else
        (let h = allocHost\<lparr>h_PublicId := publicId\<rparr> in
         case GetWrapper r scopeId w of
           (Inl err, w1) \<Rightarrow>
             (Inl (Wrap err ''EUyTZNkicA'' [WithMsg ''unable to get oplog wrapper'']), w1)
         | (Inr oplogWrapper, w1) \<Rightarrow>
             (case DoTx (writer r) (StdRetryCnt p) (DeleteHost_tx p r oplogWrapper h) w1 of
                (Inl err, w2) \<Rightarrow>
                  (Inl (Wrap err ''R7CFLLqqYn''
                     [WithMsg (''failed to delete '' @ publicId)]), w2)
              | (Inr rowsDeleted, w2) \<Rightarrow> (Inr rowsDeleted, w2))))"

subsection \<open>Host catalogs (repository_host_catalog.go)\<close>

definition CreateCatalog ::
  "pkg \<Rightarrow> 'db repository \<Rightarrow> hostCatalog option option \<Rightarrow> options \<Rightarrow> 'db world
    \<Rightarrow> (error + hostCatalog) \<times> 'db world" where
  "CreateCatalog p r c opts w =
     (case c of
        None \<Rightarrow>
          (Inl (New InvalidParameter ''WDqVaWow1I'' [WithMsg ''no static host catalog'']), w)
      | Some None \<Rightarrow>
          (Inl (New InvalidParameter ''bniLSZVXtD'' [WithMsg ''no embedded host catalog'']), w)
      | Some (Some c0) \<Rightarrow>
          if c_ScopeId c0 = [] then (Inl (New MissingScopeId ''9aEGoNhqim'' []), w)
          else if c_PublicId c0 \<noteq> [] then
            (Inl (New InvalidParameter ''UN8PyOHEzg'' [WithMsg ''public id not empty'']), w)
          else
            (case (if withPublicId opts \<noteq> [] then
                     (if \<not> prefix (HostCatalogPrefix @ ''_'') (withPublicId opts) then
                        (Inl (New InvalidParameter ''o8KBnSVBtW''
                           [WithMsg (''passed-in public ID '' @ Quote p (withPublicId opts) @
                              '' has wrong prefix, should be '' @ Quote p HostCatalogPrefix)]), w)
                      else (Inr (withPublicId opts), w))
                   else
                     (case newHostCatalogId p w of
                        (Inl err, w1) \<Rightarrow> (Inl (Wrap err ''FscgDjWH5d'' []), w1)
                      | (Inr pid, w1) \<Rightarrow> (Inr pid, w1))) of
               (Inl err, w1) \<Rightarrow> (Inl err, w1)
             | (Inr pid, w1) \<Rightarrow>
                 (let c1 = c0\<lparr>c_PublicId := pid\<rparr> in
                  case GetWrapper r (c_ScopeId c1) w1 of
                    (Inl err, w2) \<Rightarrow>
                      (Inl (Wrap err ''KeVVbWtJil''
                         [WithMsg ''unable to get oplog wrapper'']), w2)
                  | (Inr oplogWrapper, w2) \<Rightarrow>
                      (let md = newCatalogMetadata p c1 OP_TYPE_CREATE in
                       case DoTx (writer r) (StdRetryCnt p)
                              (writerCall (CreateCall (c_PublicId c1) oplogWrapper md)
                                 (w_CreateCatalog (writer r) c1 oplogWrapper md)) w2 of
                         (Inl err, w3) \<Rightarrow>
                           (case Convert (Some err) ''lpmawQlpci'' of
                              Some dErr \<Rightarrow> (Inl dErr, w3)
                            | None \<Rightarrow>
                                (Inl (New Unknown ''YUNviuuTot''
                                   [WithMsg (''scope: '' @ c_ScopeId c1), WithWrap err]), w3))
                       | (Inr newHostCatalog, w3) \<Rightarrow> (Inr newHostCatalog, w3)))))"

text \<open>
  The loop of \<open>UpdateCatalog\<close> over the field mask, with the two lists it appends to.
\<close>

fun catalogPaths ::
  "pkg \<Rightarrow> hostCatalog \<Rightarrow> string list \<Rightarrow> string list \<Rightarrow> string list
    \<Rightarrow> error + string list \<times> string list" where
  "catalogPaths p c [] dbMask nullFields = Inr (dbMask, nullFields)"
| "catalogPaths p c (f # fs) dbMask nullFields =
     (if EqualFold p ''name'' f \<and> c_Name c = [] then
        catalogPaths p c fs dbMask (nullFields @ [''name''])
      else if EqualFold p ''name'' f \<and> c_Name c \<noteq> [] then
        catalogPaths p c fs (dbMask @ [''name'']) nullFields
      else if EqualFold p ''description'' f \<and> c_Description c = [] then
        catalogPaths p c fs dbMask (nullFields @ [''description''])
      else if EqualFold p ''description'' f \<and> c_Description c \<noteq> [] then
        catalogPaths p c fs (dbMask @ [''description'']) nullFields
      else Inl (New InvalidFieldMask ''4UWfx3RKPW'' [WithMsg (''invalid field mask: '' @ f)]))"

definition UpdateCatalog_tx ::
  "'db repository \<Rightarrow> wrapper \<Rightarrow> metadata \<Rightarrow> hostCatalog \<Rightarrow> string list \<Rightarrow> string list \<Rightarrow> 32 word
    \<Rightarrow> 'db world \<Rightarrow> (error + hostCatalog \<times> int) \<times> 'db world" where
  "UpdateCatalog_tx r oplogWrapper md c dbMask nullFields version w =
     (case writerCall
             (UpdateCall (c_PublicId c) dbMask nullFields (Some (oplogWrapper, md)) version)
             (w_UpdateCatalog (writer r) c dbMask nullFields oplogWrapper md version) w of
        (Inl err, w1) \<Rightarrow> (Inl err, w1)
      | (Inr (rowsUpdated, returnedCatalog), w1) \<Rightarrow>
          if rowsUpdated > 1 then (Inl (New MultipleRecords ''obC7MjAGtj'' []), w1)
          else (Inr (returnedCatalog, rowsUpdated), w1))"

definition UpdateCatalog ::
  "pkg \<Rightarrow> 'db repository \<Rightarrow> hostCatalog option option \<Rightarrow> 32 word \<Rightarrow> string list \<Rightarrow> 'db world
    \<Rightarrow> (error + hostCatalog \<times> int) \<times> 'db world" where
  "UpdateCatalog p r c version fieldMask w =
     (case c of
        None \<Rightarrow>
          (Inl (New InvalidParameter ''trTNCCHQZn'' [WithMsg ''no static host catalog'']), w)
      | Some None \<Rightarrow>
          (Inl (New InvalidParameter ''IKDocJTAHv'' [WithMsg ''no embedded host catalog'']), w)
      | Some (Some c0) \<Rightarrow>
          if c_PublicId c0 = [] then (Inl (New MissingPublicId ''SVcfUXTCbG'' []), w)
          else if c_ScopeId c0 = [] then (Inl (New MissingScopeId ''KoTPLuElUe'' []), w)
          else if length fieldMask = 0 then (Inl (New EmptyFieldMask ''W5HripLn8X'' []), w)
          else
            (case catalogPaths p c0 fieldMask [] [] of
               Inl err \<Rightarrow> (Inl err, w)
             | Inr (dbMask, nullFields) \<Rightarrow>
                 (case GetWrapper r (c_ScopeId c0) w of
                    (Inl err, w1) \<Rightarrow>
                      (Inl (Wrap err ''iHhp6zDi4t''
                         [WithMsg ''unable to get oplog wrapper'']), w1)
                  | (Inr oplogWrapper, w1) \<Rightarrow>
                      (let md = newCatalogMetadata p c0 OP_TYPE_UPDATE in
                       case DoTx (writer r) (StdRetryCnt p)
                              (UpdateCatalog_tx r oplogWrapper md c0 dbMask nullFields version)
                              w1 of
                         (Inl err, w2) \<Rightarrow>
                           (case Convert (Some err) ''Ebzq6foarI'' of
                              Some dErr \<Rightarrow> (Inl dErr, w2)
                            | None \<Rightarrow>
                                (Inl (New Unknown ''2mvrnq45Ap''
                                   [WithMsg (''static host catalog: '' @ c_PublicId c0),
                                    WithWrap err]), w2))
                       | (Inr res, w2) \<Rightarrow> (Inr res, w2)))))"

definition LookupCatalog ::
  "pkg \<Rightarrow> 'db repository \<Rightarrow> string \<Rightarrow> 'db world
    \<Rightarrow> (error + hostCatalog option) \<times> 'db world" where
  "LookupCatalog p r cid w =
     (if cid = [] then (Inl (New MissingPublicId ''8krg5Lnj60'' []), w)
      else
        (case readerCall (LookupCall cid) (r_LookupCatalog (reader r) cid) w of
           (Inl err, w1) \<Rightarrow>
             if Is err (ErrRecordNotFound p) then (Inr None, w1)
             else (Inl (Wrap err ''rKb8JERpza'' [WithMsg (''lookup failed for '' @ cid)]), w1)
         | (Inr c, w1) \<Rightarrow> (Inr (Some c), w1)))"

definition DeleteCatalog_tx ::
  "'db repository \<Rightarrow> wrapper \<Rightarrow> metadata \<Rightarrow> hostCatalog \<Rightarrow> 'db world
    \<Rightarrow> (error + int) \<times> 'db world" where
  "DeleteCatalog_tx r oplogWrapper md c w =
     (case writerCall (DeleteCall (c_PublicId c) oplogWrapper md)
             (w_DeleteCatalog (writer r) c oplogWrapper md) w of
        (Inl err, w1) \<Rightarrow> (Inl err, w1)
      | (Inr rowsDeleted, w1) \<Rightarrow>
          if rowsDeleted > 1 then (Inl (New MultipleRecords ''QOsAOsa7c1'' []), w1)
          else (Inr rowsDeleted, w1))"

definition DeleteCatalog ::
  "pkg \<Rightarrow> 'db repository \<Rightarrow> string \<Rightarrow> 'db world \<Rightarrow> (error + int) \<times> 'db world" where
  "DeleteCatalog p r cid w =
     (if cid = [] then (Inl (New MissingPublicId ''l25QwC2lJI'' []), w)
      else
        (case readerCall (LookupCall cid) (r_LookupCatalog (reader r) cid) w of
           (Inl err, w1) \<Rightarrow>
             if Is err (ErrRecordNotFound p) then (Inr NoRowsAffected, w1)
             else (Inl (Wrap err ''I7EbEefwta'' [WithMsg (''failed to delete '' @ cid)]), w1)
         | (Inr c, w1) \<Rightarrow>
             if c_ScopeId c = [] then (Inl (New MissingScopeId ''JwKurh9Laa'' []), w1)
             else
               (case GetWrapper r (c_ScopeId c) w1 of
                  (Inl err, w2) \<Rightarrow>
                    (Inl (Wrap err ''9nrh58aKQe'' [WithMsg ''unable to get oplog wrapper'']), w2)
                | (Inr oplogWrapper, w2) \<Rightarrow>
                    (let md = newCatalogMetadata p c OP_TYPE_DELETE in
                     case DoTx (writer r) (StdRetryCnt p)
                            (DeleteCatalog_tx r oplogWrapper md c) w2 of
                       (Inl err, w3) \<Rightarrow>
                         (Inl (Wrap err ''sbH5pLPOM3''
                            [WithMsg (''failed to delete '' @ c_PublicId c)]), w3)
                     | (Inr rowsDeleted, w3) \<Rightarrow> (Inr rowsDeleted, w3)))))"

subsection \<open>Properties of a run\<close>

text \<open>
  A run of an operation starts in a world with no call made and returns the calls it
  made. The predicates below read that list.
\<close>

fun isGetWrapper :: "event \<Rightarrow> bool" where
  "isGetWrapper (GetWrapperCall s) = True"
| "isGetWrapper _ = False"

text \<open>A call to the writer that updates or deletes the row of one public id.\<close>

fun isMutation :: "event \<Rightarrow> bool" where
  "isMutation (UpdateCall s m n ow v) = True"
| "isMutation (DeleteCall s ow md) = True"
| "isMutation _ = False"

text \<open>
  Every resolution of the wrapper happens inside a transaction: \<open>insideTx open evs\<close>
  scans the calls, \<open>open\<close> telling whether a transaction is open.
\<close>

fun insideTx :: "bool \<Rightarrow> event list \<Rightarrow> bool" where
  "insideTx opn [] = True"
| "insideTx opn (TxBegin # evs) = insideTx True evs"
| "insideTx opn (TxCommit # evs) = insideTx False evs"
| "insideTx opn (TxRollback # evs) = insideTx False evs"
| "insideTx opn (GetWrapperCall s # evs) = (opn \<and> insideTx opn evs)"
| "insideTx opn (ev # evs) = insideTx opn evs"

text \<open>
  The wrapper is resolved at most once, and not once a transaction has been opened.
\<close>

definition resolvedBeforeTx :: "event list \<Rightarrow> bool" where
  "resolvedBeforeTx evs \<longleftrightarrow>
     length (filter isGetWrapper evs) \<le> 1
     \<and> filter isGetWrapper (dropWhile (\<lambda>ev. ev \<noteq> TxBegin) evs) = []"


text \<open>
  The outcome of a run that started in store \<open>d\<close> with key manager \<open>k\<close>: the wrapper was
  resolved at most once and before any transaction; a transaction was opened only after
  the wrapper was resolved; and when the resolution failed, no transaction was opened,
  the store is as it was, and the error returned wraps the failure with the message
  "unable to get oplog wrapper".
\<close>

definition wrapperFirst ::
  "(string \<Rightarrow> error + wrapper) \<Rightarrow> 'db \<Rightarrow> (error + 'a) \<times> 'db world \<Rightarrow> bool" where
  "wrapperFirst k d out \<longleftrightarrow>
     (case out of
        (res, (d', evs)) \<Rightarrow>
          resolvedBeforeTx evs
          \<and> (TxBegin \<in> set evs \<longrightarrow> (\<exists>s. GetWrapperCall s \<in> set evs))
          \<and> (\<forall>s kerr. GetWrapperCall s \<in> set evs \<and> k s = Inl kerr \<longrightarrow>
                TxBegin \<notin> set evs \<and> d' = d
                \<and> (\<exists>i. res = Inl (Wrap kerr i [WithMsg ''unable to get oplog wrapper'']))))"

text \<open>
  A writer whose store reports more than one row affected, and no error, for every
  update and delete of an entity.
\<close>

definition manyRows :: "'db writer \<Rightarrow> bool" where
  "manyRows wr \<longleftrightarrow>
     (\<forall>h m n ow md v d. \<exists>rows x d'. w_UpdateHost wr h m n ow md v d = (Inr (rows, x), d') \<and> 1 < rows)
     \<and> (\<forall>c m n ow md v d. \<exists>rows x d'.
           w_UpdateCatalog wr c m n ow md v d = (Inr (rows, x), d') \<and> 1 < rows)
     \<and> (\<forall>hs m v d. \<exists>rows x d'. w_UpdateSet wr hs m v d = (Inr (rows, x), d') \<and> 1 < rows)
     \<and> (\<forall>h ow md d. \<exists>rows d'. w_DeleteHost wr h ow md d = (Inr rows, d') \<and> 1 < rows)
     \<and> (\<forall>c ow md d. \<exists>rows d'. w_DeleteCatalog wr c ow md d = (Inr rows, d') \<and> 1 < rows)"

text \<open>
  The outcome of a run that started in store \<open>d\<close>: when a mutation was issued, the run
  returned an error that has the code \<open>MultipleRecords\<close> in its chain, nothing was
  committed, the last call is the rollback and the store is as it was.
\<close>

definition abortedMultipleRecords :: "'db \<Rightarrow> (error + 'a) \<times> 'db world \<Rightarrow> bool" where
  "abortedMultipleRecords d out \<longleftrightarrow>
     (case out of
        (res, (d', evs)) \<Rightarrow>
          filter isMutation evs \<noteq> [] \<longrightarrow>
            d' = d \<and> TxCommit \<notin> set evs \<and> last evs = TxRollback
            \<and> (\<exists>err. res = Inl err \<and> MultipleRecords \<in> set (chainCodes err)))"

subsection \<open>A store in memory\<close>

text \<open>
  A small store, key manager and set of declarations to run the operations on: rows of
  hosts, catalogs, set members and set versions. \<open>Query\<close> answers with the difference
  between the members of the set and the host ids given, a deletion for each member
  that is not among the ids and an addition for each id that is not a member.
\<close>

record memdb =
  m_hosts :: "host list"
  m_catalogs :: "hostCatalog list"
  m_members :: "hostSetMember list"
  m_sets :: "(string \<times> 32 word) list"

definition memNotFound :: error where
  "memNotFound = Err RecordNotFound [] ''record not found'' None"

definition memDuplicate :: error where
  "memDuplicate = PqError ''23505'' ''duplicate key value violates unique constraint''
     ''Key already exists.'' [] []"

definition memReader :: "memdb reader" where
  "memReader =
     \<lparr>r_LookupHost = (\<lambda>pid d.
        case filter (\<lambda>h. h_PublicId h = pid) (m_hosts d) of
          [] \<Rightarrow> Inl memNotFound | h # _ \<Rightarrow> Inr h),
      r_LookupCatalog = (\<lambda>pid d.
        case filter (\<lambda>c. c_PublicId c = pid) (m_catalogs d) of
          [] \<Rightarrow> Inl memNotFound | c # _ \<Rightarrow> Inr c),
      r_SearchHosts = (\<lambda>wh params limit d.
        case params of
          PString sid # _ \<Rightarrow>
            Inr (filter (\<lambda>h. (sid, h_PublicId h) \<in> set (m_members d)) (m_hosts d))
        | _ \<Rightarrow> Inl (StdError ''bad parameters'')),
      r_Query = (\<lambda>q params d.
        case params of
          [] \<Rightarrow> Inl (StdError ''bad parameters'')
        | sid # hids \<Rightarrow>
            Inr (map (\<lambda>m. (''delete'', snd m))
                   (filter (\<lambda>m. fst m = sid \<and> snd m \<notin> set hids) (m_members d)) @
                 map (\<lambda>h. (''add'', h))
                   (filter (\<lambda>h. (sid, h) \<notin> set (m_members d)) (remdups hids)))),
      r_ScanRows = (\<lambda>row. Inr \<lparr>Action = fst row, HostId = snd row\<rparr>)\<rparr>"

definition memWriter :: "memdb writer" where
  "memWriter =
     \<lparr>w_CreateHost = (\<lambda>h ow md d.
        if h_PublicId h \<in> set (map h_PublicId (m_hosts d)) then (Inl memDuplicate, d)
        else (Inr (h\<lparr>h_Version := 1\<rparr>), d\<lparr>m_hosts := m_hosts d @ [h\<lparr>h_Version := 1\<rparr>]\<rparr>)),
      w_CreateCatalog = (\<lambda>c ow md d.
        if c_PublicId c \<in> set (map c_PublicId (m_catalogs d)) then (Inl memDuplicate, d)
        else (Inr (c\<lparr>c_Version := 1\<rparr>),
              d\<lparr>m_catalogs := m_catalogs d @ [c\<lparr>c_Version := 1\<rparr>]\<rparr>)),
      w_UpdateHost = (\<lambda>h mask nulls ow md v d.
        (Inr (int (length (filter (\<lambda>x. h_PublicId x = h_PublicId h \<and> h_Version x = v)
                    (m_hosts d))), h\<lparr>h_Version := v + 1\<rparr>),
         d\<lparr>m_hosts := map (\<lambda>x. if h_PublicId x = h_PublicId h \<and> h_Version x = v
                                 then h\<lparr>h_Version := v + 1\<rparr> else x) (m_hosts d)\<rparr>)),
      w_UpdateCatalog = (\<lambda>c mask nulls ow md v d.
        (Inr (int (length (filter (\<lambda>x. c_PublicId x = c_PublicId c \<and> c_Version x = v)
                    (m_catalogs d))), c\<lparr>c_Version := v + 1\<rparr>),
         d\<lparr>m_catalogs := map (\<lambda>x. if c_PublicId x = c_PublicId c \<and> c_Version x = v
                                    then c\<lparr>c_Version := v + 1\<rparr> else x) (m_catalogs d)\<rparr>)),
      w_UpdateSet = (\<lambda>hs mask v d.
        (Inr (int (length (filter (\<lambda>x. x = (s_PublicId hs, v)) (m_sets d))),
              ''update '' @ s_PublicId hs),
         d\<lparr>m_sets := map (\<lambda>x. if x = (s_PublicId hs, v) then (s_PublicId hs, s_Version hs)
                                else x) (m_sets d)\<rparr>)),
      w_DeleteHost = (\<lambda>h ow md d.
        (Inr (int (length (filter (\<lambda>x. h_PublicId x = h_PublicId h) (m_hosts d)))),
         d\<lparr>m_hosts := filter (\<lambda>x. h_PublicId x \<noteq> h_PublicId h) (m_hosts d)\<rparr>)),
      w_DeleteCatalog = (\<lambda>c ow md d.
        (Inr (int (length (filter (\<lambda>x. c_PublicId x = c_PublicId c) (m_catalogs d)))),
         d\<lparr>m_catalogs := filter (\<lambda>x. c_PublicId x \<noteq> c_PublicId c) (m_catalogs d)\<rparr>)),
      w_CreateItems = (\<lambda>ms d.
        if filter (\<lambda>m. m \<in> set (m_members d)) ms \<noteq> [] then (Inl memDuplicate, d)
        else (Inr (map (\<lambda>m. ''create '' @ snd m) ms), d\<lparr>m_members := m_members d @ ms\<rparr>)),
      w_DeleteItems = (\<lambda>ms d.
        (Inr (int (length (filter (\<lambda>m. m \<in> set (m_members d)) ms)),
              map (\<lambda>m. ''delete '' @ snd m) ms),
         d\<lparr>m_members := filter (\<lambda>m. m \<notin> set ms) (m_members d)\<rparr>)),
      w_GetTicket = (\<lambda>hs d. (Inr (''ticket '' @ s_PublicId hs), d)),
      w_WriteOplogEntryWith = (\<lambda>ow t md msgs d. (None, d)),
      w_Commit = (\<lambda>d. None),
      w_Transient = (\<lambda>err. err = StdError ''serialization failure''),
      w_Exhausted = (\<lambda>err. StdError ''too many retries'')\<rparr>"

definition memRepo :: "memdb repository" where
  "memRepo = \<lparr>reader = memReader, writer = memWriter, kms = (\<lambda>scopeId. Inr (''wrapper '' @ scopeId))\<rparr>"

definition memPkg :: pkg where
  "memPkg =
     \<lparr>NewPublicId = (\<lambda>pre. Inr (pre @ ''_1234567890'')),
      NewHostSetMember = (\<lambda>setId hostId.
        if setId = [] \<or> hostId = [] then Inl (StdError ''invalid parameter'')
        else Inr (setId, hostId)),
      newHostSetForMembers = (\<lambda>setId v. \<lparr>s_PublicId = setId, s_Version = v + 1\<rparr>),
      setOplog = (\<lambda>hs op.
        [(''resource-public-id'', [s_PublicId hs]), (''resource-type'', [''static-host-set'']),
         (''op-type'', [opTypeString op])]),
      hostOplog = (\<lambda>h op.
        [(''resource-public-id'', [h_PublicId h]), (''resource-type'', [''static-host'']),
         (''op-type'', [opTypeString op])]),
      newCatalogMetadata = (\<lambda>c op.
        [(''resource-public-id'', [c_PublicId c]), (''resource-type'', [''static-host-catalog'']),
         (''op-type'', [opTypeString op])]),
      setChangesQuery = (\<lambda>inClause. ''changes of $1 against '' @ inClause),
      BuildUpdatePaths = (\<lambda>fieldValues mask.
        (map fst (filter (\<lambda>fv. fst fv \<in> set mask \<and> snd fv \<noteq> []) fieldValues),
         map fst (filter (\<lambda>fv. fst fv \<in> set mask \<and> snd fv = []) fieldValues))),
      MinHostAddressLength = 3,
      MaxHostAddressLength = 255,
      StdRetryCnt = 2,
      ErrRecordNotFound = memNotFound,
      TrimSpace = (\<lambda>s. rev (dropWhile (\<lambda>c. c = CHR '' '') (rev (dropWhile (\<lambda>c. c = CHR '' '') s)))),
      EqualFold = (\<lambda>a b. a = b),
      Quote = (\<lambda>s. [CHR 0x22] @ s @ [CHR 0x22])\<rparr>"

text \<open>The hosts, the catalog and the stores of the runs below.\<close>

definition host1 :: host where
  "host1 = \<lparr>h_PublicId = ''hst_1'', h_CatalogId = ''hcst_1'', h_Name = ''one'',
     h_Description = [], h_Address = ''10.0.0.1'', h_Version = 1\<rparr>"

definition host2 :: host where
  "host2 = \<lparr>h_PublicId = ''hst_2'', h_CatalogId = ''hcst_1'', h_Name = ''two'',
     h_Description = [], h_Address = ''10.0.0.2'', h_Version = 1\<rparr>"

definition newHost :: host where
  "newHost = \<lparr>h_PublicId = [], h_CatalogId = ''hcst_1'', h_Name = ''three'',
     h_Description = [], h_Address = ''10.0.0.3'', h_Version = 0\<rparr>"

definition catalog1 :: hostCatalog where
  "catalog1 = \<lparr>c_PublicId = ''hcst_1'', c_ScopeId = ''o_1'', c_Name = ''cat'',
     c_Description = [], c_Version = 1\<rparr>"

definition newCatalog :: hostCatalog where
  "newCatalog = \<lparr>c_PublicId = [], c_ScopeId = ''o_1'', c_Name = ''new'',
     c_Description = [], c_Version = 0\<rparr>"

text \<open>The set \<open>hsst_1\<close> at version 1, with \<open>hst_1\<close> as its only member.\<close>

definition db1 :: memdb where
  "db1 = \<lparr>m_hosts = [host1, host2], m_catalogs = [catalog1],
     m_members = [(''hsst_1'', ''hst_1'')], m_sets = [(''hsst_1'', 1)]\<rparr>"

definition noOpts :: options where
  "noOpts = \<lparr>withPublicId = [], withLimit = 0\<rparr>"

text \<open>
  Three faults: a key manager that fails, a store that fails every creation of a host
  with a transient error, and a store that reports two rows for every update and delete
  (and drops its hosts while it does).
\<close>

definition noKmsRepo :: "memdb repository" where
  "noKmsRepo = memRepo\<lparr>kms := (\<lambda>scopeId. Inl (StdError ''kms unavailable''))\<rparr>"

definition busyRepo :: "memdb repository" where
  "busyRepo = memRepo\<lparr>writer := memWriter
     \<lparr>w_CreateHost := (\<lambda>h ow md d. (Inl (StdError ''serialization failure''), d))\<rparr>\<rparr>"

definition manyWriter :: "memdb writer" where
  "manyWriter = memWriter
     \<lparr>w_UpdateHost := (\<lambda>h m n ow md v d. (Inr (2, h), d\<lparr>m_hosts := []\<rparr>)),
      w_UpdateCatalog := (\<lambda>c m n ow md v d. (Inr (2, c), d\<lparr>m_hosts := []\<rparr>)),
      w_UpdateSet := (\<lambda>hs m v d. (Inr (2, ''update''), d\<lparr>m_hosts := []\<rparr>)),
      w_DeleteHost := (\<lambda>h ow md d. (Inr 2, d\<lparr>m_hosts := []\<rparr>)),
      w_DeleteCatalog := (\<lambda>c ow md d. (Inr 2, d\<lparr>m_hosts := []\<rparr>))\<rparr>"

definition manyRepo :: "memdb repository" where
  "manyRepo = memRepo\<lparr>writer := manyWriter\<rparr>"

text \<open>Sample declarations of the numbers and texts that are parameters.\<close>

definition sampleDecls :: decls where
  "sampleDecls =
     \<lparr>codeNum = (\<lambda>c. case c of
         NotSpecificIntegrity \<Rightarrow> 1003 | RecordNotFound \<Rightarrow> 1100 | MultipleRecords \<Rightarrow> 1101
       | _ \<Rightarrow> 100),
      kindText = (\<lambda>k. case k of Parameter \<Rightarrow> ''parameter violation'' | _ \<Rightarrow> ''search issue'')\<rparr>"

section \<open>The error string (C7)\<close>

lemma Message_nonempty: "Message (errorCodeInfo c) \<noteq> []"
  by (cases c) simp_all

lemma Error_plain: "Error ds (Err c i m None) = specFormat ds c i m"
proof (cases "i = []"; cases "m = []")
qed (use Message_nonempty [of c] in \<open>simp_all add: specFormat_def join_def Let_def\<close>)

lemma Error_wrapped:
  "Error ds (Err c i m (Some w)) = specFormat ds c i m @ '': '' @ [CHR 0x0A] @ Error ds w"
proof (cases "i = []"; cases "m = []")
qed (use Message_nonempty [of c] in \<open>simp_all add: specFormat_def join_def Let_def\<close>)

text \<open>The five expected strings of \<open>TestError_Error\<close>.\<close>

lemma Error_test_strings:
  "Error ds (New Unknown [] [WithMsg ''test msg'']) = ''test msg: unknown: error #0''"
  "Error ds (New CheckConstraint [] []) =
     ''constraint check failed, integrity violation: error #1000''"
  "Error ds (New Unknown ''uniqueId'' []) = ''uniqueId: unknown, unknown: error #0''"
  "Error ds (New CheckConstraint ''uniqueId'' [WithMsg ''test msg'']) =
     ''uniqueId: test msg: integrity violation: error #1000''"
  "Error ds (New Unknown [] []) = ''unknown, unknown: error #0''"
  by (simp_all add: New_def join_def kindString_def codeNumber_def showNat.simps)

text \<open>
  C7, as amended. The string of an error built by \<open>New\<close> is the format of the
  specification (optional id, optional message, kind text with optional subtext, code)
  when no error is wrapped; when one is, a colon, a space, a newline and the string of
  the wrapped error follow. In particular the string of
  \<open>New(Unknown, "", WithMsg("test msg"))\<close> is "test msg: unknown: error #0".
\<close>

theorem Error_format:
  "Error ds (New c i os) =
     specFormat ds c i (withMsg os) @
     (case withWrap os of None \<Rightarrow> [] | Some w \<Rightarrow> '': '' @ [CHR 0x0A] @ Error ds w)
   \<and> Error ds (New Unknown [] [WithMsg ''test msg'']) = ''test msg: unknown: error #0''"
proof
  show "Error ds (New c i os) =
     specFormat ds c i (withMsg os) @
     (case withWrap os of None \<Rightarrow> [] | Some w \<Rightarrow> '': '' @ [CHR 0x0A] @ Error ds w)"
    unfolding New_def
    by (cases "withWrap os") (simp_all only: Error_plain Error_wrapped option.case append_Nil2)
  show "Error ds (New Unknown [] [WithMsg ''test msg'']) = ''test msg: unknown: error #0''"
    by (rule Error_test_strings(1))
qed

theorem Error_format_witness:
  "Error sampleDecls (New MissingSetId ''ovPimJEOGi'' []) =
     ''ovPimJEOGi: missing set id, parameter violation: error #100''
   \<and> Error sampleDecls (New Unknown [] [WithMsg ''test msg'']) = ''test msg: unknown: error #0''"
  using Error_format [of sampleDecls MissingSetId "''ovPimJEOGi''" "[]"]
  by (simp add: specFormat_def sampleDecls_def kindString_def codeNumber_def showNat.simps)

text \<open>
  The claim as stated fails for an error that wraps another: the error \<open>TestConvertError\<close>
  expects for a unique violation prints the string of the test, two lines, which is not
  the format.
\<close>

theorem Error_format_counterexample:
  "\<not> (\<forall>c i os. Error sampleDecls (New c i os) = specFormat sampleDecls c i (withMsg os))"
proof
  assume a: "\<forall>c i os. Error sampleDecls (New c i os) = specFormat sampleDecls c i (withMsg os)"
  have "Error sampleDecls
          (New NotUnique [] [WithMsg ''Key (name)=(alice) already exists.'', WithWrap ErrNotUnique])
        = specFormat sampleDecls NotUnique []
            (withMsg [WithMsg ''Key (name)=(alice) already exists.'', WithWrap ErrNotUnique])"
    using a by blast
  then show False
    by (simp add: New_def Error_wrapped ErrNotUnique_def del: Error.simps)
qed

section \<open>Is and Convert: the expected values of the tests\<close>

lemma Is_refl: "Is e e"
proof (cases e)
  case (Err c i m w)
  then show ?thesis by (cases w) simp_all
qed simp_all

lemma Convert_unique:
  "Convert (Some (PqError ''23505'' pm pd pcol pcons)) i = Some (Err NotUnique i pd (Some ErrNotUnique))"
  by (simp add: Convert_def New_def)

text \<open>The expected strings of \<open>TestConvertError\<close> for the four violations.\<close>

lemma Convert_test_strings:
  "map_option (Error ds)
     (Convert (Some (PqError ''23505'' pm ''Key (name)=(alice) already exists.'' pcol pcons)) [])
   = Some (''Key (name)=(alice) already exists.: integrity violation: error #1002: '' @
       [CHR 0x0A] @ ''unique constraint violation: integrity violation: error #1002'')"
  "map_option (Error ds) (Convert (Some (PqError ''23502'' pm pd ''description'' pcons)) [])
   = Some (''description must not be empty: integrity violation: error #1001: '' @
       [CHR 0x0A] @ ''not null constraint violated: integrity violation: error #1001'')"
  "map_option (Error ds)
     (Convert (Some (PqError ''23514'' pm pd pcol ''test_table_five_check'')) [])
   = Some (''test_table_five_check constraint failed: integrity violation: error #1000: '' @
       [CHR 0x0A] @ ''check constraint violated: integrity violation: error #1000'')"
  "map_option (Error ds)
     (Convert (Some (PqError ''42P01'' ''relation not_a_defined_table does not exist'' pd pcol pcons)) [])
   = Some ''relation not_a_defined_table does not exist: integrity violation: error #1004''"
  "Convert (Some (PqError ''23001'' [] [] [] [])) ''testid'' = Some (New NotSpecificIntegrity ''testid'' [])"
  by (simp_all add: Convert_def New_def ErrNotUnique_def ErrNotNull_def ErrCheckConstraint_def
        join_def kindString_def codeNumber_def showNat.simps)


section \<open>The API error handler\<close>

text \<open>
  The mapping of a domain error with code \<open>c\<close>: 400 \<open>InvalidArgument\<close> "Error in provided
  request" with the \<open>update_mask\<close> field detail for the two field mask codes, 400
  \<open>InvalidArgument\<close> with the fixed uniqueness message for \<open>NotUnique\<close>, 404 \<open>NotFound\<close>
  with the fixed not-found message for \<open>RecordNotFound\<close>, and for every other code 500
  \<open>Internal\<close> with an empty message and the generated id as the only detail. The
  response is the same for any other id, message and wrapped error of the domain error:
  nothing of them is in it. The id of a 500 response is the generated one as it is; the
  generator is not part of the model, so nothing is said on the id being empty or not.
\<close>

lemma ErrorHandler_table:
  "(c = InvalidFieldMask \<or> c = EmptyFieldMask \<longrightarrow>
      ErrorHandler hc errId (RepoError (Err c i m w)) =
        \<lparr>pbStatus = 400, pbCode = ''InvalidArgument'', pbMessage = ''Error in provided request'',
         pbDetails = Some \<lparr>RequestFields = [(''update_mask'', ''Invalid update mask provided.'')],
           DetailsErrorId = []\<rparr>\<rparr>)
   \<and> (c = NotUnique \<longrightarrow>
        ErrorHandler hc errId (RepoError (Err c i m w)) =
          \<lparr>pbStatus = 400, pbCode = ''InvalidArgument'', pbMessage = genericUniquenessMsg hc,
           pbDetails = None\<rparr>)
   \<and> (c = RecordNotFound \<longrightarrow>
        ErrorHandler hc errId (RepoError (Err c i m w)) =
          \<lparr>pbStatus = 404, pbCode = ''NotFound'', pbMessage = genericNotFoundMsg hc,
           pbDetails = None\<rparr>)
   \<and> (c \<notin> {InvalidFieldMask, EmptyFieldMask, NotUnique, RecordNotFound} \<longrightarrow>
        ErrorHandler hc errId (RepoError (Err c i m w)) =
          \<lparr>pbStatus = 500, pbCode = ''Internal'', pbMessage = [],
           pbDetails = Some \<lparr>RequestFields = [], DetailsErrorId = errId\<rparr>\<rparr>)
   \<and> ErrorHandler hc errId (RepoError (Err c i m w)) =
       ErrorHandler hc errId (RepoError (Err c i' m' w'))"
  by (simp add: ErrorHandler_def)

text \<open>
  The domain errors of \<open>TestApiErrorHandler\<close>, which takes the id of a 500 response from
  the response itself.
\<close>

lemma ErrorHandler_test_cases:
  "ErrorHandler hc errId (RepoError (New InvalidFieldMask ''testid'' [WithMsg ''test msg''])) =
     \<lparr>pbStatus = 400, pbCode = ''InvalidArgument'', pbMessage = ''Error in provided request'',
      pbDetails = Some \<lparr>RequestFields = [(''update_mask'', ''Invalid update mask provided.'')],
        DetailsErrorId = []\<rparr>\<rparr>"
  "ErrorHandler hc errId (RepoError (New EmptyFieldMask ''testid'' [WithMsg ''test msg''])) =
     \<lparr>pbStatus = 400, pbCode = ''InvalidArgument'', pbMessage = ''Error in provided request'',
      pbDetails = Some \<lparr>RequestFields = [(''update_mask'', ''Invalid update mask provided.'')],
        DetailsErrorId = []\<rparr>\<rparr>"
  "ErrorHandler hc errId (RepoError (New NotUnique ''testid'' [WithMsg ''test msg''])) =
     \<lparr>pbStatus = 400, pbCode = ''InvalidArgument'', pbMessage = genericUniquenessMsg hc,
      pbDetails = None\<rparr>"
  "ErrorHandler hc errId (RepoError (New RecordNotFound ''testid'' [WithMsg ''test msg''])) =
     \<lparr>pbStatus = 404, pbCode = ''NotFound'', pbMessage = genericNotFoundMsg hc,
      pbDetails = None\<rparr>"
  "c \<in> {MissingPublicId, InvalidParameter, MultipleRecords, InvalidAddress, MissingCatalogId,
         MissingVersion, MissingScopeId, MissingHostIds, MissingSetId, GenerateId} \<Longrightarrow>
   ErrorHandler hc errId (RepoError (New c ''testid'' [WithMsg ''test msg''])) =
     \<lparr>pbStatus = 500, pbCode = ''Internal'', pbMessage = [],
      pbDetails = Some \<lparr>RequestFields = [], DetailsErrorId = errId\<rparr>\<rparr>"
  by (auto simp: ErrorHandler_def New_def)

section \<open>Validation before any call (C5)\<close>

text \<open>
  C5. A call to \<open>AddSetMembers\<close>, \<open>DeleteSetMembers\<close> or \<open>SetSetMembers\<close> with an empty
  scope id, an empty set id, version 0 or (for the first two) no host ids returns the
  error of the first check that fails, an error of kind \<open>Parameter\<close> with no message and
  no wrapped error, and leaves the world as it was: no call to the key manager or the
  store is made and no transaction is opened.
\<close>

theorem member_operations_validate_first:
  assumes "scopeId = [] \<or> setId = [] \<or> version = 0 \<or> hostIds = []"
  shows
    "(\<exists>c i. AddSetMembers p r scopeId setId version hostIds w = (Inl (Err c i [] None), w)
        \<and> c = (if scopeId = [] then MissingScopeId else if setId = [] then MissingSetId
                else if version = 0 then MissingVersion else MissingHostIds)
        \<and> Kind (errorCodeInfo c) = Parameter)
     \<and> (\<exists>c i. DeleteSetMembers p r scopeId setId version hostIds w = (Inl (Err c i [] None), w)
        \<and> c = (if scopeId = [] then MissingScopeId else if setId = [] then MissingSetId
                else if version = 0 then MissingVersion else MissingHostIds)
        \<and> Kind (errorCodeInfo c) = Parameter)
     \<and> (scopeId = [] \<or> setId = [] \<or> version = 0 \<longrightarrow>
          (\<exists>c i. SetSetMembers p r scopeId setId version hostIds w = (Inl (Err c i [] None), w)
            \<and> c = (if scopeId = [] then MissingScopeId else if setId = [] then MissingSetId
                    else MissingVersion)
            \<and> Kind (errorCodeInfo c) = Parameter))"
  using assms
  by (auto simp: AddSetMembers_def DeleteSetMembers_def SetSetMembers_def New_def)

theorem member_operations_validate_first_witness:
  "AddSetMembers memPkg memRepo ''o_1'' ''hsst_1'' 1 [] (db1, []) =
     (Inl (Err MissingHostIds ''lIT0VcwEBL'' [] None), (db1, []))
   \<and> DeleteSetMembers memPkg memRepo ''o_1'' ''hsst_1'' 0 [''hst_1''] (db1, []) =
     (Inl (Err MissingVersion ''fyq9s5qJG7'' [] None), (db1, []))
   \<and> SetSetMembers memPkg memRepo [] ''hsst_1'' 1 [''hst_1''] (db1, []) =
     (Inl (Err MissingScopeId ''f586g3Ou3N'' [] None), (db1, []))"
  using member_operations_validate_first [of "''o_1''" "''hsst_1''" 1 "[]" memPkg memRepo "(db1, [])"]
    member_operations_validate_first [of "''o_1''" "''hsst_1''" 0 "[''hst_1'']" memPkg memRepo "(db1, [])"]
    member_operations_validate_first [of "[]" "''hsst_1''" 1 "[''hst_1'']" memPkg memRepo "(db1, [])"]
  by (simp add: AddSetMembers_def DeleteSetMembers_def SetSetMembers_def New_def)

section \<open>Lookups (C9)\<close>

text \<open>
  C9. \<open>LookupHost\<close> and \<open>LookupCatalog\<close> with a non-empty id: when the error of the store
  is the record-not-found sentinel (or has it in its chain) the result is \<open>nil, nil\<close>;
  any other error of the store is returned wrapped, with the id of the call site and
  the message "lookup failed for" the id. The store is not changed.
\<close>

theorem lookup_not_found_is_nil:
  assumes "publicId \<noteq> []"
  shows
    "(r_LookupHost (reader r) publicId d = Inl err \<longrightarrow>
        LookupHost p r publicId (d, evs) =
          (if Is err (ErrRecordNotFound p) then Inr None
           else Inl (Wrap err ''Ljwlcf1AdE'' [WithMsg (''lookup failed for '' @ publicId)]),
           (d, evs @ [LookupCall publicId])))
     \<and> (r_LookupHost (reader r) publicId d = Inl (ErrRecordNotFound p) \<longrightarrow>
          fst (LookupHost p r publicId (d, evs)) = Inr None)
     \<and> (r_LookupCatalog (reader r) publicId d = Inl err \<longrightarrow>
          LookupCatalog p r publicId (d, evs) =
            (if Is err (ErrRecordNotFound p) then Inr None
             else Inl (Wrap err ''rKb8JERpza'' [WithMsg (''lookup failed for '' @ publicId)]),
             (d, evs @ [LookupCall publicId])))
     \<and> (r_LookupCatalog (reader r) publicId d = Inl (ErrRecordNotFound p) \<longrightarrow>
          fst (LookupCatalog p r publicId (d, evs)) = Inr None)"
  using assms
  by (simp add: LookupHost_def LookupCatalog_def readerCall_def Is_refl)

theorem lookup_not_found_is_nil_witness:
  "LookupHost memPkg memRepo ''hst_9'' (db1, []) = (Inr None, (db1, [LookupCall ''hst_9'']))
   \<and> LookupCatalog memPkg memRepo ''hcst_9'' (db1, []) = (Inr None, (db1, [LookupCall ''hcst_9'']))
   \<and> LookupHost memPkg
        (memRepo\<lparr>reader := memReader\<lparr>r_LookupHost := (\<lambda>pid d. Inl (StdError ''connection lost''))\<rparr>\<rparr>)
        ''hst_1'' (db1, []) =
       (Inl (Err Unknown ''Ljwlcf1AdE'' ''lookup failed for hst_1'' (Some (StdError ''connection lost''))),
        (db1, [LookupCall ''hst_1'']))"
  using lookup_not_found_is_nil [of "''hst_9''" memRepo db1 memNotFound memPkg "[]"]
    lookup_not_found_is_nil [of "''hcst_9''" memRepo db1 memNotFound memPkg "[]"]
    lookup_not_found_is_nil [of "''hst_1''"
      "memRepo\<lparr>reader := memReader\<lparr>r_LookupHost := (\<lambda>pid d. Inl (StdError ''connection lost''))\<rparr>\<rparr>"
      db1 "StdError ''connection lost''" memPkg "[]"]
  by (simp add: memRepo_def memReader_def memPkg_def db1_def memNotFound_def Wrap_def
        host1_def host2_def catalog1_def)

section \<open>The transaction runner\<close>

lemma attempts_closed:
  "attempts wr n Handler d =
     (case attempt wr Handler d of
        (Inr x, evs) \<Rightarrow> (Inr x, evs)
      | (Inl err, evs) \<Rightarrow>
          if retryable (w_Transient wr) err
          then (Inl (w_Exhausted wr err), concat (replicate (Suc n) evs))
          else (Inl err, evs))"
  by (induction n) (auto split: prod.splits sum.splits)

lemma attempt_success:
  "attempt wr Handler d = (Inr (a, d'), evs) \<Longrightarrow>
     \<exists>bevs. Handler (d, []) = (Inr a, (d', bevs)) \<and> w_Commit wr d' = None
       \<and> evs = TxBegin # bevs @ [TxCommit]"
  by (auto simp: attempt_def split: prod.splits sum.splits option.splits)

lemma attempt_failure:
  "attempt wr Handler d = (Inl err, evs) \<Longrightarrow>
     evs = TxBegin # snd (snd (Handler (d, []))) @ [TxRollback]
     \<and> (fst (Handler (d, [])) = Inl err
        \<or> (\<exists>a. fst (Handler (d, [])) = Inr a
              \<and> w_Commit wr (fst (snd (Handler (d, [])))) = Some err))"
  by (auto simp: attempt_def split: prod.splits sum.splits option.splits)

lemma DoTx_success:
  "DoTx wr n Handler (d, evs0) = (Inr a, (d', evs)) \<Longrightarrow>
     \<exists>bevs. Handler (d, []) = (Inr a, (d', bevs)) \<and> w_Commit wr d' = None
       \<and> evs = evs0 @ TxBegin # bevs @ [TxCommit]"
  by (auto simp: DoTx_def attempts_closed split: prod.splits sum.splits if_splits
      dest!: attempt_success)

lemma DoTx_failure:
  "DoTx wr n Handler (d, evs0) = (Inl err, (d', evs)) \<Longrightarrow>
     d' = d
     \<and> (\<exists>k. evs = evs0 @
           concat (replicate (Suc k) (TxBegin # snd (snd (Handler (d, []))) @ [TxRollback])))"
  by (auto simp: DoTx_def attempts_closed split: prod.splits sum.splits if_splits
      dest!: attempt_failure)

text \<open>A handler that fails with an error that is not retried: one attempt, rolled back.\<close>

lemma DoTx_abort:
  "Handler (d, []) = (Inl err, (d1, bevs)) \<Longrightarrow> \<not> retryable (w_Transient wr) err \<Longrightarrow>
     DoTx wr n Handler (d, evs0) = (Inl err, (d, evs0 @ TxBegin # bevs @ [TxRollback]))"
  by (simp add: DoTx_def attempts_closed attempt_def)

text \<open>
  \<open>DoTx\<close> of a handler that makes one call to the store: the call fails, the commit
  fails, or both succeed.
\<close>

lemma DoTx_writerCall:
  "DoTx wr n (writerCall ev f) (d, evs0) =
     (case f d of
        (Inl serr, d1) \<Rightarrow>
          if retryable (w_Transient wr) serr
          then (Inl (w_Exhausted wr serr),
                (d, evs0 @ concat (replicate (Suc n) [TxBegin, ev, TxRollback])))
          else (Inl serr, (d, evs0 @ [TxBegin, ev, TxRollback]))
      | (Inr a, d1) \<Rightarrow>
          (case w_Commit wr d1 of
             Some serr \<Rightarrow>
               if retryable (w_Transient wr) serr
               then (Inl (w_Exhausted wr serr),
                     (d, evs0 @ concat (replicate (Suc n) [TxBegin, ev, TxRollback])))
               else (Inl serr, (d, evs0 @ [TxBegin, ev, TxRollback]))
           | None \<Rightarrow> (Inr a, (d1, evs0 @ [TxBegin, ev, TxCommit]))))"
  by (simp add: DoTx_def attempts_closed attempt_def writerCall_def
      split: prod.splits sum.splits option.splits)

section \<open>A creation with valid arguments\<close>

text \<open>
  With valid arguments, the id chosen and the wrapper resolved, \<open>CreateHost\<close> and
  \<open>CreateCatalog\<close> are the transaction that creates the entity, followed by the
  classification of its failure.
\<close>

lemma CreateHost_valid:
  assumes "h_CatalogId h0 \<noteq> []" and "h_PublicId h0 = []" and "scopeId \<noteq> []"
    and "MinHostAddressLength p \<le> length (TrimSpace p (h_Address h0))"
    and "length (TrimSpace p (h_Address h0)) \<le> MaxHostAddressLength p"
    and "if withPublicId opts \<noteq> []
         then prefix (HostPrefix @ ''_'') (withPublicId opts) \<and> pid = withPublicId opts \<and> pre = []
         else NewPublicId p HostPrefix = Inr pid \<and> pre = [NewPublicIdCall HostPrefix]"
    and "kms r scopeId = Inr ow"
    and "h2 = h0\<lparr>h_Address := TrimSpace p (h_Address h0), h_PublicId := pid\<rparr>"
    and "md = hostOplog p h2 OP_TYPE_CREATE"
  shows "CreateHost p r scopeId (Some (Some h0)) opts (d, []) =
     (case DoTx (writer r) (StdRetryCnt p)
             (writerCall (CreateCall pid ow md) (w_CreateHost (writer r) h2 ow md))
             (d, pre @ [GetWrapperCall scopeId]) of
        (Inl err, w3) \<Rightarrow>
          (Inl (case Convert (Some err) ''yyg1sVUuzo'' of
                  Some dErr \<Rightarrow> dErr
                | None \<Rightarrow> New Unknown ''mEN8tF6Zbr''
                    [WithMsg (''catalog: '' @ h_CatalogId h0 @ '': '' @ Quote p (h_Name h0)),
                     WithWrap err]), w3)
      | (Inr created, w3) \<Rightarrow> (Inr created, w3))"
  using assms
  by (auto simp: CreateHost_def Let_def GetWrapper_def newHostId_def
      split: prod.splits sum.splits option.splits if_splits)

lemma CreateCatalog_valid:
  assumes "c_ScopeId c0 \<noteq> []" and "c_PublicId c0 = []"
    and "if withPublicId opts \<noteq> []
         then prefix (HostCatalogPrefix @ ''_'') (withPublicId opts) \<and> pid = withPublicId opts
              \<and> pre = []
         else NewPublicId p HostCatalogPrefix = Inr pid \<and> pre = [NewPublicIdCall HostCatalogPrefix]"
    and "kms r (c_ScopeId c0) = Inr ow"
    and "c1 = c0\<lparr>c_PublicId := pid\<rparr>"
    and "md = newCatalogMetadata p c1 OP_TYPE_CREATE"
  shows "CreateCatalog p r (Some (Some c0)) opts (d, []) =
     (case DoTx (writer r) (StdRetryCnt p)
             (writerCall (CreateCall pid ow md) (w_CreateCatalog (writer r) c1 ow md))
             (d, pre @ [GetWrapperCall (c_ScopeId c0)]) of
        (Inl err, w3) \<Rightarrow>
          (Inl (case Convert (Some err) ''lpmawQlpci'' of
                  Some dErr \<Rightarrow> dErr
                | None \<Rightarrow> New Unknown ''YUNviuuTot''
                    [WithMsg (''scope: '' @ c_ScopeId c0), WithWrap err]), w3)
      | (Inr created, w3) \<Rightarrow> (Inr created, w3))"
  using assms
  by (auto simp: CreateCatalog_def Let_def GetWrapper_def newHostCatalogId_def
      split: prod.splits sum.splits option.splits if_splits)

section \<open>A caller-supplied public id (C10)\<close>

lemma CreateHost_public_id_events:
  assumes "CreateHost p r scopeId h opts (d, []) = (res, (d', evs))"
  shows
    "(withPublicId opts \<noteq> [] \<longrightarrow>
        NewPublicIdCall HostPrefix \<notin> set evs
        \<and> (\<forall>pid ow md. CreateCall pid ow md \<in> set evs \<longrightarrow> pid = withPublicId opts)
        \<and> (\<forall>created. res = Inr created \<longrightarrow>
              (\<exists>ow md. evs = [GetWrapperCall scopeId, TxBegin,
                 CreateCall (withPublicId opts) ow md, TxCommit])))
     \<and> (withPublicId opts = [] \<longrightarrow>
          (\<forall>created. res = Inr created \<longrightarrow>
             (\<exists>pid ow md. NewPublicId p HostPrefix = Inr pid
                \<and> evs = [NewPublicIdCall HostPrefix, GetWrapperCall scopeId, TxBegin,
                     CreateCall pid ow md, TxCommit])))"
  using assms
  by (auto simp: CreateHost_def Let_def GetWrapper_def writerCall_def newHostId_def
      split: option.splits if_splits sum.splits prod.splits
      dest!: DoTx_success DoTx_failure)

lemma CreateCatalog_public_id_events:
  assumes "CreateCatalog p r c opts (d, []) = (res, (d', evs))"
  shows
    "(withPublicId opts \<noteq> [] \<longrightarrow>
        NewPublicIdCall HostCatalogPrefix \<notin> set evs
        \<and> (\<forall>pid ow md. CreateCall pid ow md \<in> set evs \<longrightarrow> pid = withPublicId opts)
        \<and> (\<forall>created. res = Inr created \<longrightarrow>
              (\<exists>c0 ow md. c = Some (Some c0)
                 \<and> evs = [GetWrapperCall (c_ScopeId c0), TxBegin,
                      CreateCall (withPublicId opts) ow md, TxCommit])))
     \<and> (withPublicId opts = [] \<longrightarrow>
          (\<forall>created. res = Inr created \<longrightarrow>
             (\<exists>c0 pid ow md. c = Some (Some c0) \<and> NewPublicId p HostCatalogPrefix = Inr pid
                \<and> evs = [NewPublicIdCall HostCatalogPrefix, GetWrapperCall (c_ScopeId c0),
                     TxBegin, CreateCall pid ow md, TxCommit])))"
  using assms
  by (auto simp: CreateCatalog_def Let_def GetWrapper_def writerCall_def newHostCatalogId_def
      split: option.splits if_splits sum.splits prod.splits
      dest!: DoTx_success DoTx_failure)

lemma CreateHost_wrong_prefix:
  assumes "withPublicId opts \<noteq> []" and "\<not> prefix (HostPrefix @ ''_'') (withPublicId opts)"
  shows "\<exists>e. CreateHost p r scopeId h opts w = (Inl e, w)"
    and "h = Some (Some h0) \<Longrightarrow> h_CatalogId h0 \<noteq> [] \<Longrightarrow> h_PublicId h0 = [] \<Longrightarrow> scopeId \<noteq> []
      \<Longrightarrow> MinHostAddressLength p \<le> length (TrimSpace p (h_Address h0))
      \<Longrightarrow> length (TrimSpace p (h_Address h0)) \<le> MaxHostAddressLength p
      \<Longrightarrow> \<exists>m. CreateHost p r scopeId h opts w =
            (Inl (Err InvalidParameter ''fVA68Amp1G'' m None), w)"
  using assms
  by (auto simp: CreateHost_def Let_def New_def split: option.splits)

lemma CreateCatalog_wrong_prefix:
  assumes "withPublicId opts \<noteq> []" and "\<not> prefix (HostCatalogPrefix @ ''_'') (withPublicId opts)"
  shows "\<exists>e. CreateCatalog p r c opts w = (Inl e, w)"
    and "c = Some (Some c0) \<Longrightarrow> c_ScopeId c0 \<noteq> [] \<Longrightarrow> c_PublicId c0 = []
      \<Longrightarrow> \<exists>m. CreateCatalog p r c opts w =
            (Inl (Err InvalidParameter ''o8KBnSVBtW'' m None), w)"
  using assms
  by (auto simp: CreateCatalog_def Let_def New_def split: option.splits)

lemma CreateHost_chosen_id:
  assumes "h_CatalogId h0 \<noteq> []" and "h_PublicId h0 = []" and "scopeId \<noteq> []"
    and "MinHostAddressLength p \<le> length (TrimSpace p (h_Address h0))"
    and "length (TrimSpace p (h_Address h0)) \<le> MaxHostAddressLength p"
    and "if withPublicId opts \<noteq> []
         then prefix (HostPrefix @ ''_'') (withPublicId opts) \<and> pid = withPublicId opts \<and> pre = []
         else NewPublicId p HostPrefix = Inr pid \<and> pre = [NewPublicIdCall HostPrefix]"
    and "kms r scopeId = Inr ow"
    and "h2 = h0\<lparr>h_Address := TrimSpace p (h_Address h0), h_PublicId := pid\<rparr>"
    and "md = hostOplog p h2 OP_TYPE_CREATE"
  shows "\<exists>rest. snd (snd (CreateHost p r scopeId (Some (Some h0)) opts (d, []))) =
           pre @ GetWrapperCall scopeId # TxBegin # CreateCall pid ow md # rest"
    and "w_CreateHost (writer r) h2 ow md d = (Inr created, d1) \<Longrightarrow> w_Commit (writer r) d1 = None
      \<Longrightarrow> CreateHost p r scopeId (Some (Some h0)) opts (d, []) =
            (Inr created, (d1, pre @ [GetWrapperCall scopeId, TxBegin,
               CreateCall pid ow md, TxCommit]))"
proof -
  have eq: "CreateHost p r scopeId (Some (Some h0)) opts (d, []) =
     (case DoTx (writer r) (StdRetryCnt p)
             (writerCall (CreateCall pid ow md) (w_CreateHost (writer r) h2 ow md))
             (d, pre @ [GetWrapperCall scopeId]) of
        (Inl err, w3) \<Rightarrow>
          (Inl (case Convert (Some err) ''yyg1sVUuzo'' of
                  Some dErr \<Rightarrow> dErr
                | None \<Rightarrow> New Unknown ''mEN8tF6Zbr''
                    [WithMsg (''catalog: '' @ h_CatalogId h0 @ '': '' @ Quote p (h_Name h0)),
                     WithWrap err]), w3)
      | (Inr created, w3) \<Rightarrow> (Inr created, w3))"
    by (rule CreateHost_valid) (rule assms)+
  show "\<exists>rest. snd (snd (CreateHost p r scopeId (Some (Some h0)) opts (d, []))) =
           pre @ GetWrapperCall scopeId # TxBegin # CreateCall pid ow md # rest"
    by (simp add: eq DoTx_writerCall split: prod.splits sum.splits option.splits)
  show "CreateHost p r scopeId (Some (Some h0)) opts (d, []) =
            (Inr created, (d1, pre @ [GetWrapperCall scopeId, TxBegin,
               CreateCall pid ow md, TxCommit]))"
    if "w_CreateHost (writer r) h2 ow md d = (Inr created, d1)" and "w_Commit (writer r) d1 = None"
    using that by (simp add: eq DoTx_writerCall)
qed

lemma CreateCatalog_chosen_id:
  assumes "c_ScopeId c0 \<noteq> []" and "c_PublicId c0 = []"
    and "if withPublicId opts \<noteq> []
         then prefix (HostCatalogPrefix @ ''_'') (withPublicId opts) \<and> pid = withPublicId opts
              \<and> pre = []
         else NewPublicId p HostCatalogPrefix = Inr pid \<and> pre = [NewPublicIdCall HostCatalogPrefix]"
    and "kms r (c_ScopeId c0) = Inr ow"
    and "c1 = c0\<lparr>c_PublicId := pid\<rparr>"
    and "md = newCatalogMetadata p c1 OP_TYPE_CREATE"
  shows "\<exists>rest. snd (snd (CreateCatalog p r (Some (Some c0)) opts (d, []))) =
           pre @ GetWrapperCall (c_ScopeId c0) # TxBegin # CreateCall pid ow md # rest"
    and "w_CreateCatalog (writer r) c1 ow md d = (Inr created, d1) \<Longrightarrow> w_Commit (writer r) d1 = None
      \<Longrightarrow> CreateCatalog p r (Some (Some c0)) opts (d, []) =
            (Inr created, (d1, pre @ [GetWrapperCall (c_ScopeId c0), TxBegin,
               CreateCall pid ow md, TxCommit]))"
proof -
  have eq: "CreateCatalog p r (Some (Some c0)) opts (d, []) =
     (case DoTx (writer r) (StdRetryCnt p)
             (writerCall (CreateCall pid ow md) (w_CreateCatalog (writer r) c1 ow md))
             (d, pre @ [GetWrapperCall (c_ScopeId c0)]) of
        (Inl err, w3) \<Rightarrow>
          (Inl (case Convert (Some err) ''lpmawQlpci'' of
                  Some dErr \<Rightarrow> dErr
                | None \<Rightarrow> New Unknown ''YUNviuuTot''
                    [WithMsg (''scope: '' @ c_ScopeId c0), WithWrap err]), w3)
      | (Inr created, w3) \<Rightarrow> (Inr created, w3))"
    by (rule CreateCatalog_valid) (rule assms)+
  show "\<exists>rest. snd (snd (CreateCatalog p r (Some (Some c0)) opts (d, []))) =
           pre @ GetWrapperCall (c_ScopeId c0) # TxBegin # CreateCall pid ow md # rest"
    by (simp add: eq DoTx_writerCall split: prod.splits sum.splits option.splits)
  show "CreateCatalog p r (Some (Some c0)) opts (d, []) =
            (Inr created, (d1, pre @ [GetWrapperCall (c_ScopeId c0), TxBegin,
               CreateCall pid ow md, TxCommit]))"
    if "w_CreateCatalog (writer r) c1 ow md d = (Inr created, d1)"
      and "w_Commit (writer r) d1 = None"
    using that by (simp add: eq DoTx_writerCall)
qed

text \<open>
  C10. \<open>CreateHost\<close> and \<open>CreateCatalog\<close> with a public id given as an option. When the
  id does not begin with the prefix of the type and an underscore (\<open>hst_\<close>, \<open>hcst_\<close>),
  the call fails with no call made and the store as it was, and, the checks before it
  passed, the error is \<open>InvalidParameter\<close>. When it does, no id is generated and every
  entity handed to the store carries the id of the option. More, with valid arguments
  and the wrapper resolved, the id chosen is the one of the option when there is one and
  the generated one otherwise; the call opens a transaction and asks the store to create
  the entity with the id chosen; and when the store creates it and commits, the call
  returns the entity the store created, leaves the store the creation left, and made
  exactly the calls: generate an id (only with no option), resolve the wrapper, open the
  transaction, create, commit.
\<close>

theorem create_with_public_id:
  "(withPublicId opts \<noteq> [] \<and> \<not> prefix (HostPrefix @ ''_'') (withPublicId opts) \<longrightarrow>
      (\<exists>e. CreateHost p r scopeId h opts (d, []) = (Inl e, (d, [])))
      \<and> (h = Some (Some h0) \<and> h_CatalogId h0 \<noteq> [] \<and> h_PublicId h0 = [] \<and> scopeId \<noteq> []
          \<and> MinHostAddressLength p \<le> length (TrimSpace p (h_Address h0))
          \<and> length (TrimSpace p (h_Address h0)) \<le> MaxHostAddressLength p \<longrightarrow>
            (\<exists>m. CreateHost p r scopeId h opts (d, []) =
               (Inl (Err InvalidParameter ''fVA68Amp1G'' m None), (d, [])))))
   \<and> (withPublicId opts \<noteq> [] \<and> \<not> prefix (HostCatalogPrefix @ ''_'') (withPublicId opts) \<longrightarrow>
        (\<exists>e. CreateCatalog p r c opts (d, []) = (Inl e, (d, [])))
        \<and> (c = Some (Some c0) \<and> c_ScopeId c0 \<noteq> [] \<and> c_PublicId c0 = [] \<longrightarrow>
              (\<exists>m. CreateCatalog p r c opts (d, []) =
                 (Inl (Err InvalidParameter ''o8KBnSVBtW'' m None), (d, [])))))
   \<and> (case CreateHost p r scopeId h opts (d, []) of
        (res, (d', evs)) \<Rightarrow>
          (withPublicId opts \<noteq> [] \<longrightarrow>
             NewPublicIdCall HostPrefix \<notin> set evs
             \<and> (\<forall>pid ow md. CreateCall pid ow md \<in> set evs \<longrightarrow> pid = withPublicId opts)
             \<and> (\<forall>created. res = Inr created \<longrightarrow>
                   (\<exists>ow md. evs = [GetWrapperCall scopeId, TxBegin,
                      CreateCall (withPublicId opts) ow md, TxCommit])))
          \<and> (withPublicId opts = [] \<longrightarrow>
               (\<forall>created. res = Inr created \<longrightarrow>
                  (\<exists>pid ow md. NewPublicId p HostPrefix = Inr pid
                     \<and> evs = [NewPublicIdCall HostPrefix, GetWrapperCall scopeId, TxBegin,
                          CreateCall pid ow md, TxCommit]))))
   \<and> (case CreateCatalog p r c opts (d, []) of
        (res, (d', evs)) \<Rightarrow>
          (withPublicId opts \<noteq> [] \<longrightarrow>
             NewPublicIdCall HostCatalogPrefix \<notin> set evs
             \<and> (\<forall>pid ow md. CreateCall pid ow md \<in> set evs \<longrightarrow> pid = withPublicId opts)
             \<and> (\<forall>created. res = Inr created \<longrightarrow>
                   (\<exists>c0 ow md. c = Some (Some c0)
                      \<and> evs = [GetWrapperCall (c_ScopeId c0), TxBegin,
                           CreateCall (withPublicId opts) ow md, TxCommit])))
          \<and> (withPublicId opts = [] \<longrightarrow>
               (\<forall>created. res = Inr created \<longrightarrow>
                  (\<exists>c0 pid ow md. c = Some (Some c0) \<and> NewPublicId p HostCatalogPrefix = Inr pid
                     \<and> evs = [NewPublicIdCall HostCatalogPrefix, GetWrapperCall (c_ScopeId c0),
                          TxBegin, CreateCall pid ow md, TxCommit]))))
   \<and> (h = Some (Some h0) \<and> h_CatalogId h0 \<noteq> [] \<and> h_PublicId h0 = [] \<and> scopeId \<noteq> []
        \<and> MinHostAddressLength p \<le> length (TrimSpace p (h_Address h0))
        \<and> length (TrimSpace p (h_Address h0)) \<le> MaxHostAddressLength p
        \<and> (if withPublicId opts \<noteq> []
            then prefix (HostPrefix @ ''_'') (withPublicId opts) \<and> pid = withPublicId opts
                 \<and> pre = []
            else NewPublicId p HostPrefix = Inr pid \<and> pre = [NewPublicIdCall HostPrefix])
        \<and> kms r scopeId = Inr ow
        \<and> h2 = h0\<lparr>h_Address := TrimSpace p (h_Address h0), h_PublicId := pid\<rparr>
        \<and> md = hostOplog p h2 OP_TYPE_CREATE \<longrightarrow>
          (\<exists>rest. snd (snd (CreateHost p r scopeId h opts (d, []))) =
             pre @ GetWrapperCall scopeId # TxBegin # CreateCall pid ow md # rest)
          \<and> (w_CreateHost (writer r) h2 ow md d = (Inr created, d1)
               \<and> w_Commit (writer r) d1 = None \<longrightarrow>
                 CreateHost p r scopeId h opts (d, []) =
                   (Inr created, (d1, pre @ [GetWrapperCall scopeId, TxBegin,
                      CreateCall pid ow md, TxCommit]))))
   \<and> (c = Some (Some c0) \<and> c_ScopeId c0 \<noteq> [] \<and> c_PublicId c0 = []
        \<and> (if withPublicId opts \<noteq> []
            then prefix (HostCatalogPrefix @ ''_'') (withPublicId opts) \<and> cpid = withPublicId opts
                 \<and> cpre = []
            else NewPublicId p HostCatalogPrefix = Inr cpid
                 \<and> cpre = [NewPublicIdCall HostCatalogPrefix])
        \<and> kms r (c_ScopeId c0) = Inr cow
        \<and> c1 = c0\<lparr>c_PublicId := cpid\<rparr>
        \<and> cmd = newCatalogMetadata p c1 OP_TYPE_CREATE \<longrightarrow>
          (\<exists>rest. snd (snd (CreateCatalog p r c opts (d, []))) =
             cpre @ GetWrapperCall (c_ScopeId c0) # TxBegin # CreateCall cpid cow cmd # rest)
          \<and> (w_CreateCatalog (writer r) c1 cow cmd d = (Inr ccreated, cd1)
               \<and> w_Commit (writer r) cd1 = None \<longrightarrow>
                 CreateCatalog p r c opts (d, []) =
                   (Inr ccreated, (cd1, cpre @ [GetWrapperCall (c_ScopeId c0), TxBegin,
                      CreateCall cpid cow cmd, TxCommit]))))"
proof (intro conjI)
  show "withPublicId opts \<noteq> [] \<and> \<not> prefix (HostPrefix @ ''_'') (withPublicId opts) \<longrightarrow>
      (\<exists>e. CreateHost p r scopeId h opts (d, []) = (Inl e, (d, [])))
      \<and> (h = Some (Some h0) \<and> h_CatalogId h0 \<noteq> [] \<and> h_PublicId h0 = [] \<and> scopeId \<noteq> []
          \<and> MinHostAddressLength p \<le> length (TrimSpace p (h_Address h0))
          \<and> length (TrimSpace p (h_Address h0)) \<le> MaxHostAddressLength p \<longrightarrow>
            (\<exists>m. CreateHost p r scopeId h opts (d, []) =
               (Inl (Err InvalidParameter ''fVA68Amp1G'' m None), (d, []))))"
    using CreateHost_wrong_prefix [where w = "(d, [])" and opts = opts and p = p] by blast
  show "withPublicId opts \<noteq> [] \<and> \<not> prefix (HostCatalogPrefix @ ''_'') (withPublicId opts) \<longrightarrow>
        (\<exists>e. CreateCatalog p r c opts (d, []) = (Inl e, (d, [])))
        \<and> (c = Some (Some c0) \<and> c_ScopeId c0 \<noteq> [] \<and> c_PublicId c0 = [] \<longrightarrow>
              (\<exists>m. CreateCatalog p r c opts (d, []) =
                 (Inl (Err InvalidParameter ''o8KBnSVBtW'' m None), (d, []))))"
    using CreateCatalog_wrong_prefix [where w = "(d, [])" and opts = opts and p = p] by blast
  obtain res d' evs where run: "CreateHost p r scopeId h opts (d, []) = (res, (d', evs))"
    by (metis prod.exhaust)
  show "case CreateHost p r scopeId h opts (d, []) of
        (res, (d', evs)) \<Rightarrow>
          (withPublicId opts \<noteq> [] \<longrightarrow>
             NewPublicIdCall HostPrefix \<notin> set evs
             \<and> (\<forall>pid ow md. CreateCall pid ow md \<in> set evs \<longrightarrow> pid = withPublicId opts)
             \<and> (\<forall>created. res = Inr created \<longrightarrow>
                   (\<exists>ow md. evs = [GetWrapperCall scopeId, TxBegin,
                      CreateCall (withPublicId opts) ow md, TxCommit])))
          \<and> (withPublicId opts = [] \<longrightarrow>
               (\<forall>created. res = Inr created \<longrightarrow>
                  (\<exists>pid ow md. NewPublicId p HostPrefix = Inr pid
                     \<and> evs = [NewPublicIdCall HostPrefix, GetWrapperCall scopeId, TxBegin,
                          CreateCall pid ow md, TxCommit])))"
    using CreateHost_public_id_events [OF run] by (simp only: run prod.case)
  obtain res d' evs where run: "CreateCatalog p r c opts (d, []) = (res, (d', evs))"
    by (metis prod.exhaust)
  show "case CreateCatalog p r c opts (d, []) of
        (res, (d', evs)) \<Rightarrow>
          (withPublicId opts \<noteq> [] \<longrightarrow>
             NewPublicIdCall HostCatalogPrefix \<notin> set evs
             \<and> (\<forall>pid ow md. CreateCall pid ow md \<in> set evs \<longrightarrow> pid = withPublicId opts)
             \<and> (\<forall>created. res = Inr created \<longrightarrow>
                   (\<exists>c0 ow md. c = Some (Some c0)
                      \<and> evs = [GetWrapperCall (c_ScopeId c0), TxBegin,
                           CreateCall (withPublicId opts) ow md, TxCommit])))
          \<and> (withPublicId opts = [] \<longrightarrow>
               (\<forall>created. res = Inr created \<longrightarrow>
                  (\<exists>c0 pid ow md. c = Some (Some c0) \<and> NewPublicId p HostCatalogPrefix = Inr pid
                     \<and> evs = [NewPublicIdCall HostCatalogPrefix, GetWrapperCall (c_ScopeId c0),
                          TxBegin, CreateCall pid ow md, TxCommit])))"
    using CreateCatalog_public_id_events [OF run] by (simp only: run prod.case)
  show "h = Some (Some h0) \<and> h_CatalogId h0 \<noteq> [] \<and> h_PublicId h0 = [] \<and> scopeId \<noteq> []
        \<and> MinHostAddressLength p \<le> length (TrimSpace p (h_Address h0))
        \<and> length (TrimSpace p (h_Address h0)) \<le> MaxHostAddressLength p
        \<and> (if withPublicId opts \<noteq> []
            then prefix (HostPrefix @ ''_'') (withPublicId opts) \<and> pid = withPublicId opts
                 \<and> pre = []
            else NewPublicId p HostPrefix = Inr pid \<and> pre = [NewPublicIdCall HostPrefix])
        \<and> kms r scopeId = Inr ow
        \<and> h2 = h0\<lparr>h_Address := TrimSpace p (h_Address h0), h_PublicId := pid\<rparr>
        \<and> md = hostOplog p h2 OP_TYPE_CREATE \<longrightarrow>
          (\<exists>rest. snd (snd (CreateHost p r scopeId h opts (d, []))) =
             pre @ GetWrapperCall scopeId # TxBegin # CreateCall pid ow md # rest)
          \<and> (w_CreateHost (writer r) h2 ow md d = (Inr created, d1)
               \<and> w_Commit (writer r) d1 = None \<longrightarrow>
                 CreateHost p r scopeId h opts (d, []) =
                   (Inr created, (d1, pre @ [GetWrapperCall scopeId, TxBegin,
                      CreateCall pid ow md, TxCommit])))"
    using CreateHost_chosen_id(1) [where p = p and r = r and opts = opts and ?h0.0 = h0
        and scopeId = scopeId and ow = ow and ?h2.0 = h2 and md = md and d = d
        and pid = pid and pre = pre]
      CreateHost_chosen_id(2) [where p = p and r = r and opts = opts and ?h0.0 = h0
        and scopeId = scopeId and ow = ow and ?h2.0 = h2 and md = md and d = d
        and pid = pid and pre = pre and created = created and ?d1.0 = d1]
    by blast
  show "c = Some (Some c0) \<and> c_ScopeId c0 \<noteq> [] \<and> c_PublicId c0 = []
        \<and> (if withPublicId opts \<noteq> []
            then prefix (HostCatalogPrefix @ ''_'') (withPublicId opts) \<and> cpid = withPublicId opts
                 \<and> cpre = []
            else NewPublicId p HostCatalogPrefix = Inr cpid
                 \<and> cpre = [NewPublicIdCall HostCatalogPrefix])
        \<and> kms r (c_ScopeId c0) = Inr cow
        \<and> c1 = c0\<lparr>c_PublicId := cpid\<rparr>
        \<and> cmd = newCatalogMetadata p c1 OP_TYPE_CREATE \<longrightarrow>
          (\<exists>rest. snd (snd (CreateCatalog p r c opts (d, []))) =
             cpre @ GetWrapperCall (c_ScopeId c0) # TxBegin # CreateCall cpid cow cmd # rest)
          \<and> (w_CreateCatalog (writer r) c1 cow cmd d = (Inr ccreated, cd1)
               \<and> w_Commit (writer r) cd1 = None \<longrightarrow>
                 CreateCatalog p r c opts (d, []) =
                   (Inr ccreated, (cd1, cpre @ [GetWrapperCall (c_ScopeId c0), TxBegin,
                      CreateCall cpid cow cmd, TxCommit])))"
    using CreateCatalog_chosen_id(1) [where p = p and r = r and opts = opts and ?c0.0 = c0
        and ow = cow and ?c1.0 = c1 and md = cmd and d = d and pid = cpid and pre = cpre]
      CreateCatalog_chosen_id(2) [where p = p and r = r and opts = opts and ?c0.0 = c0
        and ow = cow and ?c1.0 = c1 and md = cmd and d = d and pid = cpid and pre = cpre
        and created = ccreated and ?d1.0 = cd1]
    by blast
qed

text \<open>
  Runs on the store in memory: a host and a catalog created with the id of the option, the
  two refusals of an id with the prefix of the other type, and a host created with a
  generated id.
\<close>

theorem create_with_public_id_witness:
  "CreateHost memPkg memRepo ''o_1'' (Some (Some newHost))
     \<lparr>withPublicId = ''hst_custom'', withLimit = 0\<rparr> (db1, []) =
     (Inr (newHost\<lparr>h_PublicId := ''hst_custom'', h_Version := 1\<rparr>),
      (db1\<lparr>m_hosts := [host1, host2, newHost\<lparr>h_PublicId := ''hst_custom'', h_Version := 1\<rparr>]\<rparr>,
       [GetWrapperCall ''o_1'', TxBegin,
        CreateCall ''hst_custom'' ''wrapper o_1''
          [(''resource-public-id'', [''hst_custom'']), (''resource-type'', [''static-host'']),
           (''op-type'', [''OP_TYPE_CREATE''])],
        TxCommit]))
   \<and> CreateCatalog memPkg memRepo (Some (Some newCatalog))
       \<lparr>withPublicId = ''hcst_custom'', withLimit = 0\<rparr> (db1, []) =
       (Inr (newCatalog\<lparr>c_PublicId := ''hcst_custom'', c_Version := 1\<rparr>),
        (db1\<lparr>m_catalogs := [catalog1,
           newCatalog\<lparr>c_PublicId := ''hcst_custom'', c_Version := 1\<rparr>]\<rparr>,
         [GetWrapperCall ''o_1'', TxBegin,
          CreateCall ''hcst_custom'' ''wrapper o_1''
            [(''resource-public-id'', [''hcst_custom'']),
             (''resource-type'', [''static-host-catalog'']),
             (''op-type'', [''OP_TYPE_CREATE''])],
          TxCommit]))
   \<and> (\<exists>m. CreateHost memPkg memRepo ''o_1'' (Some (Some newHost))
          \<lparr>withPublicId = ''hcst_custom'', withLimit = 0\<rparr> (db1, []) =
        (Inl (Err InvalidParameter ''fVA68Amp1G'' m None), (db1, [])))
   \<and> (\<exists>m. CreateCatalog memPkg memRepo (Some (Some newCatalog))
          \<lparr>withPublicId = ''hst_custom'', withLimit = 0\<rparr> (db1, []) =
        (Inl (Err InvalidParameter ''o8KBnSVBtW'' m None), (db1, [])))
   \<and> CreateHost memPkg memRepo ''o_1'' (Some (Some newHost)) noOpts (db1, []) =
       (Inr (newHost\<lparr>h_PublicId := ''hst_1234567890'', h_Version := 1\<rparr>),
        (db1\<lparr>m_hosts := [host1, host2,
           newHost\<lparr>h_PublicId := ''hst_1234567890'', h_Version := 1\<rparr>]\<rparr>,
         [NewPublicIdCall ''hst'', GetWrapperCall ''o_1'', TxBegin,
          CreateCall ''hst_1234567890'' ''wrapper o_1''
            [(''resource-public-id'', [''hst_1234567890'']),
             (''resource-type'', [''static-host'']), (''op-type'', [''OP_TYPE_CREATE''])],
          TxCommit]))"
proof -
  have host: "CreateHost memPkg memRepo ''o_1'' (Some (Some newHost))
     \<lparr>withPublicId = ''hst_custom'', withLimit = 0\<rparr> (db1, []) =
     (Inr (newHost\<lparr>h_PublicId := ''hst_custom'', h_Version := 1\<rparr>),
      (db1\<lparr>m_hosts := [host1, host2, newHost\<lparr>h_PublicId := ''hst_custom'', h_Version := 1\<rparr>]\<rparr>,
       [GetWrapperCall ''o_1'', TxBegin,
        CreateCall ''hst_custom'' ''wrapper o_1''
          [(''resource-public-id'', [''hst_custom'']), (''resource-type'', [''static-host'']),
           (''op-type'', [''OP_TYPE_CREATE''])],
        TxCommit]))
    \<and> (\<exists>m. CreateCatalog memPkg memRepo (Some (Some newCatalog))
          \<lparr>withPublicId = ''hst_custom'', withLimit = 0\<rparr> (db1, []) =
        (Inl (Err InvalidParameter ''o8KBnSVBtW'' m None), (db1, [])))"
    using create_with_public_id [where opts = "\<lparr>withPublicId = ''hst_custom'', withLimit = 0\<rparr>"
        and p = memPkg and r = memRepo and scopeId = "''o_1''" and h = "Some (Some newHost)"
        and ?h0.0 = newHost and d = db1 and c = "Some (Some newCatalog)" and ?c0.0 = newCatalog
        and pid = "''hst_custom''" and pre = "[]"
        and ow = "''wrapper o_1''" and ?h2.0 = "newHost\<lparr>h_PublicId := ''hst_custom''\<rparr>"
        and md = "[(''resource-public-id'', [''hst_custom'']),
           (''resource-type'', [''static-host'']), (''op-type'', [''OP_TYPE_CREATE''])]"
        and created = "newHost\<lparr>h_PublicId := ''hst_custom'', h_Version := 1\<rparr>"
        and ?d1.0 = "db1\<lparr>m_hosts := [host1, host2,
           newHost\<lparr>h_PublicId := ''hst_custom'', h_Version := 1\<rparr>]\<rparr>"]
    by (simp add: memPkg_def memRepo_def memWriter_def newHost_def newCatalog_def db1_def
        host1_def host2_def HostPrefix_def HostCatalogPrefix_def)
  have catalog: "CreateCatalog memPkg memRepo (Some (Some newCatalog))
       \<lparr>withPublicId = ''hcst_custom'', withLimit = 0\<rparr> (db1, []) =
       (Inr (newCatalog\<lparr>c_PublicId := ''hcst_custom'', c_Version := 1\<rparr>),
        (db1\<lparr>m_catalogs := [catalog1,
           newCatalog\<lparr>c_PublicId := ''hcst_custom'', c_Version := 1\<rparr>]\<rparr>,
         [GetWrapperCall ''o_1'', TxBegin,
          CreateCall ''hcst_custom'' ''wrapper o_1''
            [(''resource-public-id'', [''hcst_custom'']),
             (''resource-type'', [''static-host-catalog'']),
             (''op-type'', [''OP_TYPE_CREATE''])],
          TxCommit]))
    \<and> (\<exists>m. CreateHost memPkg memRepo ''o_1'' (Some (Some newHost))
          \<lparr>withPublicId = ''hcst_custom'', withLimit = 0\<rparr> (db1, []) =
        (Inl (Err InvalidParameter ''fVA68Amp1G'' m None), (db1, [])))"
    using create_with_public_id [where opts = "\<lparr>withPublicId = ''hcst_custom'', withLimit = 0\<rparr>"
        and p = memPkg and r = memRepo and scopeId = "''o_1''" and h = "Some (Some newHost)"
        and ?h0.0 = newHost and d = db1 and c = "Some (Some newCatalog)" and ?c0.0 = newCatalog
        and cpid = "''hcst_custom''" and cpre = "[]"
        and cow = "''wrapper o_1''" and ?c1.0 = "newCatalog\<lparr>c_PublicId := ''hcst_custom''\<rparr>"
        and cmd = "[(''resource-public-id'', [''hcst_custom'']),
           (''resource-type'', [''static-host-catalog'']), (''op-type'', [''OP_TYPE_CREATE''])]"
        and ccreated = "newCatalog\<lparr>c_PublicId := ''hcst_custom'', c_Version := 1\<rparr>"
        and ?cd1.0 = "db1\<lparr>m_catalogs := [catalog1,
           newCatalog\<lparr>c_PublicId := ''hcst_custom'', c_Version := 1\<rparr>]\<rparr>"]
    by (simp add: memPkg_def memRepo_def memWriter_def newHost_def newCatalog_def db1_def
        catalog1_def HostPrefix_def HostCatalogPrefix_def)
  have generated: "CreateHost memPkg memRepo ''o_1'' (Some (Some newHost)) noOpts (db1, []) =
       (Inr (newHost\<lparr>h_PublicId := ''hst_1234567890'', h_Version := 1\<rparr>),
        (db1\<lparr>m_hosts := [host1, host2,
           newHost\<lparr>h_PublicId := ''hst_1234567890'', h_Version := 1\<rparr>]\<rparr>,
         [NewPublicIdCall ''hst'', GetWrapperCall ''o_1'', TxBegin,
          CreateCall ''hst_1234567890'' ''wrapper o_1''
            [(''resource-public-id'', [''hst_1234567890'']),
             (''resource-type'', [''static-host'']), (''op-type'', [''OP_TYPE_CREATE''])],
          TxCommit]))"
    using create_with_public_id [where opts = noOpts
        and p = memPkg and r = memRepo and scopeId = "''o_1''" and h = "Some (Some newHost)"
        and ?h0.0 = newHost and d = db1
        and pid = "''hst_1234567890''" and pre = "[NewPublicIdCall ''hst'']"
        and ow = "''wrapper o_1''" and ?h2.0 = "newHost\<lparr>h_PublicId := ''hst_1234567890''\<rparr>"
        and md = "[(''resource-public-id'', [''hst_1234567890'']),
           (''resource-type'', [''static-host'']), (''op-type'', [''OP_TYPE_CREATE''])]"
        and created = "newHost\<lparr>h_PublicId := ''hst_1234567890'', h_Version := 1\<rparr>"
        and ?d1.0 = "db1\<lparr>m_hosts := [host1, host2,
           newHost\<lparr>h_PublicId := ''hst_1234567890'', h_Version := 1\<rparr>]\<rparr>"]
    by (simp add: memPkg_def memRepo_def memWriter_def newHost_def db1_def noOpts_def
        host1_def host2_def HostPrefix_def)
  from host catalog generated show ?thesis
    by blast
qed

section \<open>Convert and its callers (C8)\<close>

lemma CreateHost_failed_tx:
  assumes "h_CatalogId h0 \<noteq> []" and "h_PublicId h0 = []" and "scopeId \<noteq> []"
    and "MinHostAddressLength p \<le> length (TrimSpace p (h_Address h0))"
    and "length (TrimSpace p (h_Address h0)) \<le> MaxHostAddressLength p"
    and "if withPublicId opts \<noteq> []
         then prefix (HostPrefix @ ''_'') (withPublicId opts) \<and> pid = withPublicId opts
         else NewPublicId p HostPrefix = Inr pid"
    and "kms r scopeId = Inr ow"
    and "h2 = h0\<lparr>h_Address := TrimSpace p (h_Address h0), h_PublicId := pid\<rparr>"
    and "fst (w_CreateHost (writer r) h2 ow (hostOplog p h2 OP_TYPE_CREATE) d) = Inl serr
         \<or> (\<exists>created.
               fst (w_CreateHost (writer r) h2 ow (hostOplog p h2 OP_TYPE_CREATE) d) = Inr created
               \<and> w_Commit (writer r)
                   (snd (w_CreateHost (writer r) h2 ow (hostOplog p h2 OP_TYPE_CREATE) d)) =
                   Some serr)"
    and "err = (if retryable (w_Transient (writer r)) serr then w_Exhausted (writer r) serr
                else serr)"
  shows "fst (CreateHost p r scopeId (Some (Some h0)) opts (d, [])) =
           Inl (case Convert (Some err) ''yyg1sVUuzo'' of
                  Some dErr \<Rightarrow> dErr
                | None \<Rightarrow> New Unknown ''mEN8tF6Zbr''
                    [WithMsg (''catalog: '' @ h_CatalogId h0 @ '': '' @ Quote p (h_Name h0)),
                     WithWrap err])"
    and "fst (snd (CreateHost p r scopeId (Some (Some h0)) opts (d, []))) = d"
proof -
  define pre where
    "pre = (if withPublicId opts \<noteq> [] then [] else [NewPublicIdCall HostPrefix])"
  have eq: "CreateHost p r scopeId (Some (Some h0)) opts (d, []) =
     (case DoTx (writer r) (StdRetryCnt p)
             (writerCall (CreateCall pid ow (hostOplog p h2 OP_TYPE_CREATE))
                (w_CreateHost (writer r) h2 ow (hostOplog p h2 OP_TYPE_CREATE)))
             (d, pre @ [GetWrapperCall scopeId]) of
        (Inl err, w3) \<Rightarrow>
          (Inl (case Convert (Some err) ''yyg1sVUuzo'' of
                  Some dErr \<Rightarrow> dErr
                | None \<Rightarrow> New Unknown ''mEN8tF6Zbr''
                    [WithMsg (''catalog: '' @ h_CatalogId h0 @ '': '' @ Quote p (h_Name h0)),
                     WithWrap err]), w3)
      | (Inr created, w3) \<Rightarrow> (Inr created, w3))"
    by (rule CreateHost_valid) (use assms pre_def in \<open>simp_all split: if_splits\<close>)
  obtain res d1 where run:
    "w_CreateHost (writer r) h2 ow (hostOplog p h2 OP_TYPE_CREATE) d = (res, d1)"
    by (metis prod.exhaust)
  from assms(9) run have f: "res = Inl serr
      \<or> (\<exists>created. res = Inr created \<and> w_Commit (writer r) d1 = Some serr)"
    by simp
  show "fst (CreateHost p r scopeId (Some (Some h0)) opts (d, [])) =
           Inl (case Convert (Some err) ''yyg1sVUuzo'' of
                  Some dErr \<Rightarrow> dErr
                | None \<Rightarrow> New Unknown ''mEN8tF6Zbr''
                    [WithMsg (''catalog: '' @ h_CatalogId h0 @ '': '' @ Quote p (h_Name h0)),
                     WithWrap err])"
    using f assms(10) by (auto simp: eq DoTx_writerCall run)
  show "fst (snd (CreateHost p r scopeId (Some (Some h0)) opts (d, []))) = d"
    using f by (auto simp: eq DoTx_writerCall run)
qed

text \<open>
  C8. \<open>Convert\<close> returns nil for a nil error, for a foreign error that is not of the
  store driver, for a domain error, and for a driver error whose native code is neither
  of the integrity class nor the undefined table; for a unique violation of the driver
  it returns a domain error with code \<open>NotUnique\<close> that satisfies
  \<open>Is(result, ErrNotUnique)\<close>. It is a total function: it never fails. And its caller
  \<open>CreateHost\<close>: when the creation of the host fails in the store, or its commit does,
  with an error \<open>serr\<close>, the failure \<open>err\<close> of the transaction is \<open>serr\<close>, or the error of
  the used up retries when \<open>serr\<close> is transient; the call returns the error \<open>Convert\<close>
  gives for \<open>err\<close>, or, when it gives none, an \<open>Unknown\<close> error that wraps \<open>err\<close> and
  names the catalog and the host; the store is as it was.
\<close>

theorem Convert_contract:
  "Convert None i = None
   \<and> Convert (Some (StdError s)) i = None
   \<and> Convert (Some (Err c j m w)) i = None
   \<and> (take 2 pc \<noteq> ''23'' \<and> pc \<noteq> ''42P01'' \<longrightarrow>
        Convert (Some (PqError pc pm pd pcol pcons)) i = None)
   \<and> (\<exists>e. Convert (Some (PqError ''23505'' pm pd pcol pcons)) i = Some e
         \<and> Code e = NotUnique \<and> Is e ErrNotUnique)
   \<and> (h_CatalogId h0 \<noteq> [] \<and> h_PublicId h0 = [] \<and> scopeId \<noteq> []
        \<and> MinHostAddressLength p \<le> length (TrimSpace p (h_Address h0))
        \<and> length (TrimSpace p (h_Address h0)) \<le> MaxHostAddressLength p
        \<and> (if withPublicId opts \<noteq> []
            then prefix (HostPrefix @ ''_'') (withPublicId opts) \<and> pid = withPublicId opts
            else NewPublicId p HostPrefix = Inr pid)
        \<and> kms r scopeId = Inr ow
        \<and> h2 = h0\<lparr>h_Address := TrimSpace p (h_Address h0), h_PublicId := pid\<rparr>
        \<and> (fst (w_CreateHost (writer r) h2 ow (hostOplog p h2 OP_TYPE_CREATE) d) = Inl serr
            \<or> (\<exists>created.
                  fst (w_CreateHost (writer r) h2 ow (hostOplog p h2 OP_TYPE_CREATE) d) =
                    Inr created
                  \<and> w_Commit (writer r)
                      (snd (w_CreateHost (writer r) h2 ow (hostOplog p h2 OP_TYPE_CREATE) d)) =
                      Some serr))
        \<and> err = (if retryable (w_Transient (writer r)) serr then w_Exhausted (writer r) serr
                  else serr) \<longrightarrow>
          fst (CreateHost p r scopeId (Some (Some h0)) opts (d, [])) =
            Inl (case Convert (Some err) ''yyg1sVUuzo'' of
                   Some dErr \<Rightarrow> dErr
                 | None \<Rightarrow> New Unknown ''mEN8tF6Zbr''
                     [WithMsg (''catalog: '' @ h_CatalogId h0 @ '': '' @ Quote p (h_Name h0)),
                      WithWrap err])
          \<and> fst (snd (CreateHost p r scopeId (Some (Some h0)) opts (d, []))) = d)"
proof (intro conjI impI)
  show "\<exists>e. Convert (Some (PqError ''23505'' pm pd pcol pcons)) i = Some e
         \<and> Code e = NotUnique \<and> Is e ErrNotUnique"
    by (simp add: Convert_unique Is_refl)
  show "Convert (Some (PqError pc pm pd pcol pcons)) i = None"
    if "take 2 pc \<noteq> ''23'' \<and> pc \<noteq> ''42P01''"
    using that by (simp add: Convert_def)
next
  assume a: "h_CatalogId h0 \<noteq> [] \<and> h_PublicId h0 = [] \<and> scopeId \<noteq> []
        \<and> MinHostAddressLength p \<le> length (TrimSpace p (h_Address h0))
        \<and> length (TrimSpace p (h_Address h0)) \<le> MaxHostAddressLength p
        \<and> (if withPublicId opts \<noteq> []
            then prefix (HostPrefix @ ''_'') (withPublicId opts) \<and> pid = withPublicId opts
            else NewPublicId p HostPrefix = Inr pid)
        \<and> kms r scopeId = Inr ow
        \<and> h2 = h0\<lparr>h_Address := TrimSpace p (h_Address h0), h_PublicId := pid\<rparr>
        \<and> (fst (w_CreateHost (writer r) h2 ow (hostOplog p h2 OP_TYPE_CREATE) d) = Inl serr
            \<or> (\<exists>created.
                  fst (w_CreateHost (writer r) h2 ow (hostOplog p h2 OP_TYPE_CREATE) d) =
                    Inr created
                  \<and> w_Commit (writer r)
                      (snd (w_CreateHost (writer r) h2 ow (hostOplog p h2 OP_TYPE_CREATE) d)) =
                      Some serr))
        \<and> err = (if retryable (w_Transient (writer r)) serr then w_Exhausted (writer r) serr
                  else serr)"
  show "fst (CreateHost p r scopeId (Some (Some h0)) opts (d, [])) =
            Inl (case Convert (Some err) ''yyg1sVUuzo'' of
                   Some dErr \<Rightarrow> dErr
                 | None \<Rightarrow> New Unknown ''mEN8tF6Zbr''
                     [WithMsg (''catalog: '' @ h_CatalogId h0 @ '': '' @ Quote p (h_Name h0)),
                      WithWrap err])"
    using a
    by (elim conjE)
      (rule CreateHost_failed_tx(1) [where pid = pid and ow = ow and ?h2.0 = h2 and serr = serr];
        assumption)
  show "fst (snd (CreateHost p r scopeId (Some (Some h0)) opts (d, []))) = d"
    using a
    by (elim conjE)
      (rule CreateHost_failed_tx(2) [where pid = pid and ow = ow and ?h2.0 = h2 and serr = serr
          and err = err]; assumption)
qed (simp_all add: Convert_def)

theorem Convert_contract_witness:
  "Convert (Some (PqError ''08006'' ''connection failure'' [] [] [])) ''yyg1sVUuzo'' = None
   \<and> Convert (Some (PqError ''23505'' [] ''Key (name)=(alice) already exists.'' [] [])) [] =
       Some (Err NotUnique [] ''Key (name)=(alice) already exists.'' (Some ErrNotUnique))
   \<and> fst (CreateHost memPkg busyRepo ''o_1'' (Some (Some newHost)) noOpts (db1, [])) =
       Inl (Err Unknown ''mEN8tF6Zbr'' (''catalog: hcst_1: '' @ [CHR 0x22] @ ''three'' @ [CHR 0x22])
         (Some (StdError ''too many retries'')))
   \<and> fst (CreateHost memPkg memRepo ''o_1'' (Some (Some newHost))
         \<lparr>withPublicId = ''hst_1'', withLimit = 0\<rparr> (db1, [])) =
       Inl (Err NotUnique ''yyg1sVUuzo'' ''Key already exists.'' (Some ErrNotUnique))
   \<and> fst (snd (CreateHost memPkg memRepo ''o_1'' (Some (Some newHost))
         \<lparr>withPublicId = ''hst_1'', withLimit = 0\<rparr> (db1, []))) = db1"
  using Convert_contract [where i = "''yyg1sVUuzo''" and pc = "''08006''"
      and pm = "''connection failure''" and pd = "[]" and pcol = "[]" and pcons = "[]"
      and p = memPkg and r = busyRepo and scopeId = "''o_1''" and ?h0.0 = newHost
      and opts = noOpts and d = db1 and pid = "''hst_1234567890''" and ow = "''wrapper o_1''"
      and ?h2.0 = "newHost\<lparr>h_PublicId := ''hst_1234567890''\<rparr>"
      and serr = "StdError ''serialization failure''" and err = "StdError ''too many retries''"]
    Convert_contract [where i = "[]" and pm = "[]"
      and pd = "''Key (name)=(alice) already exists.''" and pcol = "[]" and pcons = "[]"
      and p = memPkg and r = memRepo and scopeId = "''o_1''" and ?h0.0 = newHost
      and opts = "\<lparr>withPublicId = ''hst_1'', withLimit = 0\<rparr>" and d = db1
      and pid = "''hst_1''" and ow = "''wrapper o_1''"
      and ?h2.0 = "newHost\<lparr>h_PublicId := ''hst_1''\<rparr>"
      and serr = memDuplicate and err = memDuplicate]
  by (simp add: Convert_unique Convert_def New_def memPkg_def busyRepo_def memRepo_def
      memWriter_def newHost_def noOpts_def db1_def host1_def host2_def HostPrefix_def
      memDuplicate_def)

section \<open>SetSetMembers with an empty delta (C2)\<close>

lemma SetSetMembers_empty_delta:
  assumes "scopeId \<noteq> []" "setId \<noteq> []" "version \<noteq> 0"
    and "changes p (reader r) setId hostIds w = (Inr [], w1)"
  shows "SetSetMembers p r scopeId setId version hostIds w = (Inr ([], 0), w1)"
  using assms by (simp add: SetSetMembers_def)

text \<open>
  C2 at the failing input: the set \<open>hsst_1\<close> has the one member \<open>hst_1\<close> and the target
  is that member, so the delta is empty. The call returns no host at all and the count
  0, with the query as its only call; the hosts of the set, read by \<open>getHosts\<close> in the
  same store, are the host \<open>hst_1\<close>.
\<close>

theorem SetSetMembers_empty_delta_returns_no_hosts:
  "SetSetMembers memPkg memRepo ''o_1'' ''hsst_1'' 1 [''hst_1''] (db1, []) =
     (Inr ([], 0), (db1, [QueryCall ''changes of $1 against $2'' [''hsst_1'', ''hst_1'']]))
   \<and> fst (getHosts (reader memRepo) ''hsst_1'' unlimited (db1, [])) = Inr [host1]"
  by code_simp

section \<open>The steps of the handlers\<close>

lemma mdGet_mdSet: "mdGet (mdSet md k vs) k = vs"
  by (induction md) (auto simp: mdGet_def)

lemma mdGet_mdAppend: "mdGet (mdAppend md k v) k = mdGet md k @ [v]"
  by (simp add: mdAppend_def mdGet_mdSet)

lemma createMembers_step:
  "createMembers wr ms w = (res, w1) \<Longrightarrow> snd w1 = snd w @ [CreateItemsCall ms]"
  by (auto simp: createMembers_def writerCall_def split: prod.splits sum.splits)

lemma deleteMembers_step:
  "deleteMembers wr ms w = (res, w1) \<Longrightarrow> snd w1 = snd w @ [DeleteItemsCall ms]"
  by (auto simp: deleteMembers_def writerCall_def split: prod.splits sum.splits if_splits)

lemma getHosts_step:
  "getHosts rd setId unlimited w = (res, w1) \<Longrightarrow>
     fst w1 = fst w \<and> snd w1 = snd w @ [SearchCall whereNoLimit [PString setId] unlimited]"
  by (auto simp: getHosts_def readerCall_def Let_def split: prod.splits sum.splits if_splits)

lemma manyRows_UpdateSet:
  "manyRows wr \<Longrightarrow> \<exists>rows x d'. w_UpdateSet wr hs m v d = (Inr (rows, x), d') \<and> 1 < rows"
  by (simp add: manyRows_def)

lemma manyRows_UpdateHost:
  "manyRows wr \<Longrightarrow>
     \<exists>rows x d'. w_UpdateHost wr h m n ow md v d = (Inr (rows, x), d') \<and> 1 < rows"
  by (simp add: manyRows_def)

lemma manyRows_UpdateCatalog:
  "manyRows wr \<Longrightarrow>
     \<exists>rows x d'. w_UpdateCatalog wr c m n ow md v d = (Inr (rows, x), d') \<and> 1 < rows"
  by (simp add: manyRows_def)

lemma manyRows_DeleteHost:
  "manyRows wr \<Longrightarrow> \<exists>rows d'. w_DeleteHost wr h ow md d = (Inr rows, d') \<and> 1 < rows"
  by (simp add: manyRows_def)

lemma manyRows_DeleteCatalog:
  "manyRows wr \<Longrightarrow> \<exists>rows d'. w_DeleteCatalog wr c ow md d = (Inr rows, d') \<and> 1 < rows"
  by (simp add: manyRows_def)

lemma updateVersion_step:
  assumes "updateVersion wr ow md msgs hs v w = (res, w1)"
  shows "\<exists>new. snd w1 = snd w @ UpdateCall (s_PublicId hs) [''Version''] [] None v # new
           \<and> filter isGetWrapper new = [] \<and> filter isMutation new = []
           \<and> TxCommit \<notin> set new
           \<and> (res = None \<longrightarrow>
                (\<exists>tk msg. new = [GetTicketCall (s_PublicId hs),
                   WriteOplogCall ow tk md (msgs @ [msg])]))
           \<and> (manyRows wr \<longrightarrow> res = Some (New MultipleRecords ''t0nw1GFJ4v'' []) \<and> new = [])"
proof (cases "w_UpdateSet wr hs [''Version''] v (fst w)")
  case (Pair r1 d1)
  show ?thesis
  proof (cases r1)
    case (Inl err)
    with Pair assms manyRows_UpdateSet [of wr hs "[''Version'']" v "fst w"] show ?thesis
      by (auto simp: updateVersion_def writerCall_def)
  next
    case (Inr rm)
    with Pair assms manyRows_UpdateSet [of wr hs "[''Version'']" v "fst w"] show ?thesis
      by (cases rm)
         (auto simp: updateVersion_def writerCall_def
            split: prod.splits sum.splits option.splits if_splits)
  qed
qed

lemma deletions_step:
  "SetSetMembers_deletions wr ds msgs md w = (res, w1) \<Longrightarrow>
     snd w1 = snd w @ (if ds \<noteq> [] then [DeleteItemsCall ds] else [])
     \<and> (\<forall>msgs1 md1. res = Inr (msgs1, md1) \<longrightarrow>
           mdGet md1 ''op-type'' =
             mdGet md ''op-type'' @ (if ds \<noteq> [] then [''OP_TYPE_DELETE''] else []))"
  by (auto simp: SetSetMembers_deletions_def mdGet_mdAppend
      split: if_splits prod.splits sum.splits dest!: deleteMembers_step)

lemma additions_step:
  "SetSetMembers_additions wr as msgs md w = (res, w1) \<Longrightarrow>
     snd w1 = snd w @ (if as \<noteq> [] then [CreateItemsCall as] else [])
     \<and> (\<forall>msgs1 md1. res = Inr (msgs1, md1) \<longrightarrow>
           mdGet md1 ''op-type'' =
             mdGet md ''op-type'' @ (if as \<noteq> [] then [''OP_TYPE_CREATE''] else []))"
  by (auto simp: SetSetMembers_additions_def mdGet_mdAppend
      split: if_splits prod.splits sum.splits dest!: createMembers_step)


lemma AddSetMembers_tx_step:
  assumes "AddSetMembers_tx p r ow setId v ms w = (res, w1)"
  shows "\<exists>new. snd w1 = snd w @ new \<and> filter isGetWrapper new = [] \<and> TxCommit \<notin> set new
           \<and> (manyRows (writer r) \<longrightarrow>
                (\<exists>err. res = Inl err
                   \<and> (filter isMutation new \<noteq> [] \<longrightarrow>
                         err = New MultipleRecords ''t0nw1GFJ4v'' [])))"
  using assms unfolding AddSetMembers_tx_def Let_def
  by (auto split: prod.splits sum.splits option.splits
      dest!: createMembers_step updateVersion_step getHosts_step)

lemma DeleteSetMembers_tx_step:
  assumes "DeleteSetMembers_tx p r ow setId v ms w = (res, w1)"
  shows "\<exists>new. snd w1 = snd w @ new \<and> filter isGetWrapper new = [] \<and> TxCommit \<notin> set new
           \<and> (manyRows (writer r) \<longrightarrow>
                (\<exists>err. res = Inl err
                   \<and> (filter isMutation new \<noteq> [] \<longrightarrow>
                         err = New MultipleRecords ''t0nw1GFJ4v'' [])))"
  using assms unfolding DeleteSetMembers_tx_def Let_def
  by (auto split: prod.splits sum.splits option.splits
      dest!: deleteMembers_step updateVersion_step)

lemma SetSetMembers_tx_step:
  assumes "SetSetMembers_tx p r ow setId v ds as w = (res, w1)"
  shows "\<exists>new. snd w1 = snd w @ new \<and> filter isGetWrapper new = [] \<and> TxCommit \<notin> set new
           \<and> (manyRows (writer r) \<longrightarrow>
                (\<exists>err. res = Inl err
                   \<and> (filter isMutation new \<noteq> [] \<longrightarrow>
                         err = New MultipleRecords ''t0nw1GFJ4v'' [])))"
  using assms unfolding SetSetMembers_tx_def Let_def
  by (auto split: prod.splits sum.splits option.splits
      dest!: deletions_step additions_step updateVersion_step getHosts_step)


section \<open>SetSetMembers with a non-empty delta (C4)\<close>

lemma changes_step:
  "changes p rd setId hostIds w = (res, w1) \<Longrightarrow>
     fst w1 = fst w \<and> (\<exists>q. snd w1 = snd w @ [QueryCall q (setId # hostIds)])"
  by (auto simp: changes_def Let_def readerCall_def split: sum.splits)





section \<open>More than one row affected (C6)\<close>

lemma last_attempts: "last (evs0 @ concat (replicate (Suc k) (xs @ [y]))) = y"
  by (induction k) simp_all

lemma filter_attempts:
  "filter P (concat (replicate k xs)) \<noteq> [] \<Longrightarrow> filter P xs \<noteq> []"
  by (induction k) auto

lemma commit_attempts:
  "TxCommit \<notin> set bevs \<Longrightarrow>
     TxCommit \<notin> set (concat (replicate k (TxBegin # bevs @ [TxRollback])))"
  by (induction k) auto

lemma DoTx_handler_fails:
  assumes "DoTx wr n Handler (d, evs0) = (res, (d', evs))"
    and "Handler (d, []) = (Inl herr, (d1, bevs))"
  shows "d' = d
     \<and> (\<exists>k. evs = evs0 @ concat (replicate (Suc k) (TxBegin # bevs @ [TxRollback])))
     \<and> (\<exists>err. res = Inl err \<and> (\<not> retryable (w_Transient wr) herr \<longrightarrow> err = herr))"
proof (cases "retryable (w_Transient wr) herr")
  case True
  with assms show ?thesis
    by (auto simp: DoTx_def attempts_closed attempt_def)
next
  case False
  with assms have "res = Inl herr" "d' = d" "evs = evs0 @ TxBegin # bevs @ [TxRollback]"
    by (auto simp: DoTx_def attempts_closed attempt_def)
  then show ?thesis
    by (auto intro: exI [of _ 0])
qed

lemma not_retryable_New: "\<not> retryable t (New c i [])"
  by (simp add: New_def)

lemma DoTx_manyRows:
  assumes run: "DoTx wr n Handler (d, evs0) = (res, (d', evs))"
    and step: "\<And>hres w1. Handler (d, []) = (hres, w1) \<Longrightarrow>
       TxCommit \<notin> set (snd w1)
       \<and> (\<exists>err. hres = Inl err
             \<and> (filter isMutation (snd w1) \<noteq> [] \<longrightarrow> err = New MultipleRecords i []))"
    and pre: "filter isMutation evs0 = []" "TxCommit \<notin> set evs0"
  shows "d' = d \<and> TxCommit \<notin> set evs
     \<and> (\<exists>err. res = Inl err
           \<and> (filter isMutation evs \<noteq> [] \<longrightarrow>
                 err = New MultipleRecords i [] \<and> last evs = TxRollback))"
proof -
  obtain hres d1 bevs where h0: "Handler (d, []) = (hres, (d1, bevs))"
    by (metis prod.exhaust)
  from step [OF h0] obtain herr where herr: "hres = Inl herr"
    and nc: "TxCommit \<notin> set bevs"
    and mr: "filter isMutation bevs \<noteq> [] \<Longrightarrow> herr = New MultipleRecords i []"
    by auto
  from DoTx_handler_fails [OF run h0 [unfolded herr]] obtain k err where
    d: "d' = d"
    and evs: "evs = evs0 @ concat (replicate (Suc k) (TxBegin # bevs @ [TxRollback]))"
    and res: "res = Inl err"
    and same: "\<not> retryable (w_Transient wr) herr \<Longrightarrow> err = herr"
    by blast
  have c: "TxCommit \<notin> set evs"
    unfolding evs using pre(2) commit_attempts [OF nc, of "Suc k"] by simp
  have l: "last evs = TxRollback"
    unfolding evs using last_attempts [of evs0 k "TxBegin # bevs" TxRollback] by simp
  have m: "err = New MultipleRecords i []" if "filter isMutation evs \<noteq> []"
  proof -
    from that have "filter isMutation (concat (replicate (Suc k) (TxBegin # bevs @ [TxRollback]))) \<noteq> []"
      unfolding evs using pre(1) by simp
    then have "filter isMutation (TxBegin # bevs @ [TxRollback]) \<noteq> []"
      by (rule filter_attempts)
    then have "filter isMutation bevs \<noteq> []"
      by simp
    then have "herr = New MultipleRecords i []"
      by (rule mr)
    with same show ?thesis
      by (simp add: not_retryable_New)
  qed
  show ?thesis
    using d c l m res by blast
qed

lemma AddSetMembers_DoTx_manyRows:
  assumes "DoTx (writer r) n (AddSetMembers_tx p r ow setId v ms) (d, evs0) = (res, (d', evs))"
    and "manyRows (writer r)" "filter isMutation evs0 = []" "TxCommit \<notin> set evs0"
  shows "d' = d \<and> TxCommit \<notin> set evs
     \<and> (\<exists>err. res = Inl err
           \<and> (filter isMutation evs \<noteq> [] \<longrightarrow>
                 err = New MultipleRecords ''t0nw1GFJ4v'' [] \<and> last evs = TxRollback))"
proof (rule DoTx_manyRows [OF assms(1) _ assms(3,4)])
  fix hres w1
  assume "AddSetMembers_tx p r ow setId v ms (d, []) = (hres, w1)"
  from AddSetMembers_tx_step [OF this] assms(2)
  show "TxCommit \<notin> set (snd w1)
     \<and> (\<exists>err. hres = Inl err
           \<and> (filter isMutation (snd w1) \<noteq> [] \<longrightarrow> err = New MultipleRecords ''t0nw1GFJ4v'' []))"
    by auto
qed

lemma chainCodes_Wrap_New:
  "chainCodes (Wrap (New c i []) j os) = [c, c]"
  by (simp add: Wrap_def New_def)

lemma AddSetMembers_manyRows:
  assumes "manyRows (writer r)"
  shows "abortedMultipleRecords d (AddSetMembers p r scopeId setId version hostIds (d, []))"
  using assms
  by (auto simp: abortedMultipleRecords_def AddSetMembers_def GetWrapper_def chainCodes_Wrap_New
      split: sum.splits prod.splits dest!: AddSetMembers_DoTx_manyRows)

lemma DeleteSetMembers_DoTx_manyRows:
  assumes "DoTx (writer r) n (DeleteSetMembers_tx p r ow setId v ms) (d, evs0) = (res, (d', evs))"
    and "manyRows (writer r)" "filter isMutation evs0 = []" "TxCommit \<notin> set evs0"
  shows "d' = d \<and> TxCommit \<notin> set evs
     \<and> (\<exists>err. res = Inl err
           \<and> (filter isMutation evs \<noteq> [] \<longrightarrow>
                 err = New MultipleRecords ''t0nw1GFJ4v'' [] \<and> last evs = TxRollback))"
proof (rule DoTx_manyRows [OF assms(1) _ assms(3,4)])
  fix hres w1
  assume "DeleteSetMembers_tx p r ow setId v ms (d, []) = (hres, w1)"
  from DeleteSetMembers_tx_step [OF this] assms(2)
  show "TxCommit \<notin> set (snd w1)
     \<and> (\<exists>err. hres = Inl err
           \<and> (filter isMutation (snd w1) \<noteq> [] \<longrightarrow> err = New MultipleRecords ''t0nw1GFJ4v'' []))"
    by auto
qed

lemma SetSetMembers_DoTx_manyRows:
  assumes "DoTx (writer r) n (SetSetMembers_tx p r ow setId v ds as) (d, evs0) = (res, (d', evs))"
    and "manyRows (writer r)" "filter isMutation evs0 = []" "TxCommit \<notin> set evs0"
  shows "d' = d \<and> TxCommit \<notin> set evs
     \<and> (\<exists>err. res = Inl err
           \<and> (filter isMutation evs \<noteq> [] \<longrightarrow>
                 err = New MultipleRecords ''t0nw1GFJ4v'' [] \<and> last evs = TxRollback))"
proof (rule DoTx_manyRows [OF assms(1) _ assms(3,4)])
  fix hres w1
  assume "SetSetMembers_tx p r ow setId v ds as (d, []) = (hres, w1)"
  from SetSetMembers_tx_step [OF this] assms(2)
  show "TxCommit \<notin> set (snd w1)
     \<and> (\<exists>err. hres = Inl err
           \<and> (filter isMutation (snd w1) \<noteq> [] \<longrightarrow> err = New MultipleRecords ''t0nw1GFJ4v'' []))"
    by auto
qed

lemma UpdateHost_tx_step:
  assumes "UpdateHost_tx p r ow h m n v w = (hres, w1)"
  shows "snd w1 = snd w @ [UpdateCall (h_PublicId h) m n (Some (ow, hostOplog p h OP_TYPE_UPDATE)) v]
     \<and> (manyRows (writer r) \<longrightarrow> hres = Inl (New MultipleRecords ''xJBYJRMXXe'' []))"
  using assms manyRows_UpdateHost [of "writer r" h m n ow "hostOplog p h OP_TYPE_UPDATE" v "fst w"]
  by (auto simp: UpdateHost_tx_def writerCall_def split: prod.splits sum.splits if_splits)

lemma DeleteHost_tx_step:
  assumes "DeleteHost_tx p r ow h w = (hres, w1)"
  shows "snd w1 = snd w @ [DeleteCall (h_PublicId h) ow (hostOplog p h OP_TYPE_DELETE)]
     \<and> (manyRows (writer r) \<longrightarrow> hres = Inl (New MultipleRecords ''F6r9DCCqM7'' []))"
  using assms manyRows_DeleteHost [of "writer r" h ow "hostOplog p h OP_TYPE_DELETE" "fst w"]
  by (auto simp: DeleteHost_tx_def writerCall_def split: prod.splits sum.splits if_splits)

lemma UpdateCatalog_tx_step:
  assumes "UpdateCatalog_tx r ow md c m n v w = (hres, w1)"
  shows "snd w1 = snd w @ [UpdateCall (c_PublicId c) m n (Some (ow, md)) v]
     \<and> (manyRows (writer r) \<longrightarrow> hres = Inl (New MultipleRecords ''obC7MjAGtj'' []))"
  using assms manyRows_UpdateCatalog [of "writer r" c m n ow md v "fst w"]
  by (auto simp: UpdateCatalog_tx_def writerCall_def split: prod.splits sum.splits if_splits)

lemma DeleteCatalog_tx_step:
  assumes "DeleteCatalog_tx r ow md c w = (hres, w1)"
  shows "snd w1 = snd w @ [DeleteCall (c_PublicId c) ow md]
     \<and> (manyRows (writer r) \<longrightarrow> hres = Inl (New MultipleRecords ''QOsAOsa7c1'' []))"
  using assms manyRows_DeleteCatalog [of "writer r" c ow md "fst w"]
  by (auto simp: DeleteCatalog_tx_def writerCall_def split: prod.splits sum.splits if_splits)

lemma UpdateHost_DoTx_manyRows:
  assumes "DoTx (writer r) n (UpdateHost_tx p r ow h m nf v) (d, evs0) = (res, (d', evs))"
    and "manyRows (writer r)" "filter isMutation evs0 = []" "TxCommit \<notin> set evs0"
  shows "d' = d \<and> TxCommit \<notin> set evs \<and> filter isMutation evs \<noteq> []
     \<and> res = Inl (New MultipleRecords ''xJBYJRMXXe'' []) \<and> last evs = TxRollback"
proof -
  obtain hres d1 bevs where h0: "UpdateHost_tx p r ow h m nf v (d, []) = (hres, (d1, bevs))"
    by (metis prod.exhaust)
  from UpdateHost_tx_step [OF h0] assms(2)
  have b: "bevs = [UpdateCall (h_PublicId h) m nf (Some (ow, hostOplog p h OP_TYPE_UPDATE)) v]"
    and hr: "hres = Inl (New MultipleRecords ''xJBYJRMXXe'' [])"
    by auto
  from DoTx_abort [where Handler = "UpdateHost_tx p r ow h m nf v" and d = d and wr = "writer r",
      OF h0 [unfolded hr] not_retryable_New] assms(1,3,4) b
  show ?thesis
    by auto
qed

lemma DeleteHost_DoTx_manyRows:
  assumes "DoTx (writer r) n (DeleteHost_tx p r ow h) (d, evs0) = (res, (d', evs))"
    and "manyRows (writer r)" "filter isMutation evs0 = []" "TxCommit \<notin> set evs0"
  shows "d' = d \<and> TxCommit \<notin> set evs \<and> filter isMutation evs \<noteq> []
     \<and> res = Inl (New MultipleRecords ''F6r9DCCqM7'' []) \<and> last evs = TxRollback"
proof -
  obtain hres d1 bevs where h0: "DeleteHost_tx p r ow h (d, []) = (hres, (d1, bevs))"
    by (metis prod.exhaust)
  from DeleteHost_tx_step [OF h0] assms(2)
  have b: "bevs = [DeleteCall (h_PublicId h) ow (hostOplog p h OP_TYPE_DELETE)]"
    and hr: "hres = Inl (New MultipleRecords ''F6r9DCCqM7'' [])"
    by auto
  from DoTx_abort [where Handler = "DeleteHost_tx p r ow h" and d = d and wr = "writer r",
      OF h0 [unfolded hr] not_retryable_New] assms(1,3,4) b
  show ?thesis
    by auto
qed

lemma UpdateCatalog_DoTx_manyRows:
  assumes "DoTx (writer r) n (UpdateCatalog_tx r ow md c m nf v) (d, evs0) = (res, (d', evs))"
    and "manyRows (writer r)" "filter isMutation evs0 = []" "TxCommit \<notin> set evs0"
  shows "d' = d \<and> TxCommit \<notin> set evs \<and> filter isMutation evs \<noteq> []
     \<and> res = Inl (New MultipleRecords ''obC7MjAGtj'' []) \<and> last evs = TxRollback"
proof -
  obtain hres d1 bevs where h0: "UpdateCatalog_tx r ow md c m nf v (d, []) = (hres, (d1, bevs))"
    by (metis prod.exhaust)
  from UpdateCatalog_tx_step [OF h0] assms(2)
  have b: "bevs = [UpdateCall (c_PublicId c) m nf (Some (ow, md)) v]"
    and hr: "hres = Inl (New MultipleRecords ''obC7MjAGtj'' [])"
    by auto
  from DoTx_abort [where Handler = "UpdateCatalog_tx r ow md c m nf v" and d = d and wr = "writer r",
      OF h0 [unfolded hr] not_retryable_New] assms(1,3,4) b
  show ?thesis
    by auto
qed

lemma DeleteCatalog_DoTx_manyRows:
  assumes "DoTx (writer r) n (DeleteCatalog_tx r ow md c) (d, evs0) = (res, (d', evs))"
    and "manyRows (writer r)" "filter isMutation evs0 = []" "TxCommit \<notin> set evs0"
  shows "d' = d \<and> TxCommit \<notin> set evs \<and> filter isMutation evs \<noteq> []
     \<and> res = Inl (New MultipleRecords ''QOsAOsa7c1'' []) \<and> last evs = TxRollback"
proof -
  obtain hres d1 bevs where h0: "DeleteCatalog_tx r ow md c (d, []) = (hres, (d1, bevs))"
    by (metis prod.exhaust)
  from DeleteCatalog_tx_step [OF h0] assms(2)
  have b: "bevs = [DeleteCall (c_PublicId c) ow md]"
    and hr: "hres = Inl (New MultipleRecords ''QOsAOsa7c1'' [])"
    by auto
  from DoTx_abort [where Handler = "DeleteCatalog_tx r ow md c" and d = d and wr = "writer r",
      OF h0 [unfolded hr] not_retryable_New] assms(1,3,4) b
  show ?thesis
    by auto
qed

lemma Convert_New: "Convert (Some (New c i os)) j = None"
  by (simp add: Convert_def New_def)

lemma chainCodes_New_wrap:
  "chainCodes (New c i [WithMsg m, WithWrap (New c' j [])]) = [c, c']"
  by (simp add: New_def)

lemma DeleteSetMembers_manyRows:
  assumes "manyRows (writer r)"
  shows "abortedMultipleRecords d (DeleteSetMembers p r scopeId setId version hostIds (d, []))"
  using assms
  by (auto simp: abortedMultipleRecords_def DeleteSetMembers_def GetWrapper_def
        chainCodes_Wrap_New
      split: sum.splits prod.splits dest!: DeleteSetMembers_DoTx_manyRows)

lemma SetSetMembers_manyRows:
  assumes "manyRows (writer r)"
  shows "abortedMultipleRecords d (SetSetMembers p r scopeId setId version hostIds (d, []))"
proof -
  obtain cres w1 where ch: "changes p (reader r) setId hostIds (d, []) = (cres, w1)"
    by (metis prod.exhaust)
  from changes_step [OF ch] obtain q where w1: "w1 = (d, [QueryCall q (setId # hostIds)])"
    by (cases w1) auto
  show ?thesis
    using assms
    by (auto simp: abortedMultipleRecords_def SetSetMembers_def GetWrapper_def ch w1
          chainCodes_Wrap_New
        split: sum.splits prod.splits dest!: SetSetMembers_DoTx_manyRows)
qed

lemma UpdateHost_manyRows:
  assumes "manyRows (writer r)"
  shows "abortedMultipleRecords d (UpdateHost p r scopeId h version fieldMaskPaths (d, []))"
  using assms
  by (auto simp: abortedMultipleRecords_def UpdateHost_def GetWrapper_def Convert_New
        chainCodes_New_wrap
      split: option.splits sum.splits prod.splits dest!: UpdateHost_DoTx_manyRows)

lemma DeleteHost_manyRows:
  assumes "manyRows (writer r)"
  shows "abortedMultipleRecords d (DeleteHost p r scopeId publicId (d, []))"
  using assms
  by (auto simp: abortedMultipleRecords_def DeleteHost_def GetWrapper_def Let_def
        chainCodes_Wrap_New
      split: option.splits sum.splits prod.splits dest!: DeleteHost_DoTx_manyRows)

lemma UpdateCatalog_manyRows:
  assumes "manyRows (writer r)"
  shows "abortedMultipleRecords d (UpdateCatalog p r c version fieldMask (d, []))"
  using assms
  by (auto simp: abortedMultipleRecords_def UpdateCatalog_def GetWrapper_def Let_def Convert_New
        chainCodes_New_wrap
      split: option.splits sum.splits prod.splits dest!: UpdateCatalog_DoTx_manyRows)

lemma DeleteCatalog_manyRows:
  assumes "manyRows (writer r)"
  shows "abortedMultipleRecords d (DeleteCatalog p r cid (d, []))"
  using assms
  by (auto simp: abortedMultipleRecords_def DeleteCatalog_def GetWrapper_def Let_def
        readerCall_def chainCodes_Wrap_New
      split: option.splits sum.splits prod.splits dest!: DeleteCatalog_DoTx_manyRows)

text \<open>The transaction of a call in which the store reports more than one row.\<close>

lemma UpdateHost_tx_many:
  assumes "w_UpdateHost (writer r) h m nf ow (hostOplog p h OP_TYPE_UPDATE) v d = (Inr (rows, x), d1)"
    and "1 < rows"
  shows "DoTx (writer r) n (UpdateHost_tx p r ow h m nf v) (d, evs0) =
     (Inl (New MultipleRecords ''xJBYJRMXXe'' []),
      (d, evs0 @ [TxBegin,
         UpdateCall (h_PublicId h) m nf (Some (ow, hostOplog p h OP_TYPE_UPDATE)) v,
         TxRollback]))"
proof -
  have "UpdateHost_tx p r ow h m nf v (d, []) =
      (Inl (New MultipleRecords ''xJBYJRMXXe'' []),
       (d1, [UpdateCall (h_PublicId h) m nf (Some (ow, hostOplog p h OP_TYPE_UPDATE)) v]))"
    using assms by (simp add: UpdateHost_tx_def writerCall_def)
  from DoTx_abort [where Handler = "UpdateHost_tx p r ow h m nf v" and d = d, OF this not_retryable_New]
  show ?thesis by simp
qed

lemma DeleteHost_tx_many:
  assumes "w_DeleteHost (writer r) h ow (hostOplog p h OP_TYPE_DELETE) d = (Inr rows, d1)"
    and "1 < rows"
  shows "DoTx (writer r) n (DeleteHost_tx p r ow h) (d, evs0) =
     (Inl (New MultipleRecords ''F6r9DCCqM7'' []),
      (d, evs0 @ [TxBegin, DeleteCall (h_PublicId h) ow (hostOplog p h OP_TYPE_DELETE),
         TxRollback]))"
proof -
  have "DeleteHost_tx p r ow h (d, []) =
      (Inl (New MultipleRecords ''F6r9DCCqM7'' []),
       (d1, [DeleteCall (h_PublicId h) ow (hostOplog p h OP_TYPE_DELETE)]))"
    using assms by (simp add: DeleteHost_tx_def writerCall_def)
  from DoTx_abort [where Handler = "DeleteHost_tx p r ow h" and d = d, OF this not_retryable_New]
  show ?thesis by simp
qed

lemma UpdateCatalog_tx_many:
  assumes "w_UpdateCatalog (writer r) c m nf ow md v d = (Inr (rows, x), d1)"
    and "1 < rows"
  shows "DoTx (writer r) n (UpdateCatalog_tx r ow md c m nf v) (d, evs0) =
     (Inl (New MultipleRecords ''obC7MjAGtj'' []),
      (d, evs0 @ [TxBegin, UpdateCall (c_PublicId c) m nf (Some (ow, md)) v, TxRollback]))"
proof -
  have "UpdateCatalog_tx r ow md c m nf v (d, []) =
      (Inl (New MultipleRecords ''obC7MjAGtj'' []),
       (d1, [UpdateCall (c_PublicId c) m nf (Some (ow, md)) v]))"
    using assms by (simp add: UpdateCatalog_tx_def writerCall_def)
  from DoTx_abort [where Handler = "UpdateCatalog_tx r ow md c m nf v" and d = d,
      OF this not_retryable_New]
  show ?thesis by simp
qed

lemma DeleteCatalog_tx_many:
  assumes "w_DeleteCatalog (writer r) c ow md d = (Inr rows, d1)"
    and "1 < rows"
  shows "DoTx (writer r) n (DeleteCatalog_tx r ow md c) (d, evs0) =
     (Inl (New MultipleRecords ''QOsAOsa7c1'' []),
      (d, evs0 @ [TxBegin, DeleteCall (c_PublicId c) ow md, TxRollback]))"
proof -
  have "DeleteCatalog_tx r ow md c (d, []) =
      (Inl (New MultipleRecords ''QOsAOsa7c1'' []), (d1, [DeleteCall (c_PublicId c) ow md]))"
    using assms by (simp add: DeleteCatalog_tx_def writerCall_def)
  from DoTx_abort [where Handler = "DeleteCatalog_tx r ow md c" and d = d,
      OF this not_retryable_New]
  show ?thesis by simp
qed

lemma updateVersion_many:
  assumes "w_UpdateSet wr hs [''Version''] v d = (Inr (rows, x), d1)" and "1 < rows"
  shows "updateVersion wr ow md msgs hs v (d, evs0) =
     (Some (New MultipleRecords ''t0nw1GFJ4v'' []),
      (d1, evs0 @ [UpdateCall (s_PublicId hs) [''Version''] [] None v]))"
  using assms by (simp add: updateVersion_def writerCall_def)

text \<open>
  C6. In a call of the handler of \<open>UpdateHost\<close>, \<open>DeleteHost\<close>, \<open>UpdateCatalog\<close> or
  \<open>DeleteCatalog\<close> where the store reports more than one row affected and no error, the
  transaction returns the \<open>MultipleRecords\<close> error of the call site and is rolled back,
  the store being the one before it; the version update of the member operations
  returns its \<open>MultipleRecords\<close> error in the same case. And with a store that reports
  more than one row for every such update and delete: in every run of these four
  operations and of \<open>AddSetMembers\<close>, \<open>DeleteSetMembers\<close> and \<open>SetSetMembers\<close> that issued
  the mutation, the operation returns an error that has a \<open>MultipleRecords\<close> error in
  its chain, nothing is committed, the last call is the rollback and the store is the
  one before the call: the operation never succeeds.
\<close>

theorem more_than_one_row_aborts:
  "(w_UpdateHost (writer r) h0 m nf ow (hostOplog p h0 OP_TYPE_UPDATE) version d
        = (Inr (rows, uh), d1) \<and> 1 < rows \<longrightarrow>
      DoTx (writer r) n (UpdateHost_tx p r ow h0 m nf version) (d, evs0) =
        (Inl (New MultipleRecords ''xJBYJRMXXe'' []),
         (d, evs0 @ [TxBegin,
            UpdateCall (h_PublicId h0) m nf (Some (ow, hostOplog p h0 OP_TYPE_UPDATE)) version,
            TxRollback])))
   \<and> (w_DeleteHost (writer r) h0 ow (hostOplog p h0 OP_TYPE_DELETE) d = (Inr rows, d1)
        \<and> 1 < rows \<longrightarrow>
        DoTx (writer r) n (DeleteHost_tx p r ow h0) (d, evs0) =
          (Inl (New MultipleRecords ''F6r9DCCqM7'' []),
           (d, evs0 @ [TxBegin, DeleteCall (h_PublicId h0) ow (hostOplog p h0 OP_TYPE_DELETE),
              TxRollback])))
   \<and> (w_UpdateCatalog (writer r) c0 m nf ow md version d = (Inr (rows, uc), d1)
        \<and> 1 < rows \<longrightarrow>
        DoTx (writer r) n (UpdateCatalog_tx r ow md c0 m nf version) (d, evs0) =
          (Inl (New MultipleRecords ''obC7MjAGtj'' []),
           (d, evs0 @ [TxBegin, UpdateCall (c_PublicId c0) m nf (Some (ow, md)) version,
              TxRollback])))
   \<and> (w_DeleteCatalog (writer r) c0 ow md d = (Inr rows, d1) \<and> 1 < rows \<longrightarrow>
        DoTx (writer r) n (DeleteCatalog_tx r ow md c0) (d, evs0) =
          (Inl (New MultipleRecords ''QOsAOsa7c1'' []),
           (d, evs0 @ [TxBegin, DeleteCall (c_PublicId c0) ow md, TxRollback])))
   \<and> (w_UpdateSet (writer r) hs [''Version''] version d = (Inr (rows, um), d1)
        \<and> 1 < rows \<longrightarrow>
        updateVersion (writer r) ow md msgs hs version (d, evs0) =
          (Some (New MultipleRecords ''t0nw1GFJ4v'' []),
           (d1, evs0 @ [UpdateCall (s_PublicId hs) [''Version''] [] None version])))
   \<and> (manyRows (writer r) \<longrightarrow>
        abortedMultipleRecords d (UpdateHost p r scopeId h version fieldMask (d, []))
        \<and> abortedMultipleRecords d (DeleteHost p r scopeId publicId (d, []))
        \<and> abortedMultipleRecords d (UpdateCatalog p r c version fieldMask (d, []))
        \<and> abortedMultipleRecords d (DeleteCatalog p r publicId (d, []))
        \<and> abortedMultipleRecords d (AddSetMembers p r scopeId setId version hostIds (d, []))
        \<and> abortedMultipleRecords d (DeleteSetMembers p r scopeId setId version hostIds (d, []))
        \<and> abortedMultipleRecords d (SetSetMembers p r scopeId setId version hostIds (d, [])))"
proof (intro conjI impI)
  show "DoTx (writer r) n (UpdateHost_tx p r ow h0 m nf version) (d, evs0) =
        (Inl (New MultipleRecords ''xJBYJRMXXe'' []),
         (d, evs0 @ [TxBegin,
            UpdateCall (h_PublicId h0) m nf (Some (ow, hostOplog p h0 OP_TYPE_UPDATE)) version,
            TxRollback]))"
    if "w_UpdateHost (writer r) h0 m nf ow (hostOplog p h0 OP_TYPE_UPDATE) version d
        = (Inr (rows, uh), d1) \<and> 1 < rows"
    using that UpdateHost_tx_many [of r h0 m nf ow p version d rows uh d1 n evs0] by simp
  show "DoTx (writer r) n (DeleteHost_tx p r ow h0) (d, evs0) =
          (Inl (New MultipleRecords ''F6r9DCCqM7'' []),
           (d, evs0 @ [TxBegin, DeleteCall (h_PublicId h0) ow (hostOplog p h0 OP_TYPE_DELETE),
              TxRollback]))"
    if "w_DeleteHost (writer r) h0 ow (hostOplog p h0 OP_TYPE_DELETE) d = (Inr rows, d1)
        \<and> 1 < rows"
    using that DeleteHost_tx_many [of r h0 ow p d rows d1 n evs0] by simp
  show "DoTx (writer r) n (UpdateCatalog_tx r ow md c0 m nf version) (d, evs0) =
          (Inl (New MultipleRecords ''obC7MjAGtj'' []),
           (d, evs0 @ [TxBegin, UpdateCall (c_PublicId c0) m nf (Some (ow, md)) version,
              TxRollback]))"
    if "w_UpdateCatalog (writer r) c0 m nf ow md version d = (Inr (rows, uc), d1)
        \<and> 1 < rows"
    using that UpdateCatalog_tx_many [of r c0 m nf ow md version d rows uc d1 n evs0] by simp
  show "DoTx (writer r) n (DeleteCatalog_tx r ow md c0) (d, evs0) =
          (Inl (New MultipleRecords ''QOsAOsa7c1'' []),
           (d, evs0 @ [TxBegin, DeleteCall (c_PublicId c0) ow md, TxRollback]))"
    if "w_DeleteCatalog (writer r) c0 ow md d = (Inr rows, d1) \<and> 1 < rows"
    using that DeleteCatalog_tx_many [of r c0 ow md d rows d1 n evs0] by simp
  show "updateVersion (writer r) ow md msgs hs version (d, evs0) =
          (Some (New MultipleRecords ''t0nw1GFJ4v'' []),
           (d1, evs0 @ [UpdateCall (s_PublicId hs) [''Version''] [] None version]))"
    if "w_UpdateSet (writer r) hs [''Version''] version d = (Inr (rows, um), d1)
        \<and> 1 < rows"
    using that updateVersion_many [of "writer r" hs version d rows um d1 ow md msgs evs0] by simp
qed (simp_all add: UpdateHost_manyRows DeleteHost_manyRows UpdateCatalog_manyRows
      DeleteCatalog_manyRows AddSetMembers_manyRows DeleteSetMembers_manyRows
      SetSetMembers_manyRows)

lemma manyRows_manyRepo: "manyRows (writer manyRepo)"
  by (simp add: manyRows_def manyRepo_def manyWriter_def)

lemma many_runs:
  "UpdateHost memPkg manyRepo ''o_1'' (Some (Some host1)) 1 [''Name''] (db1, []) =
     (Inl (Err Unknown ''Hap3HE7q12'' (''catalog: hcst_1: '' @ [CHR 0x22] @ ''one'' @ [CHR 0x22])
        (Some (Err MultipleRecords ''xJBYJRMXXe'' [] None))),
      (db1, [GetWrapperCall ''o_1'', TxBegin,
         UpdateCall ''hst_1'' [''Name''] []
           (Some (''wrapper o_1'',
              [(''resource-public-id'', [''hst_1'']), (''resource-type'', [''static-host'']),
               (''op-type'', [''OP_TYPE_UPDATE''])])) 1,
         TxRollback]))"
  "DeleteHost memPkg manyRepo ''o_1'' ''hst_1'' (db1, []) =
     (Inl (Err MultipleRecords ''R7CFLLqqYn'' ''failed to delete hst_1''
        (Some (Err MultipleRecords ''F6r9DCCqM7'' [] None))),
      (db1, [GetWrapperCall ''o_1'', TxBegin,
         DeleteCall ''hst_1'' ''wrapper o_1''
           [(''resource-public-id'', [''hst_1'']), (''resource-type'', [''static-host'']),
            (''op-type'', [''OP_TYPE_DELETE''])],
         TxRollback]))"
  "AddSetMembers memPkg manyRepo ''o_1'' ''hsst_1'' 1 [''hst_2''] (db1, []) =
     (Inl (Err MultipleRecords ''0GujNHKBfu'' []
        (Some (Err MultipleRecords ''t0nw1GFJ4v'' [] None))),
      (db1, [GetWrapperCall ''o_1'', TxBegin,
         CreateItemsCall [(''hsst_1'', ''hst_2'')],
         UpdateCall ''hsst_1'' [''Version''] [] None 1,
         TxRollback]))"
  by code_simp+

theorem more_than_one_row_aborts_witness:
  "DoTx (writer manyRepo) 2 (UpdateHost_tx memPkg manyRepo ''wrapper o_1'' host1 [''Name''] [] 1)
      (db1, [GetWrapperCall ''o_1'']) =
     (Inl (New MultipleRecords ''xJBYJRMXXe'' []),
      (db1, [GetWrapperCall ''o_1''] @ [TxBegin,
         UpdateCall (h_PublicId host1) [''Name''] []
           (Some (''wrapper o_1'', hostOplog memPkg host1 OP_TYPE_UPDATE)) 1,
         TxRollback]))
   \<and> abortedMultipleRecords db1
       (UpdateHost memPkg manyRepo ''o_1'' (Some (Some host1)) 1 [''Name''] (db1, []))
   \<and> UpdateHost memPkg manyRepo ''o_1'' (Some (Some host1)) 1 [''Name''] (db1, []) =
     (Inl (Err Unknown ''Hap3HE7q12'' (''catalog: hcst_1: '' @ [CHR 0x22] @ ''one'' @ [CHR 0x22])
        (Some (Err MultipleRecords ''xJBYJRMXXe'' [] None))),
      (db1, [GetWrapperCall ''o_1'', TxBegin,
         UpdateCall ''hst_1'' [''Name''] []
           (Some (''wrapper o_1'',
              [(''resource-public-id'', [''hst_1'']), (''resource-type'', [''static-host'']),
               (''op-type'', [''OP_TYPE_UPDATE''])])) 1,
         TxRollback]))
   \<and> abortedMultipleRecords db1 (DeleteHost memPkg manyRepo ''o_1'' ''hst_1'' (db1, []))
   \<and> abortedMultipleRecords db1
       (AddSetMembers memPkg manyRepo ''o_1'' ''hsst_1'' 1 [''hst_2''] (db1, []))
   \<and> fst (AddSetMembers memPkg manyRepo ''o_1'' ''hsst_1'' 1 [''hst_2''] (db1, [])) =
       Inl (Err MultipleRecords ''0GujNHKBfu'' []
         (Some (Err MultipleRecords ''t0nw1GFJ4v'' [] None)))"
proof -
  have u: "w_UpdateHost (writer manyRepo) host1 [''Name''] [] ''wrapper o_1''
      (hostOplog memPkg host1 OP_TYPE_UPDATE) 1 db1 = (Inr (2, host1), db1\<lparr>m_hosts := []\<rparr>)"
    by (simp add: manyRepo_def manyWriter_def)
  show ?thesis
    using more_than_one_row_aborts [of manyRepo host1 "[''Name'']" "[]" "''wrapper o_1''" memPkg 1
        db1 2 host1 "db1\<lparr>m_hosts := []\<rparr>" 2 "[GetWrapperCall ''o_1'']"]
      more_than_one_row_aborts [where r = manyRepo and d = db1 and p = memPkg
        and scopeId = "''o_1''" and h = "Some (Some host1)" and version = 1
        and fieldMask = "[''Name'']" and publicId = "''hst_1''" and setId = "''hsst_1''"
        and hostIds = "[''hst_2'']"]
      manyRows_manyRepo many_runs u
    by simp
qed

section \<open>The wrapper is resolved before the transaction (C1)\<close>

lemma quiet_attempts:
  "filter isGetWrapper bevs = [] \<Longrightarrow>
     filter isGetWrapper (concat (replicate k (TxBegin # bevs @ [TxRollback]))) = []"
  by (induction k) simp_all

lemma quiet_no_call: "filter isGetWrapper tx = [] \<Longrightarrow> GetWrapperCall s \<notin> set tx"
  by (induction tx) (auto split: if_splits)

lemma DoTx_events:
  assumes "DoTx wr n Handler (d, evs0) = (res, (d', evs))"
    and "filter isGetWrapper (snd (snd (Handler (d, [])))) = []"
  shows "\<exists>tx. evs = evs0 @ TxBegin # tx \<and> filter isGetWrapper tx = []
           \<and> (\<forall>s. GetWrapperCall s \<notin> set tx)"
proof (cases res)
  case (Inl err)
  from DoTx_failure [OF assms(1) [unfolded Inl]] obtain k where
    "evs = evs0 @ concat (replicate (Suc k) (TxBegin # snd (snd (Handler (d, []))) @ [TxRollback]))"
    by blast
  then have "evs = evs0 @ TxBegin # (snd (snd (Handler (d, []))) @ [TxRollback]
      @ concat (replicate k (TxBegin # snd (snd (Handler (d, []))) @ [TxRollback])))"
    by simp
  moreover have "filter isGetWrapper (snd (snd (Handler (d, []))) @ [TxRollback]
      @ concat (replicate k (TxBegin # snd (snd (Handler (d, []))) @ [TxRollback]))) = []"
    using assms(2) quiet_attempts [OF assms(2), of k] by simp
  ultimately show ?thesis
    using quiet_no_call by blast
next
  case (Inr a)
  from DoTx_success [OF assms(1) [unfolded Inr]] obtain bevs where
    "Handler (d, []) = (Inr a, (d', bevs))" "evs = evs0 @ TxBegin # bevs @ [TxCommit]"
    by blast
  with assms(2) have "evs = evs0 @ TxBegin # (bevs @ [TxCommit])"
    "filter isGetWrapper (bevs @ [TxCommit]) = []"
    by simp_all
  then show ?thesis
    using quiet_no_call by blast
qed

lemma AddSetMembers_DoTx_quiet:
  assumes "DoTx wr n (AddSetMembers_tx p r ow setId v ms) (d, evs0) = (res, (d', evs))"
  shows "\<exists>tx. evs = evs0 @ TxBegin # tx \<and> filter isGetWrapper tx = []
           \<and> (\<forall>s. GetWrapperCall s \<notin> set tx)"
proof (rule DoTx_events [OF assms])
  show "filter isGetWrapper (snd (snd (AddSetMembers_tx p r ow setId v ms (d, [])))) = []"
    using AddSetMembers_tx_step [of p r ow setId v ms "(d, [])"]
    by (cases "AddSetMembers_tx p r ow setId v ms (d, [])") auto
qed

lemma DeleteSetMembers_DoTx_quiet:
  assumes "DoTx wr n (DeleteSetMembers_tx p r ow setId v ms) (d, evs0) = (res, (d', evs))"
  shows "\<exists>tx. evs = evs0 @ TxBegin # tx \<and> filter isGetWrapper tx = []
           \<and> (\<forall>s. GetWrapperCall s \<notin> set tx)"
proof (rule DoTx_events [OF assms])
  show "filter isGetWrapper (snd (snd (DeleteSetMembers_tx p r ow setId v ms (d, [])))) = []"
    using DeleteSetMembers_tx_step [of p r ow setId v ms "(d, [])"]
    by (cases "DeleteSetMembers_tx p r ow setId v ms (d, [])") auto
qed

lemma SetSetMembers_DoTx_quiet:
  assumes "DoTx wr n (SetSetMembers_tx p r ow setId v ds as) (d, evs0) = (res, (d', evs))"
  shows "\<exists>tx. evs = evs0 @ TxBegin # tx \<and> filter isGetWrapper tx = []
           \<and> (\<forall>s. GetWrapperCall s \<notin> set tx)"
proof (rule DoTx_events [OF assms])
  show "filter isGetWrapper (snd (snd (SetSetMembers_tx p r ow setId v ds as (d, [])))) = []"
    using SetSetMembers_tx_step [of p r ow setId v ds as "(d, [])"]
    by (cases "SetSetMembers_tx p r ow setId v ds as (d, [])") auto
qed

lemma UpdateHost_DoTx_quiet:
  assumes "DoTx wr n (UpdateHost_tx p r ow h m nf v) (d, evs0) = (res, (d', evs))"
  shows "\<exists>tx. evs = evs0 @ TxBegin # tx \<and> filter isGetWrapper tx = []
           \<and> (\<forall>s. GetWrapperCall s \<notin> set tx)"
proof (rule DoTx_events [OF assms])
  show "filter isGetWrapper (snd (snd (UpdateHost_tx p r ow h m nf v (d, [])))) = []"
    using UpdateHost_tx_step [of p r ow h m nf v "(d, [])"]
    by (cases "UpdateHost_tx p r ow h m nf v (d, [])") auto
qed

lemma DeleteHost_DoTx_quiet:
  assumes "DoTx wr n (DeleteHost_tx p r ow h) (d, evs0) = (res, (d', evs))"
  shows "\<exists>tx. evs = evs0 @ TxBegin # tx \<and> filter isGetWrapper tx = []
           \<and> (\<forall>s. GetWrapperCall s \<notin> set tx)"
proof (rule DoTx_events [OF assms])
  show "filter isGetWrapper (snd (snd (DeleteHost_tx p r ow h (d, [])))) = []"
    using DeleteHost_tx_step [of p r ow h "(d, [])"]
    by (cases "DeleteHost_tx p r ow h (d, [])") auto
qed

lemma UpdateCatalog_DoTx_quiet:
  assumes "DoTx wr n (UpdateCatalog_tx r ow md c m nf v) (d, evs0) = (res, (d', evs))"
  shows "\<exists>tx. evs = evs0 @ TxBegin # tx \<and> filter isGetWrapper tx = []
           \<and> (\<forall>s. GetWrapperCall s \<notin> set tx)"
proof (rule DoTx_events [OF assms])
  show "filter isGetWrapper (snd (snd (UpdateCatalog_tx r ow md c m nf v (d, [])))) = []"
    using UpdateCatalog_tx_step [of r ow md c m nf v "(d, [])"]
    by (cases "UpdateCatalog_tx r ow md c m nf v (d, [])") auto
qed

lemma DeleteCatalog_DoTx_quiet:
  assumes "DoTx wr n (DeleteCatalog_tx r ow md c) (d, evs0) = (res, (d', evs))"
  shows "\<exists>tx. evs = evs0 @ TxBegin # tx \<and> filter isGetWrapper tx = []
           \<and> (\<forall>s. GetWrapperCall s \<notin> set tx)"
proof (rule DoTx_events [OF assms])
  show "filter isGetWrapper (snd (snd (DeleteCatalog_tx r ow md c (d, [])))) = []"
    using DeleteCatalog_tx_step [of r ow md c "(d, [])"]
    by (cases "DeleteCatalog_tx r ow md c (d, [])") auto
qed

lemma Create_DoTx_quiet:
  assumes "DoTx wr n (writerCall (CreateCall pid ow md) f) (d, evs0) = (res, (d', evs))"
  shows "\<exists>tx. evs = evs0 @ TxBegin # tx \<and> filter isGetWrapper tx = []
           \<and> (\<forall>s. GetWrapperCall s \<notin> set tx)"
proof (rule DoTx_events [OF assms])
  show "filter isGetWrapper (snd (snd (writerCall (CreateCall pid ow md) f (d, [])))) = []"
    by (simp add: writerCall_def split: prod.splits)
qed

lemma AddSetMembers_wrapperFirst:
  "wrapperFirst (kms r) d (AddSetMembers p r scopeId setId version hostIds (d, []))"
  by (auto simp: wrapperFirst_def resolvedBeforeTx_def AddSetMembers_def GetWrapper_def
      split: sum.splits prod.splits dest!: AddSetMembers_DoTx_quiet)

lemma DeleteSetMembers_wrapperFirst:
  "wrapperFirst (kms r) d (DeleteSetMembers p r scopeId setId version hostIds (d, []))"
  by (auto simp: wrapperFirst_def resolvedBeforeTx_def DeleteSetMembers_def GetWrapper_def
      split: sum.splits prod.splits dest!: DeleteSetMembers_DoTx_quiet)

lemma SetSetMembers_wrapperFirst:
  "wrapperFirst (kms r) d (SetSetMembers p r scopeId setId version hostIds (d, []))"
proof -
  obtain cres w1 where ch: "changes p (reader r) setId hostIds (d, []) = (cres, w1)"
    by (metis prod.exhaust)
  from changes_step [OF ch] obtain q where w1: "w1 = (d, [QueryCall q (setId # hostIds)])"
    by (cases w1) auto
  show ?thesis
    by (auto simp: wrapperFirst_def resolvedBeforeTx_def SetSetMembers_def GetWrapper_def ch w1
        split: sum.splits prod.splits dest!: SetSetMembers_DoTx_quiet)
qed

lemma CreateHost_wrapperFirst:
  "wrapperFirst (kms r) d (CreateHost p r scopeId h opts (d, []))"
  by (auto simp: wrapperFirst_def resolvedBeforeTx_def CreateHost_def GetWrapper_def Let_def
        newHostId_def
      split: option.splits sum.splits prod.splits dest!: Create_DoTx_quiet)

lemma UpdateHost_wrapperFirst:
  "wrapperFirst (kms r) d (UpdateHost p r scopeId h version fieldMaskPaths (d, []))"
  by (auto simp: wrapperFirst_def resolvedBeforeTx_def UpdateHost_def GetWrapper_def Let_def
      split: option.splits sum.splits prod.splits dest!: UpdateHost_DoTx_quiet)

lemma DeleteHost_wrapperFirst:
  "wrapperFirst (kms r) d (DeleteHost p r scopeId publicId (d, []))"
  by (auto simp: wrapperFirst_def resolvedBeforeTx_def DeleteHost_def GetWrapper_def Let_def
      split: option.splits sum.splits prod.splits dest!: DeleteHost_DoTx_quiet)

lemma CreateCatalog_wrapperFirst:
  "wrapperFirst (kms r) d (CreateCatalog p r c opts (d, []))"
  by (auto simp: wrapperFirst_def resolvedBeforeTx_def CreateCatalog_def GetWrapper_def Let_def
        newHostCatalogId_def
      split: option.splits sum.splits prod.splits dest!: Create_DoTx_quiet)

lemma UpdateCatalog_wrapperFirst:
  "wrapperFirst (kms r) d (UpdateCatalog p r c version fieldMask (d, []))"
  by (auto simp: wrapperFirst_def resolvedBeforeTx_def UpdateCatalog_def GetWrapper_def Let_def
      split: option.splits sum.splits prod.splits dest!: UpdateCatalog_DoTx_quiet)

lemma DeleteCatalog_wrapperFirst:
  "wrapperFirst (kms r) d (DeleteCatalog p r cid (d, []))"
  by (auto simp: wrapperFirst_def resolvedBeforeTx_def DeleteCatalog_def GetWrapper_def Let_def
        readerCall_def
      split: option.splits sum.splits prod.splits dest!: DeleteCatalog_DoTx_quiet)

text \<open>
  C1, as amended. In every run of the nine operations that write an oplog entry, the
  wrapper is resolved at most once and before the transaction is opened, never inside
  it; a transaction is opened only after the wrapper was resolved; and when the
  resolution fails, no transaction is opened, no write is made (the store is as it
  was), and the operation returns the failure wrapped with the message "unable to get
  oplog wrapper". So a retry of the transaction does not resolve the wrapper again.
\<close>

theorem wrapper_resolved_before_transaction:
  "wrapperFirst (kms r) d (AddSetMembers p r scopeId setId version hostIds (d, []))
   \<and> wrapperFirst (kms r) d (DeleteSetMembers p r scopeId setId version hostIds (d, []))
   \<and> wrapperFirst (kms r) d (SetSetMembers p r scopeId setId version hostIds (d, []))
   \<and> wrapperFirst (kms r) d (CreateHost p r scopeId h opts (d, []))
   \<and> wrapperFirst (kms r) d (UpdateHost p r scopeId h version fieldMask (d, []))
   \<and> wrapperFirst (kms r) d (DeleteHost p r scopeId publicId (d, []))
   \<and> wrapperFirst (kms r) d (CreateCatalog p r c opts (d, []))
   \<and> wrapperFirst (kms r) d (UpdateCatalog p r c version fieldMask (d, []))
   \<and> wrapperFirst (kms r) d (DeleteCatalog p r publicId (d, []))"
  by (intro conjI AddSetMembers_wrapperFirst DeleteSetMembers_wrapperFirst
      SetSetMembers_wrapperFirst CreateHost_wrapperFirst UpdateHost_wrapperFirst
      DeleteHost_wrapperFirst CreateCatalog_wrapperFirst UpdateCatalog_wrapperFirst
      DeleteCatalog_wrapperFirst)

lemma no_kms_run:
  "CreateHost memPkg noKmsRepo ''o_1'' (Some (Some newHost)) noOpts (db1, []) =
     (Inl (Err Unknown ''7RQyYaqQX2'' ''unable to get oplog wrapper''
        (Some (StdError ''kms unavailable''))),
      (db1, [NewPublicIdCall ''hst'', GetWrapperCall ''o_1'']))"
  by code_simp

theorem wrapper_resolved_before_transaction_witness:
  "wrapperFirst (kms noKmsRepo) db1
     (CreateHost memPkg noKmsRepo ''o_1'' (Some (Some newHost)) noOpts (db1, []))
   \<and> CreateHost memPkg noKmsRepo ''o_1'' (Some (Some newHost)) noOpts (db1, []) =
       (Inl (Err Unknown ''7RQyYaqQX2'' ''unable to get oplog wrapper''
          (Some (StdError ''kms unavailable''))),
        (db1, [NewPublicIdCall ''hst'', GetWrapperCall ''o_1'']))
   \<and> wrapperFirst (kms memRepo) db1
       (SetSetMembers memPkg memRepo ''o_1'' ''hsst_1'' 1 [''hst_2''] (db1, []))"
  using wrapper_resolved_before_transaction [of noKmsRepo db1 memPkg "''o_1''" "''hsst_1''" 1
      "[''hst_2'']" "Some (Some newHost)" noOpts "[]" "''hst_1''" None]
    wrapper_resolved_before_transaction [of memRepo db1 memPkg "''o_1''" "''hsst_1''" 1
      "[''hst_2'']" "Some (Some newHost)" noOpts "[]" "''hst_1''" None]
    no_kms_run
  by simp

text \<open>
  The claim as stated fails. \<open>CreateHost\<close> on the store in memory resolves the wrapper
  before it opens the transaction, not inside it. With a store whose creation fails
  with a transient error the transaction is tried three times and the wrapper resolved
  once. With a key manager that fails, no transaction is opened: there is none to
  abort or roll back.
\<close>

theorem wrapper_resolved_before_transaction_counterexample:
  "snd (snd (CreateHost memPkg memRepo ''o_1'' (Some (Some newHost)) noOpts (db1, []))) =
     [NewPublicIdCall ''hst'', GetWrapperCall ''o_1'', TxBegin,
      CreateCall ''hst_1234567890'' ''wrapper o_1''
        [(''resource-public-id'', [''hst_1234567890'']), (''resource-type'', [''static-host'']),
         (''op-type'', [''OP_TYPE_CREATE''])],
      TxCommit]
   \<and> \<not> insideTx False
        (snd (snd (CreateHost memPkg memRepo ''o_1'' (Some (Some newHost)) noOpts (db1, []))))
   \<and> length (filter (\<lambda>ev. ev = TxBegin)
        (snd (snd (CreateHost memPkg busyRepo ''o_1'' (Some (Some newHost)) noOpts (db1, []))))) = 3
   \<and> length (filter isGetWrapper
        (snd (snd (CreateHost memPkg busyRepo ''o_1'' (Some (Some newHost)) noOpts (db1, []))))) = 1
   \<and> snd (snd (CreateHost memPkg noKmsRepo ''o_1'' (Some (Some newHost)) noOpts (db1, []))) =
       [NewPublicIdCall ''hst'', GetWrapperCall ''o_1'']"
  by code_simp

end
